theory Spec2Isabelle
  imports Complex_Main "HOL-Library.Sublist" "HOL-Library.AList"
    "HOL-Library.Char_ord" "HOL-Library.List_Lexorder" "HOL-Library.Multiset"
begin

section \<open>Numbers, sorting and strings of the host language\<close>

text \<open>
  The calculators work on TypeScript values of type \<open>number\<close>, IEEE 754 doubles. Every
  finite double is a rational number, and the model keeps numbers as rationals; \<open>NaN\<close>
  and the infinities do not occur. Counts of lots (volumes, open interest, net positions)
  are integers, on which the sums, differences and comparisons of doubles are exact, and
  are computed exactly. Where the synthesizer divides and multiplies prices, every
  operation is rounded to a double as the machine does (\<open>fadd\<close>, \<open>fmul\<close>, \<open>fdiv\<close>
  below); the remaining arithmetic (profits, shares in percent) is kept exact.
  \<open>x || 0\<close> on a number is \<open>x\<close> itself (\<open>or0\<close>).
\<close>

type_synonym number = rat

definition or0 :: "number \<Rightarrow> number" where
  "or0 x = (if x = 0 then 0 else x)"

text \<open>\<open>Math.round\<close>: the nearest integer, a tie going towards plus infinity.\<close>

definition js_round :: "number \<Rightarrow> number" where
  "js_round x = of_int \<lfloor>x + 1 / 2\<rfloor>"

text \<open>
  Rounding to a double. A double other than 0 is \<open>m * 2 ^ (e - 52)\<close> with an integer
  \<open>m\<close> of at most 53 bits and an exponent \<open>e\<close> of at least \<open>-1022\<close>. \<open>ilog2 x\<close> is
  the integer \<open>e\<close> with \<open>2 ^ e \<le> x < 2 ^ (e + 1)\<close> for a positive \<open>x\<close>, and \<open>fl x\<close> is
  the double nearest to \<open>x\<close>, a tie going to the even \<open>m\<close>: the rounding of every
  arithmetic operation. Results beyond the largest double (overflow) are not modelled.
\<close>

definition pow2 :: "int \<Rightarrow> rat" where
  "pow2 k = (if 0 \<le> k then 2 ^ nat k else 1 / 2 ^ nat (- k))"

function ilog2 :: "rat \<Rightarrow> int" where
  "ilog2 x =
     (if x \<le> 0 then 0
      else if 2 \<le> x then ilog2 (x / 2) + 1
      else if x < 1 then ilog2 (x * 2) - 1
      else 0)"
  by pat_completeness auto
termination
proof (relation "measure (\<lambda>x. if 1 \<le> x then nat \<lfloor>x\<rfloor> else nat \<lfloor>1 / x\<rfloor> + 1)")
  show "wf (measure (\<lambda>x::rat. if 1 \<le> x then nat \<lfloor>x\<rfloor> else nat \<lfloor>1 / x\<rfloor> + 1))" by simp
next
  fix x :: rat assume "\<not> x \<le> 0" and x: "2 \<le> x"
  have "\<lfloor>x / 2\<rfloor> < \<lfloor>x\<rfloor>" using x by (simp add: floor_less_iff) linarith
  moreover have "0 < \<lfloor>x\<rfloor>" using x by simp
  ultimately show "(x / 2, x) \<in> measure (\<lambda>x. if 1 \<le> x then nat \<lfloor>x\<rfloor> else nat \<lfloor>1 / x\<rfloor> + 1)"
    using x by simp
next
  fix x :: rat assume pos: "\<not> x \<le> 0" and "\<not> 2 \<le> x" and x: "x < 1"
  show "(x * 2, x) \<in> measure (\<lambda>x. if 1 \<le> x then nat \<lfloor>x\<rfloor> else nat \<lfloor>1 / x\<rfloor> + 1)"
  proof (cases "1 \<le> x * 2")
    case True
    then have "\<lfloor>x * 2\<rfloor> = 1" using x by (simp add: floor_eq_iff)
    moreover have "1 \<le> \<lfloor>1 / x\<rfloor>" using pos x by (simp add: le_floor_iff)
    ultimately show ?thesis using True x by simp
  next
    case False
    then have "2 < 1 / x" using pos by (simp add: field_simps)
    have "1 / (x * 2) = (1 / x) / 2" by simp
    then have "\<lfloor>1 / (x * 2)\<rfloor> < \<lfloor>1 / x\<rfloor>"
      using \<open>2 < 1 / x\<close> by (simp add: floor_less_iff) linarith
    moreover have "0 < \<lfloor>1 / x\<rfloor>" using \<open>2 < 1 / x\<close> by (simp add: floor_less_iff less_floor_iff)
    ultimately show ?thesis using False x by simp
  qed
qed

declare ilog2.simps [simp del]

definition round_half_even :: "rat \<Rightarrow> int" where
  "round_half_even y =
     (let f = \<lfloor>y\<rfloor>; d = y - of_int f
      in if d < 1 / 2 then f else if 1 / 2 < d then f + 1 else if even f then f else f + 1)"

definition fl :: "rat \<Rightarrow> rat" where
  "fl x =
     (if x = 0 then 0
      else
        let e = max (ilog2 \<bar>x\<bar>) (- 1022);
            q = pow2 (e - 52)
        in q * of_int (round_half_even (x / q)))"

definition fadd :: "number \<Rightarrow> number \<Rightarrow> number" where
  "fadd a b = fl (a + b)"

definition fmul :: "number \<Rightarrow> number \<Rightarrow> number" where
  "fmul a b = fl (a * b)"

definition fdiv :: "number \<Rightarrow> number \<Rightarrow> number" where
  "fdiv a b = fl (a / b)"

text \<open>
  \<open>Array.prototype.sort\<close> is a stable sort. With the comparator
  \<open>(a, b) => f(b) - f(a)\<close> it sorts by \<open>f\<close> descending and keeps the input order of
  elements with equal \<open>f\<close> (\<open>sort_desc\<close>); with \<open>(a, b) => f(a) - f(b)\<close>, or
  \<open>localeCompare\<close> on dates written YYYY-MM-DD, it is \<open>sort_key f\<close>, an insertion
  sort that is stable as well. Dates are strings compared character by character.
\<close>

definition sort_desc :: "('a \<Rightarrow> 'k::linorder) \<Rightarrow> 'a list \<Rightarrow> 'a list" where
  "sort_desc f xs = rev (sort_key f (rev xs))"

text \<open>\<open>s.replace(/\d+/g, '')\<close> deletes every decimal digit of \<open>s\<close>.\<close>

definition strip_digits :: "string \<Rightarrow> string" where
  "strip_digits s = filter (\<lambda>c. c \<notin> set ''0123456789'') s"

text \<open>The position at which a value first occurs in a list (the length if it does not).\<close>

definition first_pos :: "'a \<Rightarrow> 'a list \<Rightarrow> nat" where
  "first_pos k xs = length (takeWhile (\<lambda>y. y \<noteq> k) xs)"

section \<open>Seat position aggregator\<close>

text \<open>
  The raw holding of one seat in one contract on one day, and the summary of one seat
  over all contracts of a commodity. Fields of the raw record carry the prefix \<open>h_\<close>;
  the \<open>id\<close> field, which no calculator reads, is left out.
\<close>

record holding_raw =
  h_trade_date :: string
  h_contract_id :: string
  h_secShortName :: string
  h_seat_name :: string
  h_long_vol :: number
  h_short_vol :: number
  h_long_chg :: number
  h_short_chg :: number

record seat_analysis =
  trade_date :: string
  commodity_id :: string
  commodity_name :: string
  seat_name :: string
  long_vol :: number
  short_vol :: number
  long_chg :: number
  short_chg :: number
  net_vol :: number
  net_chg :: number

text \<open>
  One round of the \<open>forEach\<close> over the matching holdings. \<open>seatMap\<close> is a JavaScript
  \<open>Map\<close>: an association list in insertion order, where writing an existing key keeps
  the key's place and a new key goes to the end (\<open>AList.update\<close>).
\<close>

definition seat_step ::
  "string \<Rightarrow> string \<Rightarrow> holding_raw \<Rightarrow> (string \<times> seat_analysis) list
     \<Rightarrow> (string \<times> seat_analysis) list" where
  "seat_step commodityId tradeDate item seatMap =
     (case map_of seatMap (h_seat_name item) of
        Some existing \<Rightarrow>
          AList.update (h_seat_name item)
            (existing\<lparr>long_vol := long_vol existing + h_long_vol item,
                       short_vol := short_vol existing + h_short_vol item,
                       long_chg := long_chg existing + h_long_chg item,
                       short_chg := short_chg existing + h_short_chg item\<rparr>) seatMap
      | None \<Rightarrow>
          AList.update (h_seat_name item)
            \<lparr>trade_date = tradeDate, commodity_id = commodityId,
             commodity_name = strip_digits (h_secShortName item),
             seat_name = h_seat_name item,
             long_vol = h_long_vol item, short_vol = h_short_vol item,
             long_chg = h_long_chg item, short_chg = h_short_chg item,
             net_vol = 0, net_chg = 0\<rparr> seatMap)"

definition with_net :: "seat_analysis \<Rightarrow> seat_analysis" where
  "with_net item = item\<lparr>net_vol := long_vol item - short_vol item,
                         net_chg := long_chg item - short_chg item\<rparr>"

definition commodityHoldings :: "holding_raw list \<Rightarrow> string \<Rightarrow> string \<Rightarrow> holding_raw list" where
  "commodityHoldings holdingData commodityId tradeDate =
     filter (\<lambda>item. h_trade_date item = tradeDate \<and> prefix commodityId (h_contract_id item))
       holdingData"

definition calculateSeatAnalysis ::
  "holding_raw list \<Rightarrow> string \<Rightarrow> string \<Rightarrow> seat_analysis list" where
  "calculateSeatAnalysis holdingData commodityId tradeDate =
     (let hs = commodityHoldings holdingData commodityId tradeDate in
      if hs = [] then []
      else
        let seatMap = fold (seat_step commodityId tradeDate) hs [];
            seatAnalysisData = map with_net (map snd seatMap)
        in sort_desc (\<lambda>s. \<bar>net_vol s\<bar>) seatAnalysisData)"

text \<open>The holdings of one seat among the matching ones, as the specification names them.\<close>

definition seat_holdings ::
  "holding_raw list \<Rightarrow> string \<Rightarrow> string \<Rightarrow> string \<Rightarrow> holding_raw list" where
  "seat_holdings holdingData commodityId tradeDate seat =
     filter (\<lambda>h. h_trade_date h = tradeDate \<and> prefix commodityId (h_contract_id h)
                 \<and> h_seat_name h = seat) holdingData"

text \<open>
  What the \<open>Map\<close> holds for a seat once the non-empty list \<open>hs\<close> of its holdings has
  been folded in: the sums of the four volumes, the names taken from the first holding.
\<close>

definition seat_row :: "string \<Rightarrow> string \<Rightarrow> holding_raw list \<Rightarrow> seat_analysis" where
  "seat_row commodityId tradeDate hs =
     \<lparr>trade_date = tradeDate, commodity_id = commodityId,
      commodity_name = strip_digits (h_secShortName (hd hs)),
      seat_name = h_seat_name (hd hs),
      long_vol = sum_list (map h_long_vol hs), short_vol = sum_list (map h_short_vol hs),
      long_chg = sum_list (map h_long_chg hs), short_chg = sum_list (map h_short_chg hs),
      net_vol = 0, net_chg = 0\<rparr>"

text \<open>
  Example input: seat A holds two copper contracts, seat B one; a zinc contract and
  another day are in the data as well.
\<close>

definition example_holdings :: "holding_raw list" where
  "example_holdings =
     [\<lparr>h_trade_date = ''2024-01-02'', h_contract_id = ''cu2401'', h_secShortName = ''cu2401'',
       h_seat_name = ''A'', h_long_vol = 10, h_short_vol = 40, h_long_chg = 1, h_short_chg = 2\<rparr>,
      \<lparr>h_trade_date = ''2024-01-02'', h_contract_id = ''zn2401'', h_secShortName = ''zn2401'',
       h_seat_name = ''A'', h_long_vol = 7, h_short_vol = 0, h_long_chg = 0, h_short_chg = 0\<rparr>,
      \<lparr>h_trade_date = ''2024-01-02'', h_contract_id = ''cu2402'', h_secShortName = ''cu2402'',
       h_seat_name = ''B'', h_long_vol = 50, h_short_vol = 20, h_long_chg = 5, h_short_chg = 0\<rparr>,
      \<lparr>h_trade_date = ''2024-01-03'', h_contract_id = ''cu2402'', h_secShortName = ''cu2402'',
       h_seat_name = ''B'', h_long_vol = 90, h_short_vol = 0, h_long_chg = 0, h_short_chg = 0\<rparr>,
      \<lparr>h_trade_date = ''2024-01-02'', h_contract_id = ''cu2402'', h_secShortName = ''cu2402'',
       h_seat_name = ''A'', h_long_vol = 20, h_short_vol = 20, h_long_chg = 3, h_short_chg = 1\<rparr>]"

definition example_row_A :: seat_analysis where
  "example_row_A =
     \<lparr>trade_date = ''2024-01-02'', commodity_id = ''cu'', commodity_name = ''cu'',
      seat_name = ''A'', long_vol = 30, short_vol = 60, long_chg = 4, short_chg = 3,
      net_vol = - 30, net_chg = 1\<rparr>"

definition example_row_B :: seat_analysis where
  "example_row_B =
     \<lparr>trade_date = ''2024-01-02'', commodity_id = ''cu'', commodity_name = ''cu'',
      seat_name = ''B'', long_vol = 50, short_vol = 20, long_chg = 5, short_chg = 0,
      net_vol = 30, net_chg = 5\<rparr>"

section \<open>Weighted contract synthesizer\<close>

text \<open>
  A market record of one contract on one day and the synthesized record of a commodity.
  Fields of the market record carry the prefix \<open>m_\<close>, those of the synthesized record
  \<open>w_\<close>; the fields of a market record that the synthesizer does not read
  (previous close and settle, turnover, the two flags, the contract unit) are left out.
\<close>

record market_data =
  m_trade_date :: string
  m_contract_id :: string
  m_secShortName :: string
  m_open :: number
  m_high :: number
  m_low :: number
  m_close :: number
  m_settle :: number
  m_volume :: number
  m_open_interest :: number

record weighted_contract =
  w_trade_date :: string
  w_commodity_id :: string
  w_commodity_name :: string
  w_open :: number
  w_high :: number
  w_low :: number
  w_close :: number
  w_settle :: number
  w_volume :: number
  w_open_interest :: number

text \<open>
  The accumulator of the \<open>reduce\<close> that adds up the weighted prices, and its step:
  the weight is a quotient of doubles, each price is multiplied by it and added to the
  running sum, and every one of these operations rounds.
\<close>

record prices =
  p_open :: number
  p_high :: number
  p_low :: number
  p_close :: number
  p_settle :: number

definition weigh_step :: "number \<Rightarrow> prices \<Rightarrow> market_data \<Rightarrow> prices" where
  "weigh_step totalOpenInterest acc item =
     (let weight = fdiv (or0 (m_open_interest item)) totalOpenInterest
      in \<lparr>p_open = fadd (p_open acc) (fmul (or0 (m_open item)) weight),
          p_high = fadd (p_high acc) (fmul (or0 (m_high item)) weight),
          p_low = fadd (p_low acc) (fmul (or0 (m_low item)) weight),
          p_close = fadd (p_close acc) (fmul (or0 (m_close item)) weight),
          p_settle = fadd (p_settle acc) (fmul (or0 (m_settle item)) weight)\<rparr>)"

text \<open>
  The result is \<open>None\<close> where the source returns \<open>null\<close>. The \<open>catch\<close> block of the
  source rethrows what the body throws, and on records of the declared type no step of
  the body throws, so that the model has no error value. The truth test
  \<open>item.open_interest && item.open_interest > 0\<close> reads: not zero, and positive. The
  totals of open interest and volume are sums of counts and exact;
  \<open>Math.round(x * 100) / 100\<close> multiplies and divides doubles.
\<close>

definition calculateWeightedContract ::
  "market_data list \<Rightarrow> string \<Rightarrow> string \<Rightarrow> weighted_contract option" where
  "calculateWeightedContract marketData commodityId tradeDate =
     (let commodityContracts =
            filter (\<lambda>item. m_trade_date item = tradeDate \<and>
                            prefix commodityId (m_contract_id item) \<and>
                            m_open_interest item \<noteq> 0 \<and>
                            m_open_interest item > 0) marketData
      in if length commodityContracts = 0 then None
         else
           let totalOpenInterest =
                 foldl (\<lambda>sum item. sum + or0 (m_open_interest item)) 0 commodityContracts;
               totalVolume =
                 foldl (\<lambda>sum item. sum + or0 (m_volume item)) 0 commodityContracts
           in if totalOpenInterest = 0 then None
              else
                let weightedPrices =
                      foldl (weigh_step totalOpenInterest)
                        \<lparr>p_open = 0, p_high = 0, p_low = 0, p_close = 0, p_settle = 0\<rparr>
                        commodityContracts;
                    commodityName = strip_digits (m_secShortName (hd commodityContracts))
                in Some \<lparr>w_trade_date = tradeDate,
                          w_commodity_id = commodityId,
                          w_commodity_name = commodityName,
                          w_open = fdiv (js_round (fmul (p_open weightedPrices) 100)) 100,
                          w_high = fdiv (js_round (fmul (p_high weightedPrices) 100)) 100,
                          w_low = fdiv (js_round (fmul (p_low weightedPrices) 100)) 100,
                          w_close = fdiv (js_round (fmul (p_close weightedPrices) 100)) 100,
                          w_settle = fdiv (js_round (fmul (p_settle weightedPrices) 100)) 100,
                          w_volume = totalVolume,
                          w_open_interest = totalOpenInterest\<rparr>)"

text \<open>
  The words of the specification: the qualifying records of a commodity and a day, the
  weight of a constituent, rounding to two decimals (the nearest hundredth), and a price
  field as the rounded sum of the weighted prices, all in exact arithmetic.
\<close>

definition qualifying :: "market_data list \<Rightarrow> string \<Rightarrow> string \<Rightarrow> market_data list" where
  "qualifying marketData commodityId tradeDate =
     filter (\<lambda>m. m_trade_date m = tradeDate \<and> prefix commodityId (m_contract_id m) \<and>
                 0 < m_open_interest m) marketData"

definition weight :: "market_data list \<Rightarrow> market_data \<Rightarrow> number" where
  "weight cs m = m_open_interest m / sum_list (map m_open_interest cs)"

definition round2 :: "number \<Rightarrow> number" where
  "round2 x = of_int \<lfloor>x * 100 + 1 / 2\<rfloor> / 100"

definition spec_weighted :: "(market_data \<Rightarrow> number) \<Rightarrow> market_data list \<Rightarrow> number" where
  "spec_weighted field cs = round2 (sum_list (map (\<lambda>m. field m * weight cs m) cs))"

text \<open>
  The same in the arithmetic of doubles: the weight as a rounded quotient, the weighted
  prices as rounded products, their sum taken from 0 in the order of the records with
  every addition rounded, and the double nearest to the hundredths that \<open>Math.round\<close>
  gives.
\<close>

definition fl_weight :: "market_data list \<Rightarrow> market_data \<Rightarrow> number" where
  "fl_weight cs m = fdiv (m_open_interest m) (sum_list (map m_open_interest cs))"

definition fl_sum :: "number list \<Rightarrow> number" where
  "fl_sum xs = foldl fadd 0 xs"

definition fl_round2 :: "number \<Rightarrow> number" where
  "fl_round2 x = fdiv (of_int \<lfloor>fmul x 100 + 1 / 2\<rfloor>) 100"

definition fl_weighted :: "(market_data \<Rightarrow> number) \<Rightarrow> market_data list \<Rightarrow> number" where
  "fl_weighted field cs = fl_round2 (fl_sum (map (\<lambda>m. fmul (field m) (fl_weight cs m)) cs))"

text \<open>Example input: contracts A (open interest 100, close 10) and B (300, 20).\<close>

definition example_market :: "market_data list" where
  "example_market =
     [\<lparr>m_trade_date = ''2024-01-02'', m_contract_id = ''cu2401'', m_secShortName = ''cu2401'',
       m_open = 9, m_high = 11, m_low = 8, m_close = 10, m_settle = 10,
       m_volume = 5, m_open_interest = 100\<rparr>,
      \<lparr>m_trade_date = ''2024-01-02'', m_contract_id = ''cu2402'', m_secShortName = ''cu2402'',
       m_open = 19, m_high = 21, m_low = 18, m_close = 20, m_settle = 20,
       m_volume = 7, m_open_interest = 300\<rparr>]"

text \<open>Example input: the only contract of the commodity has no open interest.\<close>

definition example_market_idle :: "market_data list" where
  "example_market_idle =
     [\<lparr>m_trade_date = ''2024-01-02'', m_contract_id = ''cu2401'', m_secShortName = ''cu2401'',
       m_open = 9, m_high = 11, m_low = 8, m_close = 10, m_settle = 10,
       m_volume = 0, m_open_interest = 0\<rparr>]"

text \<open>
  Example input: two contracts of open interest 1 and 2 that close at 0.125 and 0.875;
  the exact weighted close is 0.625, a tie between 0.62 and 0.63.
\<close>

definition example_market_tie :: "market_data list" where
  "example_market_tie =
     [\<lparr>m_trade_date = ''2024-01-02'', m_contract_id = ''cu2401'', m_secShortName = ''cu2401'',
       m_open = 1 / 8, m_high = 1 / 8, m_low = 1 / 8, m_close = 1 / 8, m_settle = 1 / 8,
       m_volume = 5, m_open_interest = 1\<rparr>,
      \<lparr>m_trade_date = ''2024-01-02'', m_contract_id = ''cu2402'', m_secShortName = ''cu2402'',
       m_open = 7 / 8, m_high = 7 / 8, m_low = 7 / 8, m_close = 7 / 8, m_settle = 7 / 8,
       m_volume = 7, m_open_interest = 2\<rparr>]"

section \<open>Indicator engine\<close>

text \<open>
  The breadth argument \<open>n: number | 'all'\<close> of the inner function \<open>calculateForTopN\<close>,
  and the selection \<open>n === 'all' ? xs : xs.slice(0, n)\<close>.
\<close>

datatype breadth = Top nat | All

definition select_top :: "breadth \<Rightarrow> 'a list \<Rightarrow> 'a list" where
  "select_top n xs = (case n of All \<Rightarrow> xs | Top k \<Rightarrow> take k xs)"

text \<open>
  Grouping by trading date: \<open>dateGroups\<close> is a \<open>Map\<close> from a date to the array of that
  date's rows, in the order in which the dates first occur; a row is pushed onto the array
  of its date, which is created empty when the date is new.
\<close>

definition group_step ::
  "seat_analysis \<Rightarrow> (string \<times> seat_analysis list) list \<Rightarrow> (string \<times> seat_analysis list) list" where
  "group_step item groups =
     (case map_of groups (trade_date item) of
        None \<Rightarrow> AList.update (trade_date item) ([] @ [item]) groups
      | Some dayData \<Rightarrow> AList.update (trade_date item) (dayData @ [item]) groups)"

definition dateGroups :: "seat_analysis list \<Rightarrow> (string \<times> seat_analysis list) list" where
  "dateGroups seatData = fold group_step seatData []"

subsection \<open>Real long-short\<close>

datatype side = Long | Short

record pool_entry =
  e_seat_name :: string
  e_volume :: number
  e_type :: side
  e_net_vol :: number

definition combinedVolumes :: "seat_analysis list \<Rightarrow> pool_entry list" where
  "combinedVolumes dayData =
     concat (map (\<lambda>seat.
        [\<lparr>e_seat_name = seat_name seat, e_volume = long_vol seat, e_type = Long,
          e_net_vol = net_vol seat\<rparr>,
         \<lparr>e_seat_name = seat_name seat, e_volume = short_vol seat, e_type = Short,
          e_net_vol = net_vol seat\<rparr>]) dayData)"

record real_result =
  realLong :: number
  realShort :: number
  realDiff :: number

text \<open>
  \<open>calculateForTopN\<close> of the real indicator, on the sorted pool of the day.
  \<open>involvedSeats\<close> is a \<open>Set\<close> of names; \<open>seatNetPositions\<close> is a \<open>Map\<close> from a
  name to a net position, written once for every row of the day whose name is involved.
\<close>

definition real_accumulate :: "string \<times> number \<Rightarrow> number \<times> number \<Rightarrow> number \<times> number" where
  "real_accumulate entry acc =
     (if snd entry > 0 then (fst acc + snd entry, snd acc)
      else if snd entry < 0 then (fst acc, snd acc + \<bar>snd entry\<bar>)
      else acc)"

definition real_calculateForTopN ::
  "seat_analysis list \<Rightarrow> pool_entry list \<Rightarrow> breadth \<Rightarrow> real_result" where
  "real_calculateForTopN dayData combined n =
     (let selectedItems = select_top n combined;
          involvedSeats = set (map e_seat_name selectedItems);
          seatNetPositions =
            fold (\<lambda>seat m. if seat_name seat \<in> involvedSeats
                            then AList.update (seat_name seat) (net_vol seat) m else m)
              dayData [];
          totals = fold real_accumulate seatNetPositions (0, 0)
      in \<lparr>realLong = fst totals, realShort = snd totals,
          realDiff = fst totals - snd totals\<rparr>)"

record real_long_short =
  r_trade_date :: string
  real_long_10 :: number
  real_long_20 :: number
  real_long_all :: number
  real_short_10 :: number
  real_short_20 :: number
  real_short_all :: number
  real_diff_10 :: number
  real_diff_20 :: number
  real_diff_all :: number

definition real_day :: "string \<times> seat_analysis list \<Rightarrow> real_long_short" where
  "real_day g =
     (let tradeDate = fst g; dayData = snd g;
          combined = sort_desc e_volume (combinedVolumes dayData);
          result10 = real_calculateForTopN dayData combined (Top 10);
          result20 = real_calculateForTopN dayData combined (Top 20);
          resultAll = real_calculateForTopN dayData combined All
      in \<lparr>r_trade_date = tradeDate,
          real_long_10 = realLong result10, real_long_20 = realLong result20,
          real_long_all = realLong resultAll,
          real_short_10 = realShort result10, real_short_20 = realShort result20,
          real_short_all = realShort resultAll,
          real_diff_10 = realDiff result10, real_diff_20 = realDiff result20,
          real_diff_all = realDiff resultAll\<rparr>)"

definition calculateRealLongShort :: "seat_analysis list \<Rightarrow> real_long_short list" where
  "calculateRealLongShort seatData = sort_key r_trade_date (map real_day (dateGroups seatData))"

text \<open>
  The words of the specification. The rows of a date; the net position of the seat of a
  name (of the last row of that name, should a name occur more than once on the date); and,
  for a list of selected pool entries, the sums of the positive net positions and of the
  absolute values of the negative net positions over the distinct names that occur among
  the selected entries.
\<close>

definition day_rows :: "seat_analysis list \<Rightarrow> string \<Rightarrow> seat_analysis list" where
  "day_rows seatData d = filter (\<lambda>s. trade_date s = d) seatData"

definition seat_net :: "seat_analysis list \<Rightarrow> string \<Rightarrow> number" where
  "seat_net dayData name =
     (case find (\<lambda>s. seat_name s = name) (rev dayData) of
        None \<Rightarrow> 0
      | Some s \<Rightarrow> net_vol s)"

definition spec_realLong :: "seat_analysis list \<Rightarrow> pool_entry list \<Rightarrow> number" where
  "spec_realLong dayData selected =
     (\<Sum>name\<in>e_seat_name ` set selected.
        if 0 < seat_net dayData name then seat_net dayData name else 0)"

definition spec_realShort :: "seat_analysis list \<Rightarrow> pool_entry list \<Rightarrow> number" where
  "spec_realShort dayData selected =
     (\<Sum>name\<in>e_seat_name ` set selected.
        if seat_net dayData name < 0 then \<bar>seat_net dayData name\<bar> else 0)"

text \<open>
  The same sums taken over the rows of the date whose name is among the selected entries;
  they agree with the sums over the names when no name occurs twice on the date.
\<close>

definition rows_realLong :: "seat_analysis list \<Rightarrow> pool_entry list \<Rightarrow> number" where
  "rows_realLong dayData selected =
     sum_list (map (\<lambda>s. if seat_name s \<in> e_seat_name ` set selected \<and> 0 < net_vol s
                         then net_vol s else 0) dayData)"

definition rows_realShort :: "seat_analysis list \<Rightarrow> pool_entry list \<Rightarrow> number" where
  "rows_realShort dayData selected =
     sum_list (map (\<lambda>s. if seat_name s \<in> e_seat_name ` set selected \<and> net_vol s < 0
                         then \<bar>net_vol s\<bar> else 0) dayData)"

subsection \<open>Flow long-short\<close>

record flow_result =
  addLong :: number
  addShort :: number
  reduceLong :: number
  reduceShort :: number

text \<open>
  \<open>calculateForTopN\<close> of the flow indicator, on the day's rows sorted by \<open>|net_vol|\<close>
  descending. \<open>xs.filter(p).reduce((sum, seat) => sum + seat.net_vol, 0)\<close> is
  \<open>sum_net_where p xs\<close>.
\<close>

definition sum_net_where :: "(seat_analysis \<Rightarrow> bool) \<Rightarrow> seat_analysis list \<Rightarrow> number" where
  "sum_net_where p xs = foldl (\<lambda>sum seat. sum + net_vol seat) 0 (filter p xs)"

definition flow_calculateForTopN :: "seat_analysis list \<Rightarrow> breadth \<Rightarrow> flow_result" where
  "flow_calculateForTopN sortedSeats n =
     (let selectedSeats = select_top n sortedSeats
      in \<lparr>addLong =
            sum_net_where (\<lambda>seat. net_vol seat > 0 \<and> net_chg seat > 0) selectedSeats,
          addShort =
            \<bar>sum_net_where (\<lambda>seat. net_vol seat < 0 \<and> net_chg seat < 0) selectedSeats\<bar>,
          reduceLong =
            - sum_net_where (\<lambda>seat. net_vol seat > 0 \<and> net_chg seat < 0) selectedSeats,
          reduceShort =
            sum_net_where (\<lambda>seat. net_vol seat < 0 \<and> net_chg seat > 0) selectedSeats\<rparr>)"

record flow_long_short =
  f_trade_date :: string
  add_long_10 :: number
  add_long_20 :: number
  add_long_all :: number
  add_short_10 :: number
  add_short_20 :: number
  add_short_all :: number
  reduce_long_10 :: number
  reduce_long_20 :: number
  reduce_long_all :: number
  reduce_short_10 :: number
  reduce_short_20 :: number
  reduce_short_all :: number

definition flow_day :: "string \<times> seat_analysis list \<Rightarrow> flow_long_short" where
  "flow_day g =
     (let tradeDate = fst g; dayData = snd g;
          sortedSeats = sort_desc (\<lambda>s. \<bar>net_vol s\<bar>) dayData;
          result10 = flow_calculateForTopN sortedSeats (Top 10);
          result20 = flow_calculateForTopN sortedSeats (Top 20);
          resultAll = flow_calculateForTopN sortedSeats All
      in \<lparr>f_trade_date = tradeDate,
          add_long_10 = addLong result10, add_long_20 = addLong result20,
          add_long_all = addLong resultAll,
          add_short_10 = addShort result10, add_short_20 = addShort result20,
          add_short_all = addShort resultAll,
          reduce_long_10 = reduceLong result10, reduce_long_20 = reduceLong result20,
          reduce_long_all = reduceLong resultAll,
          reduce_short_10 = reduceShort result10, reduce_short_20 = reduceShort result20,
          reduce_short_all = reduceShort resultAll\<rparr>)"

definition calculateFlowLongShort :: "seat_analysis list \<Rightarrow> flow_long_short list" where
  "calculateFlowLongShort seatData = sort_key f_trade_date (map flow_day (dateGroups seatData))"

text \<open>
  The words of the specification: what one selected seat adds to the four buckets, by the
  signs of its net position and of its net change, and a bucket as the sum of what the
  selected seats add to it.
\<close>

definition flow_contribution :: "seat_analysis \<Rightarrow> flow_result" where
  "flow_contribution s =
     (if 0 < net_vol s \<and> 0 < net_chg s
        then \<lparr>addLong = net_vol s, addShort = 0, reduceLong = 0, reduceShort = 0\<rparr>
      else if net_vol s < 0 \<and> net_chg s < 0
        then \<lparr>addLong = 0, addShort = \<bar>net_vol s\<bar>, reduceLong = 0, reduceShort = 0\<rparr>
      else if 0 < net_vol s \<and> net_chg s < 0
        then \<lparr>addLong = 0, addShort = 0, reduceLong = - net_vol s, reduceShort = 0\<rparr>
      else if net_vol s < 0 \<and> 0 < net_chg s
        then \<lparr>addLong = 0, addShort = 0, reduceLong = 0, reduceShort = net_vol s\<rparr>
      else \<lparr>addLong = 0, addShort = 0, reduceLong = 0, reduceShort = 0\<rparr>)"

definition bucket :: "(flow_result \<Rightarrow> number) \<Rightarrow> seat_analysis list \<Rightarrow> number" where
  "bucket field selected = sum_list (map (\<lambda>s. field (flow_contribution s)) selected)"

text \<open>A seat summary with the given date, name, volumes and net change.\<close>

definition seat_of ::
  "string \<Rightarrow> string \<Rightarrow> number \<Rightarrow> number \<Rightarrow> number \<Rightarrow> seat_analysis" where
  "seat_of d name lv sv chg =
     \<lparr>trade_date = d, commodity_id = ''cu'', commodity_name = ''cu'', seat_name = name,
      long_vol = lv, short_vol = sv, long_chg = chg, short_chg = 0,
      net_vol = lv - sv, net_chg = chg\<rparr>"

text \<open>
  Example input: seats S1 (net 50, change 5), S2 (net -30, change -2) and
  S3 (net 20, change -1) on one day, and one seat on the day before.
\<close>

definition example_seats :: "seat_analysis list" where
  "example_seats =
     [seat_of ''2024-01-03'' ''S1'' 80 30 5,
      seat_of ''2024-01-02'' ''S1'' 10 4 0,
      seat_of ''2024-01-03'' ''S2'' 10 40 (- 2),
      seat_of ''2024-01-03'' ''S3'' 25 5 (- 1)]"

text \<open>
  Example input with more seats than either cut: 22 seats on one day, listed from the
  smallest to the largest position, and one row of the day before among them. Seat S22
  holds 220 long and 215 short; S13 and S14 hold 140 on opposite sides, and so do S11 and
  S12 with 120.
\<close>

definition example_many :: "seat_analysis list" where
  "example_many =
     [seat_of ''2024-01-03'' ''S01'' 10 0 1,
      seat_of ''2024-01-03'' ''S02'' 0 20 0,
      seat_of ''2024-01-03'' ''S03'' 30 0 (- 2),
      seat_of ''2024-01-03'' ''S04'' 0 40 (- 1),
      seat_of ''2024-01-03'' ''S05'' 50 0 3,
      seat_of ''2024-01-03'' ''S06'' 0 60 2,
      seat_of ''2024-01-03'' ''S07'' 70 0 (- 4),
      seat_of ''2024-01-03'' ''S08'' 0 80 (- 3),
      seat_of ''2024-01-03'' ''S09'' 90 0 5,
      seat_of ''2024-01-03'' ''S10'' 0 100 4,
      seat_of ''2024-01-03'' ''S11'' 120 0 (- 6),
      seat_of ''2024-01-02'' ''S01'' 7 9 1,
      seat_of ''2024-01-03'' ''S12'' 0 120 (- 5),
      seat_of ''2024-01-03'' ''S13'' 140 0 7,
      seat_of ''2024-01-03'' ''S14'' 0 140 6,
      seat_of ''2024-01-03'' ''S15'' 150 0 0,
      seat_of ''2024-01-03'' ''S16'' 0 160 (- 7),
      seat_of ''2024-01-03'' ''S17'' 170 0 (- 8),
      seat_of ''2024-01-03'' ''S18'' 0 180 8,
      seat_of ''2024-01-03'' ''S19'' 190 0 9,
      seat_of ''2024-01-03'' ''S20'' 0 200 (- 9),
      seat_of ''2024-01-03'' ''S21'' 210 0 (- 10),
      seat_of ''2024-01-03'' ''S22'' 220 215 10]"

section \<open>Profit and loss calculator\<close>

text \<open>
  One element of the \<open>positions\<close> argument of \<open>calculateProfitLoss\<close>, and one element
  of the \<open>priceData\<close> argument of \<open>convertToSeatTableData\<close>.
\<close>

record position =
  pos_date :: string
  netVol :: number
  settlePrice :: number

record price_point =
  pp_date :: string
  pp_settlePrice :: number

text \<open>
  The body of the \<open>for\<close> loop: the profit of day \<open>i\<close> against day \<open>i - 1\<close>. The loop
  only reaches indices from 1 to the last one, so that both reads are in range.
\<close>

definition dailyProfit :: "position list \<Rightarrow> number \<Rightarrow> nat \<Rightarrow> number" where
  "dailyProfit positions contractUnit i =
     (netVol (positions ! i) * settlePrice (positions ! i) -
      netVol (positions ! (i - 1)) * settlePrice (positions ! (i - 1))) * contractUnit"

function profit_loop ::
  "position list \<Rightarrow> number \<Rightarrow> nat \<Rightarrow> nat \<Rightarrow> number \<Rightarrow> number" where
  "profit_loop positions contractUnit endIndex i totalProfit =
     (if i \<le> endIndex
      then profit_loop positions contractUnit endIndex (i + 1)
             (totalProfit + dailyProfit positions contractUnit i)
      else totalProfit)"
  by pat_completeness auto
termination
  by (relation "measure (\<lambda>(positions, contractUnit, endIndex, i, totalProfit). endIndex + 1 - i)")
    auto

definition calculateProfitLoss :: "position list \<Rightarrow> number \<Rightarrow> nat \<Rightarrow> number" where
  "calculateProfitLoss positions contractUnit period =
     (if length positions < 2 then 0
      else
        let endIndex = length positions - 1;
            startIndex = nat (max 0 (int endIndex - int period + 1))
        in js_round (profit_loop positions contractUnit endIndex (startIndex + 1) 0))"

text \<open>
  The part of \<open>convertToSeatTableData\<close> that prepares and computes the three profit
  figures of a seat (its three trend figures are not modelled); \<open>seat_profit_row\<close> is
  the function mapped over the rows of the requested date. \<open>seatHistory\<close> is every
  row of the seat in the data, sorted by date; a row gets the settlement price of the first
  price point of its date, \<open>priceInfo?.settlePrice || 0\<close>, and the rows whose price is not
  positive are filtered out.
\<close>

definition seatHistory :: "seat_analysis list \<Rightarrow> string \<Rightarrow> seat_analysis list" where
  "seatHistory seatData name =
     sort_key trade_date (filter (\<lambda>item. seat_name item = name) seatData)"

definition matched_price :: "price_point list \<Rightarrow> string \<Rightarrow> number" where
  "matched_price priceData d =
     (case find (\<lambda>p. pp_date p = d) priceData of
        None \<Rightarrow> 0
      | Some priceInfo \<Rightarrow> or0 (pp_settlePrice priceInfo))"

definition positionPriceData :: "seat_analysis list \<Rightarrow> price_point list \<Rightarrow> position list" where
  "positionPriceData history priceData =
     filter (\<lambda>item. settlePrice item > 0)
       (map (\<lambda>item. \<lparr>pos_date = trade_date item, netVol = net_vol item,
                      settlePrice = matched_price priceData (trade_date item)\<rparr>) history)"

record seat_table_profit =
  t_seat_name :: string
  profit_15 :: number
  profit_60 :: number
  profit_120 :: number

definition seat_profit_row ::
  "seat_analysis list \<Rightarrow> price_point list \<Rightarrow> number \<Rightarrow> seat_analysis \<Rightarrow> seat_table_profit" where
  "seat_profit_row seatData priceData contractUnit seat =
     (let ppd = positionPriceData (seatHistory seatData (seat_name seat)) priceData
      in \<lparr>t_seat_name = seat_name seat,
          profit_15 = calculateProfitLoss ppd contractUnit 15,
          profit_60 = calculateProfitLoss ppd contractUnit 60,
          profit_120 = calculateProfitLoss ppd contractUnit 120\<rparr>)"

definition convertToSeatTableData ::
  "seat_analysis list \<Rightarrow> price_point list \<Rightarrow> number \<Rightarrow> string \<Rightarrow> seat_table_profit list" where
  "convertToSeatTableData seatData priceData contractUnit tradeDate =
     map (seat_profit_row seatData priceData contractUnit)
       (filter (\<lambda>item. trade_date item = tradeDate) seatData)"

text \<open>
  The words of the specification: the daily profits of the last \<open>window\<close> trading days,
  each against the day before it, added up.
\<close>

definition spec_profit :: "position list \<Rightarrow> number \<Rightarrow> nat \<Rightarrow> number" where
  "spec_profit positions contractUnit window =
     sum_list (map (dailyProfit positions contractUnit)
       (filter (\<lambda>t. 1 \<le> t) [length positions - window ..< length positions]))"

text \<open>
  Example input: sixteen trading days on which a seat holds one lot and the settlement
  price rises by 1 a day, from 1 to 16.
\<close>

definition example_positions :: "position list" where
  "example_positions =
     map (\<lambda>(d, p). \<lparr>pos_date = d, netVol = 1, settlePrice = p\<rparr>)
       [(''2024-01-02'', 1), (''2024-01-03'', 2), (''2024-01-04'', 3), (''2024-01-05'', 4),
        (''2024-01-08'', 5), (''2024-01-09'', 6), (''2024-01-10'', 7), (''2024-01-11'', 8),
        (''2024-01-12'', 9), (''2024-01-15'', 10), (''2024-01-16'', 11), (''2024-01-17'', 12),
        (''2024-01-18'', 13), (''2024-01-19'', 14), (''2024-01-22'', 15), (''2024-01-23'', 16)]"

section \<open>Distribution generator\<close>

text \<open>
  One entry of a distribution, the long/short split, and the result of
  \<open>generatePieChartData\<close>. The three fields of the result have Chinese names in the source:
  the holding distribution, the holding change and the long/short distribution. The name
  of the consolidated bucket is the two-character source string for "other", written here
  as its UTF-8 bytes.
\<close>

record slice =
  s_name :: string
  s_value :: number
  s_ratio :: number

record long_short_split =
  net_long :: number
  net_short :: number
  long_ratio :: number
  short_ratio :: number

record pie_chart_data =
  holding_distribution :: "slice list"
  holding_change :: "slice list"
  long_short_distribution :: long_short_split

definition other_name :: string where
  "other_name = [CHR 0xE5, CHR 0x85, CHR 0xB6, CHR 0xE4, CHR 0xBB, CHR 0x96]"

text \<open>
  The total of the values and the \<open>forEach\<close> that writes every entry's ratio:
  \<open>item.ratio = total > 0 ? (item.value / total) * 100 : 0\<close>.
\<close>

definition with_ratio :: "slice list \<Rightarrow> slice list" where
  "with_ratio items =
     (let total = foldl (\<lambda>sum item. sum + s_value item) 0 items
      in map (\<lambda>item. item\<lparr>s_ratio := (if total > 0 then (s_value item / total) * 100 else 0)\<rparr>)
           items)"

definition generatePieChartData :: "seat_analysis list \<Rightarrow> string \<Rightarrow> pie_chart_data" where
  "generatePieChartData seatData tradeDate =
     (let dayData = filter (\<lambda>item. trade_date item = tradeDate) seatData;
          sortedByNetVol = sort_desc (\<lambda>s. \<bar>net_vol s\<bar>) dayData;
          top10Seats = take 10 sortedByNetVol;
          otherSeats = drop 10 sortedByNetVol;
          top10 = map (\<lambda>seat. \<lparr>s_name = seat_name seat, s_value = \<bar>net_vol seat\<bar>,
                                s_ratio = 0\<rparr>) top10Seats;
          otherTotal = foldl (\<lambda>sum seat. sum + \<bar>net_vol seat\<bar>) 0 otherSeats;
          distribution =
            with_ratio
              (if length otherSeats > 0 \<and> otherTotal > 0
               then top10 @ [\<lparr>s_name = other_name, s_value = otherTotal, s_ratio = 0\<rparr>]
               else top10);
          sortedByNetChg = sort_desc (\<lambda>s. \<bar>net_chg s\<bar>) dayData;
          change =
            with_ratio
              (map (\<lambda>seat. \<lparr>s_name = seat_name seat, s_value = \<bar>net_chg seat\<bar>,
                              s_ratio = 0\<rparr>)
                 (take 10 (filter (\<lambda>seat. net_chg seat \<noteq> 0) sortedByNetChg)));
          netLong = sum_net_where (\<lambda>seat. net_vol seat > 0) dayData;
          netShort = \<bar>sum_net_where (\<lambda>seat. net_vol seat < 0) dayData\<bar>;
          totalNet = netLong + netShort
      in \<lparr>holding_distribution = filter (\<lambda>item. s_ratio item \<ge> 1) distribution,
          holding_change = filter (\<lambda>item. s_ratio item \<ge> 1) change,
          long_short_distribution =
            \<lparr>net_long = netLong, net_short = netShort,
             long_ratio = (if totalNet > 0 then (netLong / totalNet) * 100 else 50),
             short_ratio = (if totalNet > 0 then (netShort / totalNet) * 100 else 50)\<rparr>\<rparr>)"

text \<open>The name and the value of every entry of a distribution.\<close>

definition slice_pairs :: "slice list \<Rightarrow> (string \<times> number) list" where
  "slice_pairs items = map (\<lambda>item. (s_name item, s_value item)) items"

text \<open>
  The words of the specification: the seats ranked by the magnitude of a field, the first
  ten entries kept, and the rest consolidated into one bucket named "other" that carries
  the sum of their magnitudes.
\<close>

definition spec_distribution ::
  "(seat_analysis \<Rightarrow> number) \<Rightarrow> seat_analysis list \<Rightarrow> (string \<times> number) list" where
  "spec_distribution field dayData =
     (let ranked = sort_desc (\<lambda>s. \<bar>field s\<bar>) dayData
      in map (\<lambda>s. (seat_name s, \<bar>field s\<bar>)) (take 10 ranked) @
         (if drop 10 ranked = [] then []
          else [(other_name, sum_list (map (\<lambda>s. \<bar>field s\<bar>) (drop 10 ranked)))]))"

text \<open>
  What the two distributions hold before the entries of small ratio are dropped, and the
  dropping of the entries whose share of the total, in percent, is below 1.
\<close>

definition position_entries :: "seat_analysis list \<Rightarrow> (string \<times> number) list" where
  "position_entries dayData =
     (let ranked = sort_desc (\<lambda>s. \<bar>net_vol s\<bar>) dayData;
          other = sum_list (map (\<lambda>s. \<bar>net_vol s\<bar>) (drop 10 ranked))
      in map (\<lambda>s. (seat_name s, \<bar>net_vol s\<bar>)) (take 10 ranked) @
         (if drop 10 ranked \<noteq> [] \<and> 0 < other then [(other_name, other)] else []))"

definition change_entries :: "seat_analysis list \<Rightarrow> (string \<times> number) list" where
  "change_entries dayData =
     map (\<lambda>s. (seat_name s, \<bar>net_chg s\<bar>))
       (take 10 (filter (\<lambda>s. net_chg s \<noteq> 0) (sort_desc (\<lambda>s. \<bar>net_chg s\<bar>) dayData)))"

definition keep_visible :: "(string \<times> number) list \<Rightarrow> (string \<times> number) list" where
  "keep_visible es =
     filter (\<lambda>e. 0 < sum_list (map snd es) \<and> 1 \<le> snd e / sum_list (map snd es) * 100) es"

text \<open>
  Example input: eleven seats on one day, each with the net position 10 and the net
  change 10.
\<close>

definition example_eleven :: "seat_analysis list" where
  "example_eleven =
     map (\<lambda>name. seat_of ''2024-01-03'' name 10 0 10)
       [''S01'', ''S02'', ''S03'', ''S04'', ''S05'', ''S06'', ''S07'', ''S08'', ''S09'',
        ''S10'', ''S11'']"

section \<open>Screening and scoring engine\<close>

text \<open>
  The net long-short indicator row, which the screening engine reads next to the real
  one. Fields shared with other records carry the prefix \<open>n_\<close>.
\<close>

record net_long_short =
  n_trade_date :: string
  net_long_10 :: number
  net_long_20 :: number
  net_long_all :: number
  net_short_10 :: number
  net_short_20 :: number
  net_short_all :: number
  net_diff_10 :: number
  net_diff_20 :: number
  net_diff_all :: number

text \<open>
  A promise of the data service either resolves with a value or rejects. The three
  methods that \<open>FilterService\<close> calls on the data service read stored data; they are
  parameters of the model, collected in a record.
\<close>

datatype 'a outcome = Rejected | Resolved 'a

record data_service =
  getAllWeightedContracts :: "weighted_contract list outcome"
  getRealLongShortData :: "string \<Rightarrow> real_long_short list outcome"
  getNetLongShortData :: "string \<Rightarrow> net_long_short list outcome"

text \<open>
  The period \<open>10 | 20 | 'all'\<close>, the base keys \<open>'real_long'\<close> to \<open>'net_diff'\<close> (and the
  empty key), and a row of either indicator, read through \<open>data[baseKey + suffix] || 0\<close>:
  a key that the row does not have reads as 0.
\<close>

datatype period = P10 | P20 | PAll

datatype base_key =
  RealLongKey | RealShortKey | RealDiffKey | NetLongKey | NetShortKey | NetDiffKey | NoKey

datatype indicator_row = RealRow real_long_short | NetRow net_long_short

fun property :: "indicator_row \<Rightarrow> base_key \<Rightarrow> period \<Rightarrow> number" where
  "property (RealRow r) RealLongKey P10 = real_long_10 r"
| "property (RealRow r) RealLongKey P20 = real_long_20 r"
| "property (RealRow r) RealLongKey PAll = real_long_all r"
| "property (RealRow r) RealShortKey P10 = real_short_10 r"
| "property (RealRow r) RealShortKey P20 = real_short_20 r"
| "property (RealRow r) RealShortKey PAll = real_short_all r"
| "property (RealRow r) RealDiffKey P10 = real_diff_10 r"
| "property (RealRow r) RealDiffKey P20 = real_diff_20 r"
| "property (RealRow r) RealDiffKey PAll = real_diff_all r"
| "property (NetRow r) NetLongKey P10 = net_long_10 r"
| "property (NetRow r) NetLongKey P20 = net_long_20 r"
| "property (NetRow r) NetLongKey PAll = net_long_all r"
| "property (NetRow r) NetShortKey P10 = net_short_10 r"
| "property (NetRow r) NetShortKey P20 = net_short_20 r"
| "property (NetRow r) NetShortKey PAll = net_short_all r"
| "property (NetRow r) NetDiffKey P10 = net_diff_10 r"
| "property (NetRow r) NetDiffKey P20 = net_diff_20 r"
| "property (NetRow r) NetDiffKey PAll = net_diff_all r"
| "property _ _ _ = 0"

definition getValueByPeriod :: "indicator_row \<Rightarrow> base_key \<Rightarrow> period \<Rightarrow> number" where
  "getValueByPeriod data baseKey p = or0 (property data baseKey p)"

text \<open>The parameters of the filter: every condition is optional and can be switched off.\<close>

datatype price_type = Highest | Lowest

datatype operator = Greater | Less

datatype extreme_type = MaxType | MinType

record price_condition =
  pc_enabled :: bool
  pc_days :: nat
  pc_type :: price_type

record compare_condition =
  cc_enabled :: bool
  cc_longPeriod :: period
  cc_shortPeriod :: period
  cc_operator :: operator

record extreme_condition =
  ec_enabled :: bool
  ec_period :: period
  ec_days :: nat
  ec_type :: extreme_type

record filter_params =
  price_cond :: "price_condition option"
  real_compare :: "compare_condition option"
  net_compare :: "compare_condition option"
  real_long_extreme :: "extreme_condition option"
  real_short_extreme :: "extreme_condition option"
  real_diff_extreme :: "extreme_condition option"
  net_long_extreme :: "extreme_condition option"
  net_short_extreme :: "extreme_condition option"
  net_diff_extreme :: "extreme_condition option"

text \<open>
  The condition types \<open>'price-condition'\<close>, \<open>'real-compare'\<close>, \<open>'net-compare'\<close>,
  \<open>'real-extreme'\<close>, \<open>'real-diff-extreme'\<close>, \<open>'net-extreme'\<close> and \<open>'net-diff-extreme'\<close>,
  and a result of the filter.
\<close>

datatype condition_type =
  PriceCondition | RealCompare | NetCompare | RealExtreme | RealDiffExtreme | NetExtreme
  | NetDiffExtreme

record filter_result =
  fr_commodity_id :: string
  fr_commodity_name :: string
  match_conditions :: "condition_type list"
  score :: number

text \<open>
  \<open>checkPriceCondition\<close>. With too short a history it answers \<open>false\<close>. Otherwise it reads
  \<open>contracts[0].close\<close>, which throws on an empty array; \<open>Math.max\<close> and \<open>Math.min\<close> of no
  arguments are infinite and equal no price.
\<close>

definition checkPriceCondition ::
  "weighted_contract list \<Rightarrow> nat \<Rightarrow> price_type \<Rightarrow> bool outcome" where
  "checkPriceCondition contracts days ty =
     (if length contracts < days then Resolved False
      else
        let recentContracts = take days contracts;
            prices = map w_close recentContracts
        in case contracts of
             [] \<Rightarrow> Rejected
           | first # _ \<Rightarrow>
               let currentPrice = w_close first
               in if prices = [] then Resolved False
                  else if ty = Highest then Resolved (currentPrice = Max (set prices))
                  else Resolved (currentPrice = Min (set prices)))"

text \<open>
  \<open>checkRealLongShortCompare\<close> and \<open>checkNetLongShortCompare\<close>: a rejected read is caught
  and answers \<open>false\<close>, and so does an empty series.
\<close>

definition compare_values :: "operator \<Rightarrow> number \<Rightarrow> number \<Rightarrow> bool" where
  "compare_values oper longValue shortValue =
     (if oper = Greater then longValue > shortValue else longValue < shortValue)"

definition checkRealLongShortCompare ::
  "data_service \<Rightarrow> string \<Rightarrow> period \<Rightarrow> period \<Rightarrow> operator \<Rightarrow> bool" where
  "checkRealLongShortCompare ds commodityId longPeriod shortPeriod oper =
     (case getRealLongShortData ds commodityId of
        Rejected \<Rightarrow> False
      | Resolved realData \<Rightarrow>
          (case realData of
             [] \<Rightarrow> False
           | latestData # _ \<Rightarrow>
               compare_values oper
                 (getValueByPeriod (RealRow latestData) RealLongKey longPeriod)
                 (getValueByPeriod (RealRow latestData) RealShortKey shortPeriod)))"

definition checkNetLongShortCompare ::
  "data_service \<Rightarrow> string \<Rightarrow> period \<Rightarrow> period \<Rightarrow> operator \<Rightarrow> bool" where
  "checkNetLongShortCompare ds commodityId longPeriod shortPeriod oper =
     (case getNetLongShortData ds commodityId of
        Rejected \<Rightarrow> False
      | Resolved netData \<Rightarrow>
          (case netData of
             [] \<Rightarrow> False
           | latestData # _ \<Rightarrow>
               compare_values oper
                 (getValueByPeriod (NetRow latestData) NetLongKey longPeriod)
                 (getValueByPeriod (NetRow latestData) NetShortKey shortPeriod)))"

text \<open>
  \<open>checkExtremeCondition\<close>. The six condition keys of the source are Chinese strings made
  of one character for real or net and one for long, short or difference; the chain of
  \<open>includes\<close> tests picks the series and the base key from them. The six keys are the
  values of \<open>extreme_key\<close>, and \<open>extreme_data\<close> is the outcome of that chain: the series
  read, as rows, and the base key.
\<close>

datatype extreme_key =
  RealLongExtremeKey | RealShortExtremeKey | RealDiffExtremeKey
  | NetLongExtremeKey | NetShortExtremeKey | NetDiffExtremeKey

definition is_real_key :: "extreme_key \<Rightarrow> bool" where
  "is_real_key k = (k = RealLongExtremeKey \<or> k = RealShortExtremeKey \<or> k = RealDiffExtremeKey)"

definition value_key :: "extreme_key \<Rightarrow> base_key" where
  "value_key k =
     (case k of
        RealLongExtremeKey \<Rightarrow> RealLongKey
      | RealShortExtremeKey \<Rightarrow> RealShortKey
      | RealDiffExtremeKey \<Rightarrow> RealDiffKey
      | NetLongExtremeKey \<Rightarrow> NetLongKey
      | NetShortExtremeKey \<Rightarrow> NetShortKey
      | NetDiffExtremeKey \<Rightarrow> NetDiffKey)"

definition extreme_data :: "data_service \<Rightarrow> string \<Rightarrow> extreme_key \<Rightarrow> indicator_row list outcome" where
  "extreme_data ds commodityId conditionType =
     (if is_real_key conditionType
      then (case getRealLongShortData ds commodityId of
              Rejected \<Rightarrow> Rejected | Resolved rows \<Rightarrow> Resolved (map RealRow rows))
      else (case getNetLongShortData ds commodityId of
              Rejected \<Rightarrow> Rejected | Resolved rows \<Rightarrow> Resolved (map NetRow rows)))"

definition checkExtremeCondition ::
  "data_service \<Rightarrow> string \<Rightarrow> extreme_key \<Rightarrow> period \<Rightarrow> nat \<Rightarrow> extreme_type \<Rightarrow> bool" where
  "checkExtremeCondition ds commodityId conditionType p days ty =
     (case extreme_data ds commodityId conditionType of
        Rejected \<Rightarrow> False
      | Resolved data \<Rightarrow>
          if length data < days then False
          else
            let recentData = take days data;
                values = map (\<lambda>item. getValueByPeriod item (value_key conditionType) p) recentData
            in case values of
                 [] \<Rightarrow> False
               | currentValue # _ \<Rightarrow>
                   if ty = MaxType then currentValue = Max (set values)
                   else currentValue = Min (set values))"

text \<open>
  The body of the loop over the commodities in \<open>executeFilter\<close>. The state is the pair of
  \<open>matchConditions\<close> and \<open>score\<close>; \<open>add_match\<close> is the step
  \<open>if (isMatch) { matchConditions.push(type); score += weight }\<close>.
\<close>

type_synonym match_state = "condition_type list \<times> number"

definition add_match :: "bool \<Rightarrow> condition_type \<Rightarrow> number \<Rightarrow> match_state \<Rightarrow> match_state" where
  "add_match isMatch ty w st = (if isMatch then (fst st @ [ty], snd st + w) else st)"

definition extremeConditions ::
  "filter_params \<Rightarrow> (extreme_key \<times> condition_type \<times> extreme_condition option) list" where
  "extremeConditions params =
     [(RealLongExtremeKey, RealExtreme, real_long_extreme params),
      (RealShortExtremeKey, RealExtreme, real_short_extreme params),
      (RealDiffExtremeKey, RealDiffExtreme, real_diff_extreme params),
      (NetLongExtremeKey, NetExtreme, net_long_extreme params),
      (NetShortExtremeKey, NetExtreme, net_short_extreme params),
      (NetDiffExtremeKey, NetDiffExtreme, net_diff_extreme params)]"

fun extreme_loop ::
  "data_service \<Rightarrow> string \<Rightarrow> (extreme_key \<times> condition_type \<times> extreme_condition option) list
     \<Rightarrow> match_state \<Rightarrow> match_state" where
  "extreme_loop ds commodityId [] st = st"
| "extreme_loop ds commodityId ((key, ty, None) # rest) st = extreme_loop ds commodityId rest st"
| "extreme_loop ds commodityId ((key, ty, Some c) # rest) st =
     (if ec_enabled c
      then extreme_loop ds commodityId rest
             (add_match (checkExtremeCondition ds commodityId key (ec_period c) (ec_days c)
                           (ec_type c)) ty 12 st)
      else extreme_loop ds commodityId rest st)"

definition price_step :: "filter_params \<Rightarrow> weighted_contract list \<Rightarrow> match_state \<Rightarrow> match_state outcome" where
  "price_step params commodityContracts st =
     (case price_cond params of
        None \<Rightarrow> Resolved st
      | Some c \<Rightarrow>
          if pc_enabled c
          then (case checkPriceCondition commodityContracts (pc_days c) (pc_type c) of
                  Rejected \<Rightarrow> Rejected
                | Resolved isMatch \<Rightarrow> Resolved (add_match isMatch PriceCondition 10 st))
          else Resolved st)"

definition real_compare_step :: "data_service \<Rightarrow> filter_params \<Rightarrow> string \<Rightarrow> match_state \<Rightarrow> match_state" where
  "real_compare_step ds params commodityId st =
     (case real_compare params of
        None \<Rightarrow> st
      | Some c \<Rightarrow>
          if cc_enabled c
          then add_match (checkRealLongShortCompare ds commodityId (cc_longPeriod c)
                            (cc_shortPeriod c) (cc_operator c)) RealCompare 15 st
          else st)"

definition net_compare_step :: "data_service \<Rightarrow> filter_params \<Rightarrow> string \<Rightarrow> match_state \<Rightarrow> match_state" where
  "net_compare_step ds params commodityId st =
     (case net_compare params of
        None \<Rightarrow> st
      | Some c \<Rightarrow>
          if cc_enabled c
          then add_match (checkNetLongShortCompare ds commodityId (cc_longPeriod c)
                            (cc_shortPeriod c) (cc_operator c)) NetCompare 15 st
          else st)"

definition evaluate_commodity ::
  "data_service \<Rightarrow> filter_params \<Rightarrow> weighted_contract list \<Rightarrow> string \<Rightarrow> match_state outcome" where
  "evaluate_commodity ds params commodityContracts commodityId =
     (case price_step params commodityContracts ([], 0) of
        Rejected \<Rightarrow> Rejected
      | Resolved st1 \<Rightarrow>
          Resolved (extreme_loop ds commodityId (extremeConditions params)
                      (net_compare_step ds params commodityId
                         (real_compare_step ds params commodityId st1))))"

text \<open>
  \<open>executeFilter\<close>. The commodity ids are the distinct ids of the weighted contracts in the
  order of their first occurrence (\<open>[...new Set(ids)]\<close>); the contracts of a commodity are
  sorted by date descending; a commodity with at least one match is pushed onto the
  results, which are sorted by score descending at the end. An error inside the
  \<open>try\<close> block is thrown on as a new error.
\<close>

definition commodityIds :: "weighted_contract list \<Rightarrow> string list" where
  "commodityIds weightedContracts = rev (remdups (rev (map w_commodity_id weightedContracts)))"

fun filter_loop ::
  "data_service \<Rightarrow> filter_params \<Rightarrow> weighted_contract list \<Rightarrow> string list
     \<Rightarrow> filter_result list \<Rightarrow> filter_result list outcome" where
  "filter_loop ds params weightedContracts [] results = Resolved results"
| "filter_loop ds params weightedContracts (commodityId # rest) results =
     (let commodityContracts =
            filter (\<lambda>item. w_commodity_id item = commodityId) weightedContracts
      in if length commodityContracts = 0
         then filter_loop ds params weightedContracts rest results
         else
           let sorted = sort_desc w_trade_date commodityContracts
           in case evaluate_commodity ds params sorted commodityId of
                Rejected \<Rightarrow> Rejected
              | Resolved st \<Rightarrow>
                  if length (fst st) > 0
                  then filter_loop ds params weightedContracts rest
                         (results @
                            [\<lparr>fr_commodity_id = commodityId,
                              fr_commodity_name = w_commodity_name (hd sorted),
                              match_conditions = fst st, score = snd st\<rparr>])
                  else filter_loop ds params weightedContracts rest results)"

definition executeFilter :: "data_service \<Rightarrow> filter_params \<Rightarrow> filter_result list outcome" where
  "executeFilter ds params =
     (case getAllWeightedContracts ds of
        Rejected \<Rightarrow> Rejected
      | Resolved weightedContracts \<Rightarrow>
          (case filter_loop ds params weightedContracts (commodityIds weightedContracts) [] of
             Rejected \<Rightarrow> Rejected
           | Resolved results \<Rightarrow> Resolved (sort_desc score results)))"

text \<open>
  The words of the specification: the fixed weight of every condition type, the nine
  conditions of a filter with whether each is enabled and satisfied for a commodity, and
  the list of the types of the satisfied enabled ones.
\<close>

fun cond_weight :: "condition_type \<Rightarrow> number" where
  "cond_weight PriceCondition = 10"
| "cond_weight RealCompare = 15"
| "cond_weight NetCompare = 15"
| "cond_weight RealExtreme = 12"
| "cond_weight RealDiffExtreme = 12"
| "cond_weight NetExtreme = 12"
| "cond_weight NetDiffExtreme = 12"

definition extreme_holds ::
  "data_service \<Rightarrow> string \<Rightarrow> extreme_key \<Rightarrow> extreme_condition option \<Rightarrow> bool" where
  "extreme_holds ds commodityId key cond =
     (case cond of
        None \<Rightarrow> False
      | Some c \<Rightarrow> ec_enabled c \<and>
          checkExtremeCondition ds commodityId key (ec_period c) (ec_days c) (ec_type c))"

definition condition_table ::
  "data_service \<Rightarrow> filter_params \<Rightarrow> weighted_contract list \<Rightarrow> string
     \<Rightarrow> (bool \<times> condition_type) list" where
  "condition_table ds params contracts commodityId =
     [((case price_cond params of
          None \<Rightarrow> False
        | Some c \<Rightarrow> pc_enabled c \<and>
            checkPriceCondition contracts (pc_days c) (pc_type c) = Resolved True),
       PriceCondition),
      ((case real_compare params of
          None \<Rightarrow> False
        | Some c \<Rightarrow> cc_enabled c \<and>
            checkRealLongShortCompare ds commodityId (cc_longPeriod c) (cc_shortPeriod c)
              (cc_operator c)),
       RealCompare),
      ((case net_compare params of
          None \<Rightarrow> False
        | Some c \<Rightarrow> cc_enabled c \<and>
            checkNetLongShortCompare ds commodityId (cc_longPeriod c) (cc_shortPeriod c)
              (cc_operator c)),
       NetCompare),
      (extreme_holds ds commodityId RealLongExtremeKey (real_long_extreme params), RealExtreme),
      (extreme_holds ds commodityId RealShortExtremeKey (real_short_extreme params), RealExtreme),
      (extreme_holds ds commodityId RealDiffExtremeKey (real_diff_extreme params),
       RealDiffExtreme),
      (extreme_holds ds commodityId NetLongExtremeKey (net_long_extreme params), NetExtreme),
      (extreme_holds ds commodityId NetShortExtremeKey (net_short_extreme params), NetExtreme),
      (extreme_holds ds commodityId NetDiffExtremeKey (net_diff_extreme params),
       NetDiffExtreme)]"

definition satisfied_conditions ::
  "data_service \<Rightarrow> filter_params \<Rightarrow> weighted_contract list \<Rightarrow> string \<Rightarrow> condition_type list" where
  "satisfied_conditions ds params contracts commodityId =
     map snd (filter fst (condition_table ds params contracts commodityId))"

text \<open>The contracts of a commodity as the filter sees them: latest date first.\<close>

definition contracts_of :: "weighted_contract list \<Rightarrow> string \<Rightarrow> weighted_contract list" where
  "contracts_of weightedContracts commodityId =
     sort_desc w_trade_date (filter (\<lambda>item. w_commodity_id item = commodityId) weightedContracts)"

text \<open>
  One step of adding a table entry to the state with the weight of its type, and the
  result that the filter reports for a commodity with at least one satisfied condition.
\<close>

definition table_step :: "match_state \<Rightarrow> bool \<times> condition_type \<Rightarrow> match_state" where
  "table_step st e = add_match (fst e) (snd e) (cond_weight (snd e)) st"

definition result_of ::
  "data_service \<Rightarrow> filter_params \<Rightarrow> weighted_contract list \<Rightarrow> string \<Rightarrow> filter_result" where
  "result_of ds params wc c =
     \<lparr>fr_commodity_id = c,
      fr_commodity_name = w_commodity_name (hd (contracts_of wc c)),
      match_conditions = satisfied_conditions ds params (contracts_of wc c) c,
      score = sum_list (map cond_weight (satisfied_conditions ds params (contracts_of wc c) c))\<rparr>"

text \<open>
  Example input: five days of copper closing at 20, 30, 45, 40 and 50 and two days of zinc;
  one row of the real indicator for copper (real long 70, real short 30 at every breadth),
  a rejected read for every other commodity, and no net rows. The filter asks for the
  highest close of 5 days, real long above real short, net long above net short, and a
  5-day maximum of real long.
\<close>

definition wc_of :: "string \<Rightarrow> string \<Rightarrow> number \<Rightarrow> weighted_contract" where
  "wc_of c d cl =
     \<lparr>w_trade_date = d, w_commodity_id = c, w_commodity_name = c, w_open = cl, w_high = cl,
      w_low = cl, w_close = cl, w_settle = cl, w_volume = 1, w_open_interest = 1\<rparr>"

definition example_contracts :: "weighted_contract list" where
  "example_contracts =
     [wc_of ''cu'' ''2024-01-02'' 20, wc_of ''zn'' ''2024-01-02'' 7,
      wc_of ''cu'' ''2024-01-03'' 30, wc_of ''cu'' ''2024-01-04'' 45,
      wc_of ''zn'' ''2024-01-03'' 9, wc_of ''cu'' ''2024-01-05'' 40,
      wc_of ''cu'' ''2024-01-08'' 50]"

definition example_real_row :: real_long_short where
  "example_real_row =
     \<lparr>r_trade_date = ''2024-01-08'',
      real_long_10 = 70, real_long_20 = 70, real_long_all = 70,
      real_short_10 = 30, real_short_20 = 30, real_short_all = 30,
      real_diff_10 = 40, real_diff_20 = 40, real_diff_all = 40\<rparr>"

definition example_service :: data_service where
  "example_service =
     \<lparr>getAllWeightedContracts = Resolved example_contracts,
      getRealLongShortData = (\<lambda>c. if c = ''cu'' then Resolved [example_real_row] else Rejected),
      getNetLongShortData = (\<lambda>c. Resolved [])\<rparr>"

definition example_params :: filter_params where
  "example_params =
     \<lparr>price_cond = Some \<lparr>pc_enabled = True, pc_days = 5, pc_type = Highest\<rparr>,
      real_compare = Some \<lparr>cc_enabled = True, cc_longPeriod = P10, cc_shortPeriod = P10,
                           cc_operator = Greater\<rparr>,
      net_compare = Some \<lparr>cc_enabled = True, cc_longPeriod = P10, cc_shortPeriod = P10,
                          cc_operator = Greater\<rparr>,
      real_long_extreme = Some \<lparr>ec_enabled = True, ec_period = P10, ec_days = 5,
                                ec_type = MaxType\<rparr>,
      real_short_extreme = None,
      real_diff_extreme = Some \<lparr>ec_enabled = False, ec_period = P10, ec_days = 5,
                                ec_type = MaxType\<rparr>,
      net_long_extreme = None, net_short_extreme = None, net_diff_extreme = None\<rparr>"

definition example_result :: filter_result where
  "example_result =
     \<lparr>fr_commodity_id = ''cu'', fr_commodity_name = ''cu'',
      match_conditions = [PriceCondition, RealCompare], score = 25\<rparr>"

section \<open>Verification\<close>

subsection \<open>Stable sorting\<close>

lemma set_sort_desc [simp]: "set (sort_desc f xs) = set xs"
  by (simp add: sort_desc_def)

lemma mset_sort_desc [simp]: "mset (sort_desc f xs) = mset xs"
  by (simp add: sort_desc_def)

lemma length_sort_desc [simp]: "length (sort_desc f xs) = length xs"
  by (simp add: sort_desc_def)

lemma insort_key_lex:
  assumes "sorted_wrt (\<lambda>a b. f a < f b \<or> (f a = f b \<and> Q a b)) zs"
    and "\<forall>z\<in>set zs. Q y z"
  shows "sorted_wrt (\<lambda>a b. f a < f b \<or> (f a = f b \<and> Q a b)) (insort_key f y zs)"
  using assms
proof (induction zs)
  case Nil
  then show ?case by simp
next
  case (Cons z zs)
  show ?case
  proof (cases "f y \<le> f z")
    case True
    have "\<forall>w\<in>set zs. f z \<le> f w" using Cons.prems(1) by auto
    with True Cons.prems show ?thesis by (auto simp: set_insort_key)
  next
    case False
    with Cons show ?thesis by (auto simp: set_insort_key)
  qed
qed

lemma sort_key_lex:
  "sorted_wrt Q ys \<Longrightarrow>
   sorted_wrt (\<lambda>a b. f a < f b \<or> (f a = f b \<and> Q a b)) (sort_key f ys)"
proof (induction ys)
  case Nil
  then show ?case by simp
next
  case (Cons y ys)
  then show ?case by (simp add: insort_key_lex)
qed

lemma sort_desc_lex:
  assumes "sorted_wrt P xs"
  shows "sorted_wrt (\<lambda>a b. f b < f a \<or> (f a = f b \<and> P a b)) (sort_desc f xs)"
proof -
  have "sorted_wrt (\<lambda>a b. P b a) (rev xs)"
    using assms by (simp add: sorted_wrt_rev)
  then have "sorted_wrt (\<lambda>a b. f a < f b \<or> (f a = f b \<and> P b a)) (sort_key f (rev xs))"
    by (rule sort_key_lex)
  then have "sorted_wrt (\<lambda>b a. f a < f b \<or> (f a = f b \<and> P b a)) (sort_desc f xs)"
    by (simp add: sort_desc_def sorted_wrt_rev)
  then show ?thesis
    by (rule sorted_wrt_mono_rel[rotated]) auto
qed

lemma sort_desc_sorted:
  "sorted_wrt (\<lambda>a b. f b \<le> f a) (sort_desc f xs)"
proof -
  have "sorted_wrt (\<lambda>a b. True) xs" by (induction xs) simp_all
  then have "sorted_wrt (\<lambda>a b. f b < f a \<or> (f a = f b \<and> True)) (sort_desc f xs)"
    by (rule sort_desc_lex)
  then show ?thesis by (rule sorted_wrt_mono_rel[rotated]) auto
qed

lemma sort_desc_stable:
  "filter (\<lambda>x. f x = v) (sort_desc f xs) = filter (\<lambda>x. f x = v) xs"
proof -
  have "filter (\<lambda>x. f x = v) (sort_desc f xs) =
          rev (filter (\<lambda>x. f x = v) (sort_key f (rev xs)))"
    unfolding sort_desc_def by (rule rev_filter[symmetric])
  also have "\<dots> = rev (filter (\<lambda>x. f x = v) (rev xs))"
    by (simp only: sort_key_stable)
  also have "\<dots> = filter (\<lambda>x. f x = v) xs"
    by (simp only: rev_filter rev_rev_ident)
  finally show ?thesis .
qed

subsection \<open>Seat position aggregator\<close>

lemma first_pos_less: "k \<in> set xs \<Longrightarrow> first_pos k xs < length xs"
  unfolding first_pos_def by (induction xs) auto

lemma first_pos_append: "k \<in> set xs \<Longrightarrow> first_pos k (xs @ ys) = first_pos k xs"
  unfolding first_pos_def by (simp add: takeWhile_append1)

lemma first_pos_new: "k \<notin> set xs \<Longrightarrow> first_pos k (xs @ [k]) = length xs"
  unfolding first_pos_def by (induction xs) auto

lemma seat_step_keys:
  "map fst (seat_step c d x m) =
     (if h_seat_name x \<in> set (map fst m) then map fst m else map fst m @ [h_seat_name x])"
  by (auto simp: seat_step_def update_keys split: option.splits)

lemma seatMap_keys:
  "set (map fst (fold (seat_step c d) xs [])) = set (map h_seat_name xs) \<and>
   distinct (map fst (fold (seat_step c d) xs [])) \<and>
   sorted_wrt (\<lambda>a b. first_pos a (map h_seat_name xs) < first_pos b (map h_seat_name xs))
     (map fst (fold (seat_step c d) xs []))"
proof (induction xs rule: rev_induct)
  case Nil
  then show ?case by simp
next
  case (snoc x xs)
  let ?m = "fold (seat_step c d) xs []"
  let ?ks = "map fst ?m"
  let ?ns = "map h_seat_name xs"
  let ?n = "h_seat_name x"
  have keys: "set ?ks = set ?ns" and dist: "distinct ?ks"
    and srt: "sorted_wrt (\<lambda>a b. first_pos a ?ns < first_pos b ?ns) ?ks"
    using snoc by blast+
  have step: "map fst (fold (seat_step c d) (xs @ [x]) []) =
                (if ?n \<in> set ?ks then ?ks else ?ks @ [?n])"
    by (simp add: seat_step_keys)
  have ns': "map h_seat_name (xs @ [x]) = ?ns @ [?n]" by simp
  have srt': "sorted_wrt (\<lambda>a b. first_pos a (?ns @ [?n]) < first_pos b (?ns @ [?n])) ?ks"
  proof (rule sorted_wrt_mono_rel)
    show "sorted_wrt (\<lambda>a b. first_pos a ?ns < first_pos b ?ns) ?ks" by (rule srt)
  next
    fix a b assume "a \<in> set ?ks" "b \<in> set ?ks" and "first_pos a ?ns < first_pos b ?ns"
    then show "first_pos a (?ns @ [?n]) < first_pos b (?ns @ [?n])"
      unfolding keys by (simp add: first_pos_append del: set_map)
  qed
  show ?case
  proof (cases "?n \<in> set ?ks")
    case True
    then have "set ?ks = set (?ns @ [?n])" using keys by auto
    with True dist srt' show ?thesis unfolding step ns' by simp
  next
    case False
    then have notin: "?n \<notin> set ?ns" using keys by simp
    have last: "\<forall>k\<in>set ?ks. first_pos k (?ns @ [?n]) < first_pos ?n (?ns @ [?n])"
    proof
      fix k assume "k \<in> set ?ks"
      then have k: "k \<in> set ?ns" using keys by simp
      have "first_pos k (?ns @ [?n]) = first_pos k ?ns"
        using k by (rule first_pos_append)
      moreover have "first_pos k ?ns < length ?ns" using k by (rule first_pos_less)
      moreover have "first_pos ?n (?ns @ [?n]) = length ?ns"
        using notin by (rule first_pos_new)
      ultimately show "first_pos k (?ns @ [?n]) < first_pos ?n (?ns @ [?n])"
        by simp
    qed
    have "set (?ks @ [?n]) = set (?ns @ [?n])" using keys by simp
    moreover have "distinct (?ks @ [?n])" using dist False by simp
    moreover have "sorted_wrt (\<lambda>a b. first_pos a (?ns @ [?n]) < first_pos b (?ns @ [?n])) (?ks @ [?n])"
      using srt' last by (simp add: sorted_wrt_append)
    ultimately show ?thesis using False unfolding step ns' by simp
  qed
qed


lemma seat_row_single:
  "seat_row c d [x] = \<lparr>trade_date = d, commodity_id = c,
      commodity_name = strip_digits (h_secShortName x), seat_name = h_seat_name x,
      long_vol = h_long_vol x, short_vol = h_short_vol x,
      long_chg = h_long_chg x, short_chg = h_short_chg x, net_vol = 0, net_chg = 0\<rparr>"
  by (simp add: seat_row_def)

lemma seat_row_snoc:
  "hs \<noteq> [] \<Longrightarrow>
   seat_row c d (hs @ [x]) = (seat_row c d hs)
     \<lparr>long_vol := long_vol (seat_row c d hs) + h_long_vol x,
      short_vol := short_vol (seat_row c d hs) + h_short_vol x,
      long_chg := long_chg (seat_row c d hs) + h_long_chg x,
      short_chg := short_chg (seat_row c d hs) + h_short_chg x\<rparr>"
  by (simp add: seat_row_def)

lemma seatMap_lookup:
  "map_of (fold (seat_step c d) xs []) k =
     (if k \<in> set (map h_seat_name xs)
      then Some (seat_row c d (filter (\<lambda>h. h_seat_name h = k) xs)) else None)"
proof (induction xs arbitrary: k rule: rev_induct)
  case Nil
  then show ?case by simp
next
  case (snoc x xs)
  let ?m = "fold (seat_step c d) xs []"
  let ?n = "h_seat_name x"
  let ?F = "filter (\<lambda>h. h_seat_name h = ?n) xs"
  have fold_snoc: "fold (seat_step c d) (xs @ [x]) [] = seat_step c d x ?m" by simp
  show ?case
  proof (cases "?n \<in> set (map h_seat_name xs)")
    case True
    then have ex: "map_of ?m ?n = Some (seat_row c d ?F)" using snoc by simp
    have ne: "?F \<noteq> []" using True by (auto simp: filter_empty_conv)
    have new: "seat_step c d x ?m = AList.update ?n (seat_row c d (?F @ [x])) ?m"
      unfolding seat_step_def ex using ne by (simp add: seat_row_snoc)
    show ?thesis
      unfolding fold_snoc new using snoc[of k] by (auto simp: update_conv')
  next
    case False
    then have ex: "map_of ?m ?n = None" using snoc by simp
    have "\<forall>h\<in>set xs. h_seat_name h \<noteq> ?n"
    proof
      fix h assume "h \<in> set xs"
      then have "h_seat_name h \<in> set (map h_seat_name xs)" by simp
      with False show "h_seat_name h \<noteq> ?n" by metis
    qed
    then have em: "?F = []" by (simp add: filter_empty_conv)
    have new: "seat_step c d x ?m = AList.update ?n (seat_row c d [x]) ?m"
      unfolding seat_step_def ex by (simp add: seat_row_single)
    show ?thesis
      unfolding fold_snoc new using snoc[of k] em by (auto simp: update_conv')
  qed
qed

lemma seatMap_entry:
  assumes "(k, v) \<in> set (fold (seat_step c d) xs [])"
  shows "k \<in> set (map h_seat_name xs) \<and> v = seat_row c d (filter (\<lambda>h. h_seat_name h = k) xs)"
proof -
  have "distinct (map fst (fold (seat_step c d) xs []))" using seatMap_keys by blast
  with assms have "map_of (fold (seat_step c d) xs []) k = Some v" by simp
  then show ?thesis unfolding seatMap_lookup by (simp split: if_splits)
qed

lemma seat_row_name:
  "k \<in> set (map h_seat_name xs) \<Longrightarrow>
   seat_name (seat_row c d (filter (\<lambda>h. h_seat_name h = k) xs)) = k"
proof -
  assume "k \<in> set (map h_seat_name xs)"
  then have "filter (\<lambda>h. h_seat_name h = k) xs \<noteq> []" by (auto simp: filter_empty_conv)
  then have "hd (filter (\<lambda>h. h_seat_name h = k) xs) \<in> set (filter (\<lambda>h. h_seat_name h = k) xs)"
    by (rule hd_in_set)
  then show ?thesis by (simp add: seat_row_def)
qed

lemma seatMap_names:
  "map seat_name (map with_net (map snd (fold (seat_step c d) xs []))) =
     map fst (fold (seat_step c d) xs [])"
proof -
  have "\<forall>e\<in>set (fold (seat_step c d) xs []). seat_name (with_net (snd e)) = fst e"
  proof
    fix e assume "e \<in> set (fold (seat_step c d) xs [])"
    then have "(fst e, snd e) \<in> set (fold (seat_step c d) xs [])" by simp
    from seatMap_entry[OF this] show "seat_name (with_net (snd e)) = fst e"
      by (simp add: with_net_def seat_row_name)
  qed
  then show ?thesis by simp
qed

lemma seat_holdings_filter:
  "seat_holdings H c d k = filter (\<lambda>h. h_seat_name h = k) (commodityHoldings H c d)"
  by (simp add: seat_holdings_def commodityHoldings_def conj_commute conj_left_commute)

lemma calculateSeatAnalysis_unfold:
  "calculateSeatAnalysis H c d =
     sort_desc (\<lambda>s. \<bar>net_vol s\<bar>)
       (map with_net (map snd (fold (seat_step c d) (commodityHoldings H c d) [])))"
  by (simp add: calculateSeatAnalysis_def Let_def sort_desc_def)

text \<open>
  Claim C5. Every row returned by \<open>calculateSeatAnalysis\<close> carries, in its four volume
  fields, the sums of those fields over all holdings of its seat that match the commodity
  and the date, and its \<open>net_vol\<close> and \<open>net_chg\<close> are exactly the differences
  \<open>long_vol - short_vol\<close> and \<open>long_chg - short_chg\<close>. There is one row for each seat
  that has a matching holding.
\<close>

theorem seat_analysis_net_invariant:
  "(\<forall>r \<in> set (calculateSeatAnalysis holdingData commodityId tradeDate).
      long_vol r = sum_list (map h_long_vol
                     (seat_holdings holdingData commodityId tradeDate (seat_name r))) \<and>
      short_vol r = sum_list (map h_short_vol
                     (seat_holdings holdingData commodityId tradeDate (seat_name r))) \<and>
      long_chg r = sum_list (map h_long_chg
                     (seat_holdings holdingData commodityId tradeDate (seat_name r))) \<and>
      short_chg r = sum_list (map h_short_chg
                     (seat_holdings holdingData commodityId tradeDate (seat_name r))) \<and>
      net_vol r = long_vol r - short_vol r \<and>
      net_chg r = long_chg r - short_chg r) \<and>
   set (map seat_name (calculateSeatAnalysis holdingData commodityId tradeDate)) =
     set (map h_seat_name (commodityHoldings holdingData commodityId tradeDate)) \<and>
   distinct (map seat_name (calculateSeatAnalysis holdingData commodityId tradeDate))"
proof (intro conjI ballI)
  let ?hs = "commodityHoldings holdingData commodityId tradeDate"
  let ?m = "fold (seat_step commodityId tradeDate) ?hs []"
  have names: "map seat_name (map with_net (map snd ?m)) = map fst ?m"
    by (rule seatMap_names)
  have "set (map seat_name (calculateSeatAnalysis holdingData commodityId tradeDate)) =
          set (map seat_name (map with_net (map snd ?m)))"
    unfolding calculateSeatAnalysis_unfold by (simp add: image_image)
  then show "set (map seat_name (calculateSeatAnalysis holdingData commodityId tradeDate)) =
          set (map h_seat_name ?hs)"
    unfolding names using seatMap_keys by blast
  have "mset (map seat_name (calculateSeatAnalysis holdingData commodityId tradeDate)) =
          mset (map fst ?m)"
    unfolding calculateSeatAnalysis_unfold names[symmetric]
    by (simp only: mset_map mset_sort_desc)
  moreover have "distinct (map fst ?m)" using seatMap_keys by blast
  ultimately show "distinct (map seat_name (calculateSeatAnalysis holdingData commodityId tradeDate))"
    by (metis mset_eq_imp_distinct_iff)
next
  fix r
  let ?hs = "commodityHoldings holdingData commodityId tradeDate"
  let ?m = "fold (seat_step commodityId tradeDate) ?hs []"
  assume "r \<in> set (calculateSeatAnalysis holdingData commodityId tradeDate)"
  then have "r \<in> set (map with_net (map snd ?m))"
    unfolding calculateSeatAnalysis_unfold by simp
  then obtain k v where kv: "(k, v) \<in> set ?m" and r: "r = with_net v" by auto
  from seatMap_entry[OF kv] have k: "k \<in> set (map h_seat_name ?hs)"
    and v: "v = seat_row commodityId tradeDate (filter (\<lambda>h. h_seat_name h = k) ?hs)"
    by blast+
  have name: "seat_name r = k"
    unfolding r v using seat_row_name[OF k] by (simp add: with_net_def)
  show "long_vol r = sum_list (map h_long_vol
                     (seat_holdings holdingData commodityId tradeDate (seat_name r)))"
    unfolding name seat_holdings_filter unfolding r v by (simp add: with_net_def seat_row_def)
  show "short_vol r = sum_list (map h_short_vol
                     (seat_holdings holdingData commodityId tradeDate (seat_name r)))"
    unfolding name seat_holdings_filter unfolding r v by (simp add: with_net_def seat_row_def)
  show "long_chg r = sum_list (map h_long_chg
                     (seat_holdings holdingData commodityId tradeDate (seat_name r)))"
    unfolding name seat_holdings_filter unfolding r v by (simp add: with_net_def seat_row_def)
  show "short_chg r = sum_list (map h_short_chg
                     (seat_holdings holdingData commodityId tradeDate (seat_name r)))"
    unfolding name seat_holdings_filter unfolding r v by (simp add: with_net_def seat_row_def)
  show "net_vol r = long_vol r - short_vol r"
    unfolding r by (simp add: with_net_def)
  show "net_chg r = long_chg r - short_chg r"
    unfolding r by (simp add: with_net_def)
qed

theorem seat_analysis_net_invariant_witness:
  "example_row_A \<in> set (calculateSeatAnalysis example_holdings ''cu'' ''2024-01-02'') \<and>
   seat_holdings example_holdings ''cu'' ''2024-01-02'' ''A'' =
     [example_holdings ! 0, example_holdings ! 4] \<and>
   long_vol example_row_A = 10 + 20 \<and> short_vol example_row_A = 40 + 20 \<and>
   net_vol example_row_A = long_vol example_row_A - short_vol example_row_A \<and>
   net_chg example_row_A = long_chg example_row_A - short_chg example_row_A"
proof -
  have mem: "example_row_A \<in> set (calculateSeatAnalysis example_holdings ''cu'' ''2024-01-02'')"
    by code_simp
  have hs: "seat_holdings example_holdings ''cu'' ''2024-01-02'' ''A'' =
     [example_holdings ! 0, example_holdings ! 4]"
    by code_simp
  have nm: "seat_name example_row_A = ''A''" by (simp add: example_row_A_def)
  from seat_analysis_net_invariant[of example_holdings "''cu''" "''2024-01-02''"] mem
  have "long_vol example_row_A = sum_list (map h_long_vol
                     (seat_holdings example_holdings ''cu'' ''2024-01-02'' (seat_name example_row_A))) \<and>
      short_vol example_row_A = sum_list (map h_short_vol
                     (seat_holdings example_holdings ''cu'' ''2024-01-02'' (seat_name example_row_A))) \<and>
      net_vol example_row_A = long_vol example_row_A - short_vol example_row_A \<and>
      net_chg example_row_A = long_chg example_row_A - short_chg example_row_A"
    by blast
  then show ?thesis
    unfolding nm hs using mem by (simp add: example_holdings_def)
qed

text \<open>
  Claim C6. The rows returned by \<open>calculateSeatAnalysis\<close> are ordered by \<open>|net_vol|\<close>
  descending, and two rows with equal \<open>|net_vol|\<close> stand in the order in which their
  seats first appear among the matching holdings of the input.
\<close>

theorem seat_analysis_stable_order:
  "sorted_wrt
     (\<lambda>a b. \<bar>net_vol b\<bar> < \<bar>net_vol a\<bar> \<or>
            (\<bar>net_vol a\<bar> = \<bar>net_vol b\<bar> \<and>
             first_pos (seat_name a)
                (map h_seat_name (commodityHoldings holdingData commodityId tradeDate))
             < first_pos (seat_name b)
                (map h_seat_name (commodityHoldings holdingData commodityId tradeDate))))
     (calculateSeatAnalysis holdingData commodityId tradeDate)"
proof -
  let ?hs = "commodityHoldings holdingData commodityId tradeDate"
  let ?ns = "map h_seat_name ?hs"
  let ?m = "fold (seat_step commodityId tradeDate) ?hs []"
  have "sorted_wrt (\<lambda>a b. first_pos a ?ns < first_pos b ?ns) (map fst ?m)"
    using seatMap_keys by blast
  then have "sorted_wrt (\<lambda>a b. first_pos a ?ns < first_pos b ?ns)
               (map seat_name (map with_net (map snd ?m)))"
    unfolding seatMap_names .
  then have "sorted_wrt (\<lambda>a b. first_pos (seat_name a) ?ns < first_pos (seat_name b) ?ns)
               (map with_net (map snd ?m))"
    unfolding sorted_wrt_map .
  then show ?thesis
    unfolding calculateSeatAnalysis_unfold by (rule sort_desc_lex)
qed

theorem seat_analysis_stable_order_witness:
  "calculateSeatAnalysis example_holdings ''cu'' ''2024-01-02'' = [example_row_A, example_row_B] \<and>
   \<bar>net_vol example_row_A\<bar> = \<bar>net_vol example_row_B\<bar> \<and>
   first_pos (seat_name example_row_A)
      (map h_seat_name (commodityHoldings example_holdings ''cu'' ''2024-01-02''))
   < first_pos (seat_name example_row_B)
      (map h_seat_name (commodityHoldings example_holdings ''cu'' ''2024-01-02''))"
proof -
  have ev: "calculateSeatAnalysis example_holdings ''cu'' ''2024-01-02'' = [example_row_A, example_row_B]"
    by code_simp
  have eq: "\<bar>net_vol example_row_A\<bar> = \<bar>net_vol example_row_B\<bar>"
    by (simp add: example_row_A_def example_row_B_def)
  from seat_analysis_stable_order[of example_holdings "''cu''" "''2024-01-02''"]
  show ?thesis unfolding ev using eq by simp
qed

subsection \<open>Weighted contract synthesizer\<close>

lemma or0_id [simp]: "or0 x = x"
  by (simp add: or0_def)

lemma foldl_add_sum_list:
  "foldl (\<lambda>s m. s + f m) a xs = (a::rat) + sum_list (map f xs)"
  by (induction xs arbitrary: a) (simp_all add: add.assoc)

lemma sum_list_pos:
  "xs \<noteq> [] \<Longrightarrow> \<forall>m\<in>set xs. 0 < f m \<Longrightarrow> (0::rat) < sum_list (map f xs)"
proof (induction xs)
  case Nil
  then show ?case by simp
next
  case (Cons x xs)
  have "0 \<le> sum_list (map f xs)"
    using Cons.prems(2) by (intro sum_list_nonneg) (auto intro: less_imp_le)
  with Cons.prems(2) show ?case by (simp add: add_pos_nonneg)
qed

lemma sum_list_divide:
  "sum_list (map (\<lambda>m. f m / (c::rat)) xs) = sum_list (map f xs) / c"
  by (induction xs) (simp_all add: add_divide_distrib)

lemma pow2_pos: "0 < pow2 k"
  by (simp add: pow2_def)

lemma pow2_Suc: "pow2 (k + 1) = 2 * pow2 k"
proof (cases "0 \<le> k")
  case True
  then have "nat (k + 1) = Suc (nat k)" by simp
  with True show ?thesis by (simp add: pow2_def)
next
  case False
  then have "nat (- k) = Suc (nat (- (k + 1)))" by simp
  with False show ?thesis by (simp add: pow2_def)
qed

lemma pow2_pred: "pow2 (k - 1) = pow2 k / 2"
  using pow2_Suc[of "k - 1"] by simp

lemma pow2_add: "pow2 (k + int n) = 2 ^ n * pow2 k"
proof (induction n)
  case 0
  then show ?case by simp
next
  case (Suc n)
  have "k + int (Suc n) = (k + int n) + 1" by simp
  then have "pow2 (k + int (Suc n)) = 2 * pow2 (k + int n)" by (simp only: pow2_Suc)
  then show ?case unfolding Suc by simp
qed

lemma pow2_mono: "j \<le> k \<Longrightarrow> pow2 j \<le> pow2 k"
proof -
  assume "j \<le> k"
  then obtain n where "k = j + int n" by (metis zle_iff_zadd)
  then have "pow2 k = 2 ^ n * pow2 j" by (simp add: pow2_add)
  moreover have "(1::rat) \<le> 2 ^ n" by simp
  ultimately show ?thesis using pow2_pos[of j] by (simp add: mult_le_cancel_right1)
qed

lemma ilog2_bounds: "0 < x \<Longrightarrow> pow2 (ilog2 x) \<le> x \<and> x < pow2 (ilog2 x + 1)"
proof (induction x rule: ilog2.induct)
  case (1 x)
  show ?case
  proof (cases "2 \<le> x")
    case True
    then have "0 < x / 2" by simp
    with 1 True have IH: "pow2 (ilog2 (x / 2)) \<le> x / 2 \<and> x / 2 < pow2 (ilog2 (x / 2) + 1)"
      by simp
    have eq: "ilog2 x = ilog2 (x / 2) + 1" using True by (subst ilog2.simps) simp
    have a: "pow2 (ilog2 (x / 2) + 1) = 2 * pow2 (ilog2 (x / 2))" by (rule pow2_Suc)
    have b: "pow2 (ilog2 (x / 2) + 1 + 1) = 2 * pow2 (ilog2 (x / 2) + 1)" by (rule pow2_Suc)
    show ?thesis unfolding eq b using IH a by linarith
  next
    case False
    show ?thesis
    proof (cases "x < 1")
      case True
      with 1 False have IH: "pow2 (ilog2 (x * 2)) \<le> x * 2 \<and> x * 2 < pow2 (ilog2 (x * 2) + 1)"
        by simp
      have eq: "ilog2 x = ilog2 (x * 2) - 1" using True False 1 by (subst ilog2.simps) simp
      have a: "pow2 (ilog2 (x * 2) - 1) = pow2 (ilog2 (x * 2)) / 2" by (rule pow2_pred)
      have b: "pow2 (ilog2 (x * 2) + 1) = 2 * pow2 (ilog2 (x * 2))" by (rule pow2_Suc)
      have c: "ilog2 (x * 2) - 1 + 1 = ilog2 (x * 2)" by simp
      show ?thesis unfolding eq c using IH a b by linarith
    next
      case ge: False
      have "ilog2 x = 0" using ge False 1 by (subst ilog2.simps) simp
      with ge False show ?thesis by (simp add: pow2_def)
    qed
  qed
qed

lemma round_half_even_near: "\<bar>of_int (round_half_even y) - y\<bar> \<le> 1 / 2"
proof -
  have "of_int \<lfloor>y\<rfloor> \<le> y" "y < of_int \<lfloor>y\<rfloor> + 1" by linarith+
  then show ?thesis by (auto simp: round_half_even_def Let_def abs_le_iff)
qed

lemma fl_near_grid:
  "\<bar>fl x - x\<bar> \<le> pow2 (max (ilog2 \<bar>x\<bar>) (- 1022) - 53)"
proof (cases "x = 0")
  case True
  then show ?thesis using pow2_pos[of "max (ilog2 \<bar>x\<bar>) (- 1022) - 53"] by (simp add: fl_def)
next
  case False
  define q where "q = pow2 (max (ilog2 \<bar>x\<bar>) (- 1022) - 52)"
  have q: "0 < q" unfolding q_def by (rule pow2_pos)
  have flx: "fl x = q * of_int (round_half_even (x / q))"
    using False by (simp add: fl_def Let_def q_def)
  have "fl x - x = q * (of_int (round_half_even (x / q)) - x / q)"
    unfolding flx using q by (simp add: right_diff_distrib)
  then have "\<bar>fl x - x\<bar> = q * \<bar>of_int (round_half_even (x / q)) - x / q\<bar>"
    using q by (simp add: abs_mult)
  also have "\<dots> \<le> q * (1 / 2)"
    using q round_half_even_near[of "x / q"] by (intro mult_left_mono) simp_all
  also have "\<dots> = pow2 (max (ilog2 \<bar>x\<bar>) (- 1022) - 53)"
    unfolding q_def using pow2_pred[of "max (ilog2 \<bar>x\<bar>) (- 1022) - 52"] by simp
  finally show ?thesis .
qed

lemma fl_error: "\<bar>fl x - x\<bar> \<le> \<bar>x\<bar> / 2 ^ 53 + pow2 (- 1075)"
proof (cases "x = 0")
  case True
  then show ?thesis using pow2_pos[of "- 1075"] by (simp add: fl_def)
next
  case False
  then have pos: "0 < \<bar>x\<bar>" by simp
  show ?thesis
  proof (cases "- 1022 \<le> ilog2 \<bar>x\<bar>")
    case True
    then have "max (ilog2 \<bar>x\<bar>) (- 1022) - 53 = ilog2 \<bar>x\<bar> - 53" by simp
    then have "\<bar>fl x - x\<bar> \<le> pow2 (ilog2 \<bar>x\<bar> - 53)" using fl_near_grid[of x] by simp
    also have "pow2 (ilog2 \<bar>x\<bar> - 53) = pow2 (ilog2 \<bar>x\<bar>) / 2 ^ 53"
      using pow2_add[of "ilog2 \<bar>x\<bar> - 53" 53] by simp
    also have "\<dots> \<le> \<bar>x\<bar> / 2 ^ 53"
      using ilog2_bounds[OF pos] by (simp add: divide_right_mono)
    finally show ?thesis using pow2_pos[of "- 1075"] by linarith
  next
    case False
    then have "max (ilog2 \<bar>x\<bar>) (- 1022) - 53 = - 1075" by simp
    then have "\<bar>fl x - x\<bar> \<le> pow2 (- 1075)" using fl_near_grid[of x] by simp
    then show ?thesis using pos by (simp add: add_increasing)
  qed
qed

lemma round_half_even_tie:
  assumes "\<bar>of_int (round_half_even y) - y\<bar> = 1 / 2"
  shows "even (round_half_even y)"
proof -
  have fl: "of_int \<lfloor>y\<rfloor> \<le> y" "y < of_int \<lfloor>y\<rfloor> + 1" by linarith+
  show ?thesis
  proof (cases "y - of_int \<lfloor>y\<rfloor> = 1 / 2")
    case True
    then show ?thesis by (simp add: round_half_even_def Let_def)
  next
    case False
    then show ?thesis
      using assms fl by (auto simp: round_half_even_def Let_def split: if_splits)
  qed
qed

lemma fl_nearest:
  assumes "x \<noteq> 0" and "q = pow2 (max (ilog2 \<bar>x\<bar>) (- 1022) - 52)"
  shows "\<exists>m. fl x = of_int m * q \<and> \<bar>fl x - x\<bar> \<le> q / 2 \<and> (\<bar>fl x - x\<bar> = q / 2 \<longrightarrow> even m)"
proof -
  define m where "m = round_half_even (x / q)"
  have q: "0 < q" unfolding assms(2) by (rule pow2_pos)
  have flx: "fl x = of_int m * q"
    using assms(1) by (simp add: fl_def Let_def m_def assms(2))
  have "fl x - x = q * (of_int m - x / q)"
    unfolding flx using q by (simp add: right_diff_distrib)
  then have dist: "\<bar>fl x - x\<bar> = q * \<bar>of_int m - x / q\<bar>"
    using q by (simp add: abs_mult)
  have "q * \<bar>of_int m - x / q\<bar> \<le> q * (1 / 2)"
    unfolding m_def using q round_half_even_near[of "x / q"] by (intro mult_left_mono) simp_all
  then have near: "\<bar>fl x - x\<bar> \<le> q / 2" unfolding dist by simp
  have tie: "\<bar>fl x - x\<bar> = q / 2 \<longrightarrow> even m"
  proof
    assume "\<bar>fl x - x\<bar> = q / 2"
    then have "q * \<bar>of_int m - x / q\<bar> = q * (1 / 2)" unfolding dist by simp
    then have "\<bar>of_int m - x / q\<bar> = 1 / 2" using q by simp
    then show "even m" unfolding m_def by (rule round_half_even_tie)
  qed
  from flx near tie show ?thesis by blast
qed

lemma weigh_fold:
  "p_open (foldl (weigh_step T) acc xs) =
     foldl fadd (p_open acc) (map (\<lambda>m. fmul (m_open m) (fdiv (m_open_interest m) T)) xs) \<and>
   p_high (foldl (weigh_step T) acc xs) =
     foldl fadd (p_high acc) (map (\<lambda>m. fmul (m_high m) (fdiv (m_open_interest m) T)) xs) \<and>
   p_low (foldl (weigh_step T) acc xs) =
     foldl fadd (p_low acc) (map (\<lambda>m. fmul (m_low m) (fdiv (m_open_interest m) T)) xs) \<and>
   p_close (foldl (weigh_step T) acc xs) =
     foldl fadd (p_close acc) (map (\<lambda>m. fmul (m_close m) (fdiv (m_open_interest m) T)) xs) \<and>
   p_settle (foldl (weigh_step T) acc xs) =
     foldl fadd (p_settle acc) (map (\<lambda>m. fmul (m_settle m) (fdiv (m_open_interest m) T)) xs)"
  by (induction xs arbitrary: acc) (simp_all add: weigh_step_def Let_def)

lemma code_filter_qualifying:
  "filter (\<lambda>item. m_trade_date item = d \<and> prefix c (m_contract_id item) \<and>
                  m_open_interest item \<noteq> 0 \<and> m_open_interest item > 0) md = qualifying md c d"
  unfolding qualifying_def by (rule filter_cong) auto

lemma qualifying_total_pos:
  "qualifying md c d \<noteq> [] \<Longrightarrow> 0 < sum_list (map m_open_interest (qualifying md c d))"
  by (rule sum_list_pos) (auto simp: qualifying_def)

lemma calculateWeightedContract_some:
  assumes "qualifying md c d \<noteq> []"
  shows "calculateWeightedContract md c d =
     Some \<lparr>w_trade_date = d, w_commodity_id = c,
           w_commodity_name = strip_digits (m_secShortName (hd (qualifying md c d))),
           w_open = fl_weighted m_open (qualifying md c d),
           w_high = fl_weighted m_high (qualifying md c d),
           w_low = fl_weighted m_low (qualifying md c d),
           w_close = fl_weighted m_close (qualifying md c d),
           w_settle = fl_weighted m_settle (qualifying md c d),
           w_volume = sum_list (map m_volume (qualifying md c d)),
           w_open_interest = sum_list (map m_open_interest (qualifying md c d))\<rparr>"
proof -
  have pos: "sum_list (map m_open_interest (qualifying md c d)) \<noteq> 0"
    using qualifying_total_pos[OF assms] by simp
  show ?thesis
    unfolding calculateWeightedContract_def code_filter_qualifying
    using assms pos
    by (simp add: Let_def foldl_add_sum_list weigh_fold fl_weighted_def fl_round2_def
          fl_sum_def fl_weight_def js_round_def)
qed

lemma weights_sum_one:
  assumes "0 < sum_list (map m_open_interest cs)"
  shows "sum_list (map (weight cs) cs) = 1"
proof -
  have "sum_list (map (weight cs) cs) =
          sum_list (map m_open_interest cs) / sum_list (map m_open_interest cs)"
    unfolding weight_def by (rule sum_list_divide)
  then show ?thesis using assms by simp
qed

lemma fl_weight_error:
  assumes "0 < sum_list (map m_open_interest cs)" and "0 < m_open_interest m"
  shows "\<bar>fl_weight cs m - weight cs m\<bar> \<le> weight cs m / 2 ^ 53 + pow2 (- 1075)"
proof -
  have "0 \<le> weight cs m" using assms by (simp add: weight_def)
  then have "\<bar>weight cs m\<bar> = weight cs m" by simp
  with fl_error[of "weight cs m"] show ?thesis
    by (simp add: fl_weight_def fdiv_def weight_def)
qed

lemma sum_list_diff:
  "sum_list (map f xs) - sum_list (map g xs) = sum_list (map (\<lambda>x. f x - g x) xs)"
  for f :: "'a \<Rightarrow> rat"
  by (induction xs) simp_all

lemma sum_list_bound:
  fixes f :: "'a \<Rightarrow> rat"
  assumes "\<forall>x\<in>set xs. \<bar>f x\<bar> \<le> g x"
  shows "\<bar>sum_list (map f xs)\<bar> \<le> sum_list (map g xs)"
  using assms
proof (induction xs)
  case Nil
  then show ?case by simp
next
  case (Cons x xs)
  have "\<bar>f x + sum_list (map f xs)\<bar> \<le> \<bar>f x\<bar> + \<bar>sum_list (map f xs)\<bar>" by (rule abs_triangle_ineq)
  with Cons show ?case by simp
qed

lemma sum_list_add_const:
  "sum_list (map (\<lambda>x. f x / c + k) xs) = sum_list (map f xs) / c + of_nat (length xs) * k"
  for f :: "'a \<Rightarrow> rat"
  by (induction xs) (simp_all add: add_divide_distrib algebra_simps)

lemma fl_weights_sum:
  assumes "0 < sum_list (map m_open_interest cs)" and "\<forall>m\<in>set cs. 0 < m_open_interest m"
  shows "\<bar>sum_list (map (fl_weight cs) cs) - 1\<bar> \<le> 1 / 2 ^ 53 + of_nat (length cs) * pow2 (- 1075)"
proof -
  have one: "sum_list (map (weight cs) cs) = 1" using assms(1) by (rule weights_sum_one)
  have "sum_list (map (fl_weight cs) cs) - 1 =
          sum_list (map (\<lambda>m. fl_weight cs m - weight cs m) cs)"
    unfolding one[symmetric] by (rule sum_list_diff)
  also have "\<bar>\<dots>\<bar> \<le> sum_list (map (\<lambda>m. weight cs m / 2 ^ 53 + pow2 (- 1075)) cs)"
    by (rule sum_list_bound) (use assms fl_weight_error in blast)
  also have "\<dots> = sum_list (map (weight cs) cs) / 2 ^ 53 + of_nat (length cs) * pow2 (- 1075)"
    by (rule sum_list_add_const)
  finally show ?thesis unfolding one .
qed

lemma calculateWeightedContract_none:
  "qualifying md c d = [] \<Longrightarrow> calculateWeightedContract md c d = None"
  unfolding calculateWeightedContract_def code_filter_qualifying by simp

lemma round2_near: "\<bar>round2 x - x\<bar> \<le> 1 / 200 \<and> round2 x * 100 \<in> \<int>"
proof -
  let ?k = "\<lfloor>x * 100 + 1 / 2\<rfloor>"
  have "of_int ?k \<le> x * 100 + 1 / 2" by (rule of_int_floor_le)
  moreover have "x * 100 + 1 / 2 < of_int ?k + 1" by linarith
  ultimately have "\<bar>of_int ?k - x * 100\<bar> \<le> 1 / 2" by linarith
  then have "\<bar>of_int ?k / 100 - x\<bar> \<le> 1 / 200" by (simp add: abs_le_iff field_simps)
  then show ?thesis by (simp add: round2_def)
qed


text \<open>
  Claim C3, as amended. When a commodity has at least one qualifying record on a day
  (same date, contract of the commodity, positive open interest), the total open interest
  is positive and \<open>calculateWeightedContract\<close> returns a record computed in the arithmetic
  of doubles. The weight of a constituent is the double nearest to \<open>oi_i / \<Sum>oi\<close>; the
  exact quotients add up to 1, the weights to 1 up to rounding, within
  \<open>2 ^ -53 + n * 2 ^ -1075\<close> for \<open>n\<close> constituents. Each of the five price fields is the
  double nearest to \<open>k / 100\<close>, where \<open>k\<close> is \<open>Math.round\<close> of the double product
  \<open>100 * S\<close> and \<open>S\<close> is the sum of the products \<open>price_i * weight_i\<close> taken in the
  order of the records, every product and every partial sum rounded to the nearest double.
  Volume and open interest are the plain sums. The double nearest to \<open>x\<close> is the multiple
  of \<open>q = 2 ^ (e - 52)\<close> nearest to \<open>x\<close>, where \<open>2 ^ e \<le> |x| < 2 ^ (e + 1)\<close> and \<open>e\<close> is
  raised to \<open>-1022\<close> if it is less; of two nearest multiples it is the even one; it
  differs from \<open>x\<close> by at most \<open>|x| * 2 ^ -53 + 2 ^ -1075\<close>. Contracts A (open interest
  100, close 10) and B (300, 20) of one day give the weighted close 17.5.
\<close>

theorem weighted_contract_formula:
  "(\<forall>marketData commodityId tradeDate cs.
      cs = qualifying marketData commodityId tradeDate \<and> cs \<noteq> [] \<longrightarrow>
      0 < sum_list (map m_open_interest cs) \<and>
      sum_list (map (weight cs) cs) = 1 \<and>
      \<bar>sum_list (map (fl_weight cs) cs) - 1\<bar>
        \<le> 1 / 2 ^ 53 + of_nat (length cs) * pow2 (- 1075) \<and>
      (\<exists>r. calculateWeightedContract marketData commodityId tradeDate = Some r \<and>
           w_open r = fl_weighted m_open cs \<and>
           w_high r = fl_weighted m_high cs \<and>
           w_low r = fl_weighted m_low cs \<and>
           w_close r = fl_weighted m_close cs \<and>
           w_settle r = fl_weighted m_settle cs \<and>
           w_volume r = sum_list (map m_volume cs) \<and>
           w_open_interest r = sum_list (map m_open_interest cs))) \<and>
   (\<forall>x. \<bar>fl x - x\<bar> \<le> \<bar>x\<bar> / 2 ^ 53 + pow2 (- 1075)) \<and>
   (\<forall>x q. x \<noteq> 0 \<and> q = pow2 (max (ilog2 \<bar>x\<bar>) (- 1022) - 52) \<longrightarrow>
      pow2 (ilog2 \<bar>x\<bar>) \<le> \<bar>x\<bar> \<and> \<bar>x\<bar> < pow2 (ilog2 \<bar>x\<bar> + 1) \<and>
      (\<exists>m. fl x = of_int m * q \<and> \<bar>fl x - x\<bar> \<le> q / 2 \<and>
           (\<bar>fl x - x\<bar> = q / 2 \<longrightarrow> even m))) \<and>
   fl 0 = 0 \<and> pow2 0 = 1 \<and> (\<forall>k. pow2 (k + 1) = 2 * pow2 k) \<and>
   (\<forall>a b. fadd a b = fl (a + b) \<and> fmul a b = fl (a * b) \<and> fdiv a b = fl (a / b)) \<and>
   map_option w_close (calculateWeightedContract example_market ''cu'' ''2024-01-02'')
     = Some (35 / 2)"
proof (intro conjI allI impI)
  fix marketData commodityId tradeDate cs
  assume a: "cs = qualifying marketData commodityId tradeDate \<and> cs \<noteq> []"
  then have ne: "qualifying marketData commodityId tradeDate \<noteq> []" by blast
  have cs: "cs = qualifying marketData commodityId tradeDate" using a by blast
  show pos: "0 < sum_list (map m_open_interest cs)"
    unfolding cs using ne by (rule qualifying_total_pos)
  show "sum_list (map (weight cs) cs) = 1" using pos by (rule weights_sum_one)
  have each: "\<forall>m\<in>set cs. 0 < m_open_interest m" unfolding cs by (simp add: qualifying_def)
  show "\<bar>sum_list (map (fl_weight cs) cs) - 1\<bar>
        \<le> 1 / 2 ^ 53 + of_nat (length cs) * pow2 (- 1075)"
    using pos each by (rule fl_weights_sum)
  show "\<exists>r. calculateWeightedContract marketData commodityId tradeDate = Some r \<and>
           w_open r = fl_weighted m_open cs \<and>
           w_high r = fl_weighted m_high cs \<and>
           w_low r = fl_weighted m_low cs \<and>
           w_close r = fl_weighted m_close cs \<and>
           w_settle r = fl_weighted m_settle cs \<and>
           w_volume r = sum_list (map m_volume cs) \<and>
           w_open_interest r = sum_list (map m_open_interest cs)"
    unfolding cs calculateWeightedContract_some[OF ne] by simp
next
  fix x show "\<bar>fl x - x\<bar> \<le> \<bar>x\<bar> / 2 ^ 53 + pow2 (- 1075)" by (rule fl_error)
next
  fix x q :: rat
  assume "x \<noteq> 0 \<and> q = pow2 (max (ilog2 \<bar>x\<bar>) (- 1022) - 52)"
  then have x: "x \<noteq> 0" and q: "q = pow2 (max (ilog2 \<bar>x\<bar>) (- 1022) - 52)" by simp_all
  from x have pos: "0 < \<bar>x\<bar>" by simp
  show "pow2 (ilog2 \<bar>x\<bar>) \<le> \<bar>x\<bar>" using ilog2_bounds[OF pos] by simp
  show "\<bar>x\<bar> < pow2 (ilog2 \<bar>x\<bar> + 1)" using ilog2_bounds[OF pos] by simp
  show "\<exists>m. fl x = of_int m * q \<and> \<bar>fl x - x\<bar> \<le> q / 2 \<and> (\<bar>fl x - x\<bar> = q / 2 \<longrightarrow> even m)"
    using x q by (rule fl_nearest)
next
  show "fl 0 = 0" by (simp add: fl_def)
  show "pow2 0 = 1" by (simp add: pow2_def)
next
  fix k show "pow2 (k + 1) = 2 * pow2 k" by (rule pow2_Suc)
next
  fix a b show "fadd a b = fl (a + b)" by (simp add: fadd_def)
  show "fmul a b = fl (a * b)" by (simp add: fmul_def)
  show "fdiv a b = fl (a / b)" by (simp add: fdiv_def)
next
  have q: "qualifying example_market ''cu'' ''2024-01-02'' = example_market" by code_simp
  have ne: "qualifying example_market ''cu'' ''2024-01-02'' \<noteq> []"
    unfolding q by (simp add: example_market_def)
  have cl: "fl_weighted m_close example_market = 35 / 2" by code_simp
  show "map_option w_close (calculateWeightedContract example_market ''cu'' ''2024-01-02'')
     = Some (35 / 2)"
    unfolding calculateWeightedContract_some[OF ne] q using cl by simp
qed

theorem weighted_contract_formula_witness:
  "qualifying example_market ''cu'' ''2024-01-02'' = example_market \<and>
   example_market \<noteq> [] \<and>
   map (fl_weight example_market) example_market = [1 / 4, 3 / 4] \<and>
   (\<exists>r. calculateWeightedContract example_market ''cu'' ''2024-01-02'' = Some r \<and>
        w_close r = fl_weighted m_close example_market \<and>
        w_volume r = 12 \<and> w_open_interest r = 400) \<and>
   fl_weighted m_close example_market = 35 / 2 \<and>
   (\<exists>m. fl (1 / 3) = of_int m * pow2 (- 54) \<and> \<bar>fl (1 / 3) - 1 / 3\<bar> \<le> pow2 (- 54) / 2) \<and>
   fl (1 / 3) = 6004799503160661 / 18014398509481984 \<and>
   (\<exists>m. fl (1 + 1 / 2 ^ 53) = of_int m * pow2 (- 52) \<and> even m) \<and>
   fl (1 + 1 / 2 ^ 53) = 1"
proof -
  have q: "qualifying example_market ''cu'' ''2024-01-02'' = example_market" by code_simp
  have ne: "example_market \<noteq> []" by (simp add: example_market_def)
  have ws: "map (fl_weight example_market) example_market = [1 / 4, 3 / 4]" by code_simp
  have v: "sum_list (map m_volume example_market) = 12" by code_simp
  have oi: "sum_list (map m_open_interest example_market) = 400" by code_simp
  have cl: "fl_weighted m_close example_market = 35 / 2" by code_simp
  have "example_market = qualifying example_market ''cu'' ''2024-01-02'' \<and> example_market \<noteq> []"
    using q ne by simp
  with weighted_contract_formula
  have "\<exists>r. calculateWeightedContract example_market ''cu'' ''2024-01-02'' = Some r \<and>
           w_close r = fl_weighted m_close example_market \<and>
           w_volume r = sum_list (map m_volume example_market) \<and>
           w_open_interest r = sum_list (map m_open_interest example_market)"
    by blast
  then have r: "\<exists>r. calculateWeightedContract example_market ''cu'' ''2024-01-02'' = Some r \<and>
        w_close r = fl_weighted m_close example_market \<and>
        w_volume r = 12 \<and> w_open_interest r = 400"
    unfolding v oi .
  have e3: "max (ilog2 \<bar>1 / 3 :: rat\<bar>) (- 1022) - 52 = - 54" by code_simp
  have "(1 / 3 :: rat) \<noteq> 0 \<and> pow2 (- 54) = pow2 (max (ilog2 \<bar>1 / 3 :: rat\<bar>) (- 1022) - 52)"
    unfolding e3 by simp
  with weighted_contract_formula
  have third: "\<exists>m. fl (1 / 3) = of_int m * pow2 (- 54) \<and> \<bar>fl (1 / 3) - 1 / 3\<bar> \<le> pow2 (- 54) / 2"
    by blast
  have third_val: "fl (1 / 3) = 6004799503160661 / 18014398509481984" by code_simp
  have e1: "max (ilog2 \<bar>1 + 1 / 2 ^ 53 :: rat\<bar>) (- 1022) - 52 = - 52" by code_simp
  have t: "\<bar>fl (1 + 1 / 2 ^ 53) - (1 + 1 / 2 ^ 53)\<bar> = pow2 (- 52) / 2" by code_simp
  have "(1 + 1 / 2 ^ 53 :: rat) \<noteq> 0 \<and>
        pow2 (- 52) = pow2 (max (ilog2 \<bar>1 + 1 / 2 ^ 53 :: rat\<bar>) (- 1022) - 52)"
    unfolding e1 by simp
  with weighted_contract_formula
  have "\<exists>m. fl (1 + 1 / 2 ^ 53) = of_int m * pow2 (- 52) \<and>
            (\<bar>fl (1 + 1 / 2 ^ 53) - (1 + 1 / 2 ^ 53)\<bar> = pow2 (- 52) / 2 \<longrightarrow> even m)"
    by blast
  with t have tie: "\<exists>m. fl (1 + 1 / 2 ^ 53) = of_int m * pow2 (- 52) \<and> even m" by blast
  have tie_val: "fl (1 + 1 / 2 ^ 53) = 1" by code_simp
  from q ne ws r cl third third_val tie tie_val show ?thesis by (intro conjI)
qed

text \<open>
  Claim C3 as stated fails. For two contracts of open interest 1 and 2 that close at
  0.125 and 0.875, the sum of \<open>price_i * weight_i\<close> is 0.625 and rounds to 0.63. In
  doubles the weights are rounded quotients and the sum comes to 0.6249999999999999, so
  that \<open>calculateWeightedContract\<close> returns the double nearest to 0.62.
\<close>

theorem weighted_contract_formula_counterexample:
  "qualifying example_market_tie ''cu'' ''2024-01-02'' = example_market_tie \<and>
   spec_weighted m_close example_market_tie = 63 / 100 \<and>
   map_option w_close (calculateWeightedContract example_market_tie ''cu'' ''2024-01-02'')
     = Some (fl (62 / 100)) \<and>
   fl (62 / 100) < 62 / 100 \<and>
   map_option w_close (calculateWeightedContract example_market_tie ''cu'' ''2024-01-02'')
     \<noteq> Some (spec_weighted m_close example_market_tie)"
proof -
  have q: "qualifying example_market_tie ''cu'' ''2024-01-02'' = example_market_tie"
    by code_simp
  have sp: "spec_weighted m_close example_market_tie = 63 / 100" by code_simp
  have ne: "qualifying example_market_tie ''cu'' ''2024-01-02'' \<noteq> []"
    unfolding q by (simp add: example_market_tie_def)
  have cl: "fl_weighted m_close example_market_tie = fl (62 / 100)" by code_simp
  have cd: "map_option w_close (calculateWeightedContract example_market_tie ''cu'' ''2024-01-02'')
     = Some (fl (62 / 100))"
    unfolding calculateWeightedContract_some[OF ne] q using cl by simp
  have lt: "fl (62 / 100) < 62 / 100" by code_simp
  then have ne: "fl (62 / 100) \<noteq> 63 / 100" by linarith
  have "map_option w_close (calculateWeightedContract example_market_tie ''cu'' ''2024-01-02'')
     \<noteq> Some (spec_weighted m_close example_market_tie)"
    unfolding cd sp using ne by (simp only: option.inject not_False_eq_True)
  with q sp cd lt show ?thesis by (intro conjI)
qed

text \<open>
  Claim C4. \<open>calculateWeightedContract\<close> returns \<open>null\<close> exactly when the market
  data hold no record of the commodity and the date with positive open interest, or the
  total open interest of such records is 0; in every other case it returns a synthesized
  record for that commodity and date, with a positive total open interest.
\<close>

theorem weighted_contract_null_iff:
  "((calculateWeightedContract marketData commodityId tradeDate = None) =
      ((\<forall>m\<in>set marketData.
           \<not> (m_trade_date m = tradeDate \<and> prefix commodityId (m_contract_id m) \<and>
              0 < m_open_interest m)) \<or>
       sum_list (map m_open_interest (qualifying marketData commodityId tradeDate)) = 0)) \<and>
   (calculateWeightedContract marketData commodityId tradeDate \<noteq> None \<longrightarrow>
      (\<exists>r. calculateWeightedContract marketData commodityId tradeDate = Some r \<and>
           w_trade_date r = tradeDate \<and> w_commodity_id r = commodityId \<and>
           w_open_interest r =
             sum_list (map m_open_interest (qualifying marketData commodityId tradeDate)) \<and>
           0 < w_open_interest r))"
proof (cases "qualifying marketData commodityId tradeDate = []")
  case True
  then have none: "calculateWeightedContract marketData commodityId tradeDate = None"
    by (rule calculateWeightedContract_none)
  have "\<forall>m\<in>set marketData.
           \<not> (m_trade_date m = tradeDate \<and> prefix commodityId (m_contract_id m) \<and>
              0 < m_open_interest m)"
    using True unfolding qualifying_def filter_empty_conv by simp
  with none show ?thesis by simp
next
  case False
  have pos: "0 < sum_list (map m_open_interest (qualifying marketData commodityId tradeDate))"
    using False by (rule qualifying_total_pos)
  have "\<not> (\<forall>m\<in>set marketData.
           \<not> (m_trade_date m = tradeDate \<and> prefix commodityId (m_contract_id m) \<and>
              0 < m_open_interest m))"
    using False unfolding qualifying_def filter_empty_conv by simp
  with pos show ?thesis
    unfolding calculateWeightedContract_some[OF False] by simp
qed

theorem weighted_contract_null_iff_witness:
  "calculateWeightedContract example_market_idle ''cu'' ''2024-01-02'' = None \<and>
   (\<exists>r. calculateWeightedContract example_market ''cu'' ''2024-01-02'' = Some r \<and>
        w_open_interest r = 400)"
proof -
  have "sum_list (map m_open_interest (qualifying example_market_idle ''cu'' ''2024-01-02'')) = 0"
    by code_simp
  with weighted_contract_null_iff[of example_market_idle "''cu''" "''2024-01-02''"]
  have idle: "calculateWeightedContract example_market_idle ''cu'' ''2024-01-02'' = None"
    by blast
  have q: "qualifying example_market ''cu'' ''2024-01-02'' = example_market" by code_simp
  have oi: "sum_list (map m_open_interest example_market) = 400" by code_simp
  have "\<not> (\<forall>m\<in>set example_market.
           \<not> (m_trade_date m = ''2024-01-02'' \<and> prefix ''cu'' (m_contract_id m) \<and>
              0 < m_open_interest m))"
    by (simp add: example_market_def)
  moreover have "sum_list (map m_open_interest (qualifying example_market ''cu'' ''2024-01-02'')) \<noteq> 0"
    unfolding q oi by simp
  ultimately have "calculateWeightedContract example_market ''cu'' ''2024-01-02'' \<noteq> None"
    using weighted_contract_null_iff[of example_market "''cu''" "''2024-01-02''"] by blast
  with weighted_contract_null_iff[of example_market "''cu''" "''2024-01-02''"]
  have "\<exists>r. calculateWeightedContract example_market ''cu'' ''2024-01-02'' = Some r \<and>
           w_open_interest r =
             sum_list (map m_open_interest (qualifying example_market ''cu'' ''2024-01-02''))"
    by blast
  then show ?thesis unfolding q oi using idle by simp
qed

subsection \<open>Grouping by date and the real long-short indicator\<close>

lemma update_fresh: "k \<notin> fst ` set al \<Longrightarrow> AList.update k v al = al @ [(k, v)]"
  by (induction al) auto

lemma filter_key_empty: "k \<notin> set (map f xs) \<Longrightarrow> filter (\<lambda>s. f s = k) xs = []"
  by (induction xs) auto

lemma group_step_keys:
  "map fst (group_step x m) =
     (if trade_date x \<in> set (map fst m) then map fst m else map fst m @ [trade_date x])"
  by (auto simp: group_step_def update_keys split: option.splits)

lemma dateGroups_keys:
  "set (map fst (dateGroups sd)) = set (map trade_date sd) \<and> distinct (map fst (dateGroups sd))"
  unfolding dateGroups_def
proof (induction sd rule: rev_induct)
  case Nil
  then show ?case by simp
next
  case (snoc x xs)
  then show ?case by (auto simp: group_step_keys)
qed

lemma dateGroups_lookup:
  "map_of (dateGroups sd) d =
     (if d \<in> set (map trade_date sd) then Some (day_rows sd d) else None)"
  unfolding dateGroups_def
proof (induction sd arbitrary: d rule: rev_induct)
  case Nil
  then show ?case by simp
next
  case (snoc x xs)
  let ?m = "fold group_step xs []"
  have fold_snoc: "fold group_step (xs @ [x]) [] = group_step x ?m" by simp
  have new: "group_step x ?m = AList.update (trade_date x) (day_rows xs (trade_date x) @ [x]) ?m"
  proof (cases "trade_date x \<in> set (map trade_date xs)")
    case True
    then show ?thesis unfolding group_step_def snoc by simp
  next
    case False
    then have "day_rows xs (trade_date x) = []"
      unfolding day_rows_def by (rule filter_key_empty)
    with False show ?thesis unfolding group_step_def snoc by simp
  qed
  show ?case
    unfolding fold_snoc new using snoc[of d]
    by (auto simp: update_conv' day_rows_def)
qed

lemma dateGroups_entry:
  assumes "(d, g) \<in> set (dateGroups sd)"
  shows "d \<in> set (map trade_date sd) \<and> g = day_rows sd d"
proof -
  have "distinct (map fst (dateGroups sd))" using dateGroups_keys by blast
  with assms have "map_of (dateGroups sd) d = Some g" by simp
  then show ?thesis unfolding dateGroups_lookup by (simp split: if_splits)
qed

lemma sorted_by_date:
  assumes "\<And>g. key (mk g) = fst g"
  shows "sorted (map key (sort_key key (map mk (dateGroups sd)))) \<and>
         distinct (map key (sort_key key (map mk (dateGroups sd)))) \<and>
         set (map key (sort_key key (map mk (dateGroups sd)))) = set (map trade_date sd)"
proof -
  have keys: "map key (map mk (dateGroups sd)) = map fst (dateGroups sd)"
    by (simp add: assms)
  have "mset (map key (sort_key key (map mk (dateGroups sd)))) = mset (map fst (dateGroups sd))"
    unfolding keys[symmetric] by (simp only: mset_map mset_sort)
  then have "distinct (map key (sort_key key (map mk (dateGroups sd)))) =
             distinct (map fst (dateGroups sd))"
    and "set (map key (sort_key key (map mk (dateGroups sd)))) = set (map fst (dateGroups sd))"
    by (metis mset_eq_imp_distinct_iff, metis set_mset_mset)
  then show ?thesis using dateGroups_keys[of sd] by (simp add: sorted_sort_key del: set_map)
qed

lemma member_by_date:
  assumes "r \<in> set (sort_key key (map mk (dateGroups sd)))"
  shows "\<exists>d. d \<in> set (map trade_date sd) \<and> r = mk (d, day_rows sd d)"
proof -
  from assms obtain d g where "(d, g) \<in> set (dateGroups sd)" and "r = mk (d, g)" by auto
  with dateGroups_entry[of d g sd] show ?thesis by blast
qed


lemma seatNetPositions_distinct:
  assumes "distinct (map seat_name dd)"
  shows "fold (\<lambda>seat m. if seat_name seat \<in> I
                        then AList.update (seat_name seat) (net_vol seat) m else m) dd [] =
         map (\<lambda>s. (seat_name s, net_vol s)) (filter (\<lambda>s. seat_name s \<in> I) dd)"
  using assms
proof (induction dd rule: rev_induct)
  case Nil
  then show ?case by simp
next
  case (snoc x xs)
  let ?al = "map (\<lambda>s. (seat_name s, net_vol s)) (filter (\<lambda>s. seat_name s \<in> I) xs)"
  have IH: "fold (\<lambda>seat m. if seat_name seat \<in> I
                        then AList.update (seat_name seat) (net_vol seat) m else m) xs [] = ?al"
    using snoc by simp
  have "seat_name x \<notin> set (map seat_name xs)" using snoc.prems by simp
  moreover have "fst ` set ?al \<subseteq> set (map seat_name xs)" by auto
  ultimately have fresh: "seat_name x \<notin> fst ` set ?al" by blast
  show ?case
    unfolding fold_append comp_def fold_simps IH
    using update_fresh[OF fresh, of "net_vol x"] by simp
qed

lemma fold_real_accumulate:
  "fold real_accumulate al acc =
     (fst acc + sum_list (map (\<lambda>e. if 0 < snd e then snd e else 0) al),
      snd acc + sum_list (map (\<lambda>e. if snd e < 0 then \<bar>snd e\<bar> else 0) al))"
proof (induction al arbitrary: acc)
  case Nil
  then show ?case by simp
next
  case (Cons e al)
  show ?case
    unfolding fold_simps Cons by (simp add: real_accumulate_def)
qed

lemma real_calculateForTopN_rows:
  assumes "distinct (map seat_name dd)"
  shows "real_calculateForTopN dd combined n =
     \<lparr>realLong = rows_realLong dd (select_top n combined),
      realShort = rows_realShort dd (select_top n combined),
      realDiff = rows_realLong dd (select_top n combined)
                 - rows_realShort dd (select_top n combined)\<rparr>"
proof -
  let ?I = "set (map e_seat_name (select_top n combined))"
  have I: "?I = e_seat_name ` set (select_top n combined)" by simp
  have long: "sum_list (map (\<lambda>e. if 0 < snd e then snd e else 0)
                 (map (\<lambda>s. (seat_name s, net_vol s)) (filter (\<lambda>s. seat_name s \<in> ?I) dd))) =
              rows_realLong dd (select_top n combined)"
    unfolding rows_realLong_def I[symmetric] map_map comp_def snd_conv
    unfolding sum_list_map_filter'
    by (rule arg_cong[where f = sum_list], rule map_cong) auto
  have short: "sum_list (map (\<lambda>e. if snd e < 0 then \<bar>snd e\<bar> else 0)
                 (map (\<lambda>s. (seat_name s, net_vol s)) (filter (\<lambda>s. seat_name s \<in> ?I) dd))) =
              rows_realShort dd (select_top n combined)"
    unfolding rows_realShort_def I[symmetric] map_map comp_def snd_conv
    unfolding sum_list_map_filter'
    by (rule arg_cong[where f = sum_list], rule map_cong) auto
  show ?thesis
    unfolding real_calculateForTopN_def Let_def
      seatNetPositions_distinct[OF assms] fold_real_accumulate long short
    by simp
qed

lemma seat_net_snoc:
  "seat_net (xs @ [x]) k = (if seat_name x = k then net_vol x else seat_net xs k)"
  by (simp add: seat_net_def)

lemma seatNetPositions_lookup:
  "map_of (fold (\<lambda>seat m. if seat_name seat \<in> I
                             then AList.update (seat_name seat) (net_vol seat) m else m) dd []) k =
     (if k \<in> I \<and> k \<in> set (map seat_name dd) then Some (seat_net dd k) else None)"
proof (induction dd arbitrary: k rule: rev_induct)
  case Nil
  then show ?case by simp
next
  case (snoc x xs)
  show ?case
    unfolding fold_append comp_def fold_simps seat_net_snoc
    using snoc[of k] by (auto simp: update_conv')
qed

lemma seatNetPositions_keys:
  "distinct (map fst (fold (\<lambda>seat m. if seat_name seat \<in> I
                             then AList.update (seat_name seat) (net_vol seat) m else m) dd []))"
  by (induction dd rule: rev_induct) (simp_all add: distinct_update)

lemma sum_list_alist:
  fixes g :: "'v \<Rightarrow> rat"
  assumes "distinct (map fst M)"
  shows "sum_list (map (\<lambda>e. g (snd e)) M) = (\<Sum>k\<in>set (map fst M). g (the (map_of M k)))"
  using assms
proof (induction M)
  case Nil
  then show ?case by simp
next
  case (Cons e M)
  have notin: "fst e \<notin> set (map fst M)" and dist: "distinct (map fst M)"
    using Cons.prems by simp_all
  have "(\<Sum>k\<in>set (map fst M). g (the (map_of (e # M) k))) =
        (\<Sum>k\<in>set (map fst M). g (the (map_of M k)))"
  proof (rule sum.cong)
    show "set (map fst M) = set (map fst M)" by simp
  next
    fix k assume "k \<in> set (map fst M)"
    then have "k \<noteq> fst e" using notin by metis
    then show "g (the (map_of (e # M) k)) = g (the (map_of M k))" by (cases e) simp
  qed
  then have "(\<Sum>k\<in>set (map fst (e # M)). g (the (map_of (e # M) k))) =
        g (snd e) + (\<Sum>k\<in>set (map fst M). g (the (map_of M k)))"
    using notin by (cases e) simp
  then show ?case using Cons.IH[OF dist] by simp
qed

lemma pool_names: "e_seat_name ` set (combinedVolumes dd) = set (map seat_name dd)"
  by (induction dd) (auto simp: combinedVolumes_def)

lemma real_calculateForTopN_spec:
  assumes "set (select_top n combined) \<subseteq> set (combinedVolumes dd)"
  shows "real_calculateForTopN dd combined n =
     \<lparr>realLong = spec_realLong dd (select_top n combined),
      realShort = spec_realShort dd (select_top n combined),
      realDiff = spec_realLong dd (select_top n combined)
                 - spec_realShort dd (select_top n combined)\<rparr>"
proof -
  define sel where "sel = select_top n combined"
  define I where "I = set (map e_seat_name sel)"
  define M where "M = fold (\<lambda>seat m. if seat_name seat \<in> I
                             then AList.update (seat_name seat) (net_vol seat) m else m) dd []"
  have I: "I = e_seat_name ` set sel" by (simp add: I_def)
  have "e_seat_name ` set sel \<subseteq> e_seat_name ` set (combinedVolumes dd)"
    using assms unfolding sel_def by (rule image_mono)
  then have sub: "I \<subseteq> set (map seat_name dd)" unfolding I pool_names .
  have dist: "distinct (map fst M)" unfolding M_def by (rule seatNetPositions_keys)
  have look: "\<And>k. map_of M k =
                (if k \<in> I \<and> k \<in> set (map seat_name dd) then Some (seat_net dd k) else None)"
    unfolding M_def by (rule seatNetPositions_lookup)
  have "set (map fst M) = dom (map_of M)" by (simp add: dom_map_of_conv_image_fst)
  also have "\<dots> = {k. k \<in> I \<and> k \<in> set (map seat_name dd)}"
    unfolding dom_def look by simp
  also have "\<dots> = I" using sub by blast
  finally have keys: "set (map fst M) = I" .
  have val: "\<And>k. k \<in> I \<Longrightarrow> the (map_of M k) = seat_net dd k"
  proof -
    fix k assume k: "k \<in> I"
    then have "k \<in> set (map seat_name dd)" using sub by blast
    with k show "the (map_of M k) = seat_net dd k" unfolding look by simp
  qed
  have "sum_list (map (\<lambda>e. if 0 < snd e then snd e else 0) M) =
          (\<Sum>k\<in>I. if 0 < the (map_of M k) then the (map_of M k) else 0)"
    unfolding sum_list_alist[OF dist, of "\<lambda>v. if 0 < v then v else 0"] keys ..
  also have "\<dots> = (\<Sum>k\<in>I. if 0 < seat_net dd k then seat_net dd k else 0)"
    by (rule sum.cong) (simp_all only: val)
  finally have long: "sum_list (map (\<lambda>e. if 0 < snd e then snd e else 0) M) = spec_realLong dd sel"
    unfolding spec_realLong_def I .
  have "sum_list (map (\<lambda>e. if snd e < 0 then \<bar>snd e\<bar> else 0) M) =
          (\<Sum>k\<in>I. if the (map_of M k) < 0 then \<bar>the (map_of M k)\<bar> else 0)"
    unfolding sum_list_alist[OF dist, of "\<lambda>v. if v < 0 then \<bar>v\<bar> else 0"] keys ..
  also have "\<dots> = (\<Sum>k\<in>I. if seat_net dd k < 0 then \<bar>seat_net dd k\<bar> else 0)"
    by (rule sum.cong) (simp_all only: val)
  finally have short: "sum_list (map (\<lambda>e. if snd e < 0 then \<bar>snd e\<bar> else 0) M) = spec_realShort dd sel"
    unfolding spec_realShort_def I .
  have "real_calculateForTopN dd combined n =
          \<lparr>realLong = fst (fold real_accumulate M (0, 0)),
           realShort = snd (fold real_accumulate M (0, 0)),
           realDiff = fst (fold real_accumulate M (0, 0)) - snd (fold real_accumulate M (0, 0))\<rparr>"
    unfolding real_calculateForTopN_def Let_def M_def I_def sel_def ..
  then show ?thesis
    unfolding fold_real_accumulate long short sel_def by simp
qed

lemma select_top_All: "select_top All xs = xs"
  by (simp add: select_top_def)

lemma select_top_Top: "select_top (Top k) xs = take k xs"
  by (simp add: select_top_def)

lemma spec_rows_agree:
  assumes "distinct (map seat_name dd)" and "set sel \<subseteq> set (combinedVolumes dd)"
  shows "spec_realLong dd sel = rows_realLong dd sel \<and>
         spec_realShort dd sel = rows_realShort dd sel"
proof -
  have sub: "set (select_top All sel) \<subseteq> set (combinedVolumes dd)"
    unfolding select_top_All using assms(2) .
  from real_calculateForTopN_spec[OF sub] real_calculateForTopN_rows[OF assms(1), of sel All]
  have "\<lparr>realLong = spec_realLong dd sel, realShort = spec_realShort dd sel,
          realDiff = spec_realLong dd sel - spec_realShort dd sel\<rparr> =
        \<lparr>realLong = rows_realLong dd sel, realShort = rows_realShort dd sel,
          realDiff = rows_realLong dd sel - rows_realShort dd sel\<rparr>"
    unfolding select_top_All by simp
  then show ?thesis by simp
qed

lemma real_day_spec:
  fixes dd :: "seat_analysis list"
  defines "ranked \<equiv> sort_desc e_volume (combinedVolumes dd)"
  shows "real_day (d, dd) =
     \<lparr>r_trade_date = d,
      real_long_10 = spec_realLong dd (take 10 ranked),
      real_long_20 = spec_realLong dd (take 20 ranked),
      real_long_all = spec_realLong dd ranked,
      real_short_10 = spec_realShort dd (take 10 ranked),
      real_short_20 = spec_realShort dd (take 20 ranked),
      real_short_all = spec_realShort dd ranked,
      real_diff_10 = spec_realLong dd (take 10 ranked) - spec_realShort dd (take 10 ranked),
      real_diff_20 = spec_realLong dd (take 20 ranked) - spec_realShort dd (take 20 ranked),
      real_diff_all = spec_realLong dd ranked - spec_realShort dd ranked\<rparr>"
proof -
  have all: "set ranked \<subseteq> set (combinedVolumes dd)" unfolding ranked_def by simp
  have tk: "\<And>k. set (take k ranked) \<subseteq> set (combinedVolumes dd)"
    using set_take_subset all by (rule subset_trans)
  have s10: "set (select_top (Top 10) ranked) \<subseteq> set (combinedVolumes dd)"
    unfolding select_top_Top by (rule tk)
  have s20: "set (select_top (Top 20) ranked) \<subseteq> set (combinedVolumes dd)"
    unfolding select_top_Top by (rule tk)
  have sall: "set (select_top All ranked) \<subseteq> set (combinedVolumes dd)"
    unfolding select_top_All by (rule all)
  show ?thesis
    unfolding real_day_def Let_def fst_conv snd_conv ranked_def[symmetric]
      real_calculateForTopN_spec[OF s10] real_calculateForTopN_spec[OF s20]
      real_calculateForTopN_spec[OF sall] select_top_Top select_top_All
    by simp
qed

lemma pool_entries:
  "map (\<lambda>e. (e_seat_name e, e_volume e, e_net_vol e)) (combinedVolumes dd) =
     concat (map (\<lambda>s. [(seat_name s, long_vol s, net_vol s),
                        (seat_name s, short_vol s, net_vol s)]) dd)"
  by (induction dd) (simp_all add: combinedVolumes_def)

lemma real_day_date: "r_trade_date (real_day g) = fst g"
  by (simp add: real_day_def Let_def)


text \<open>
  Claim C1. \<open>calculateRealLongShort\<close> returns one row for every date of the input, in
  ascending order of the dates. The pool of a date holds two entries for every seat, one
  with its \<open>long_vol\<close> and one with its \<open>short_vol\<close>. The ranked pool is the pool
  rearranged by volume descending, entries of equal volume keeping their order. For the
  breadths 10 and 20 the first 10 and the first 20 entries of the ranked pool are selected,
  for the breadth all the whole ranked pool; \<open>realLong\<close> is the sum of the positive net
  positions and \<open>realShort\<close> the sum of the absolute values of the negative net positions
  of the seats whose names occur among the selected entries, every name counted once, and
  \<open>realDiff = realLong - realShort\<close>. When no seat name occurs twice on a date, these are
  the sums over the date's rows whose name occurs among the selected entries.
\<close>

theorem real_long_short_formula:
  "sorted (map r_trade_date (calculateRealLongShort seatData)) \<and>
   distinct (map r_trade_date (calculateRealLongShort seatData)) \<and>
   set (map r_trade_date (calculateRealLongShort seatData)) = set (map trade_date seatData) \<and>
   (\<forall>r\<in>set (calculateRealLongShort seatData). \<forall>dayData pool ranked.
      dayData = day_rows seatData (r_trade_date r) \<and>
      pool = combinedVolumes dayData \<and>
      ranked = sort_desc e_volume pool \<longrightarrow>
      map (\<lambda>e. (e_seat_name e, e_volume e, e_net_vol e)) pool =
        concat (map (\<lambda>s. [(seat_name s, long_vol s, net_vol s),
                           (seat_name s, short_vol s, net_vol s)]) dayData) \<and>
      mset ranked = mset pool \<and>
      sorted_wrt (\<lambda>a b. e_volume b \<le> e_volume a) ranked \<and>
      (\<forall>v. filter (\<lambda>e. e_volume e = v) ranked = filter (\<lambda>e. e_volume e = v) pool) \<and>
      real_long_10 r = spec_realLong dayData (take 10 ranked) \<and>
      real_long_20 r = spec_realLong dayData (take 20 ranked) \<and>
      real_long_all r = spec_realLong dayData ranked \<and>
      real_short_10 r = spec_realShort dayData (take 10 ranked) \<and>
      real_short_20 r = spec_realShort dayData (take 20 ranked) \<and>
      real_short_all r = spec_realShort dayData ranked \<and>
      real_diff_10 r = real_long_10 r - real_short_10 r \<and>
      real_diff_20 r = real_long_20 r - real_short_20 r \<and>
      real_diff_all r = real_long_all r - real_short_all r) \<and>
   (\<forall>dayData selected.
      distinct (map seat_name dayData) \<and> set selected \<subseteq> set (combinedVolumes dayData) \<longrightarrow>
      spec_realLong dayData selected = rows_realLong dayData selected \<and>
      spec_realShort dayData selected = rows_realShort dayData selected)"
proof (intro conjI ballI allI impI)
  have dates: "sorted (map r_trade_date (calculateRealLongShort seatData)) \<and>
     distinct (map r_trade_date (calculateRealLongShort seatData)) \<and>
     set (map r_trade_date (calculateRealLongShort seatData)) = set (map trade_date seatData)"
    unfolding calculateRealLongShort_def
    by (rule sorted_by_date[of r_trade_date real_day seatData, OF real_day_date])
  show "sorted (map r_trade_date (calculateRealLongShort seatData))" using dates by blast
  show "distinct (map r_trade_date (calculateRealLongShort seatData))" using dates by blast
  show "set (map r_trade_date (calculateRealLongShort seatData)) = set (map trade_date seatData)"
    using dates by blast
next
  fix r and dayData :: "seat_analysis list" and pool ranked v
  assume mem: "r \<in> set (calculateRealLongShort seatData)"
  assume "dayData = day_rows seatData (r_trade_date r) \<and>
      pool = combinedVolumes dayData \<and> ranked = sort_desc e_volume pool"
  then have dd: "dayData = day_rows seatData (r_trade_date r)"
    and pool: "pool = combinedVolumes dayData"
    and ranked: "ranked = sort_desc e_volume (combinedVolumes dayData)"
    by simp_all
  from mem have "r \<in> set (sort_key r_trade_date (map real_day (dateGroups seatData)))"
    unfolding calculateRealLongShort_def .
  from member_by_date[OF this] obtain d where
    r: "r = real_day (d, day_rows seatData d)"
    by blast
  have rd: "r_trade_date r = d" unfolding r by (simp add: real_day_date)
  have r': "r = real_day (d, dayData)" unfolding dd rd by (rule r)
  note eq = real_day_spec[of d dayData, folded ranked]
  show "map (\<lambda>e. (e_seat_name e, e_volume e, e_net_vol e)) pool =
        concat (map (\<lambda>s. [(seat_name s, long_vol s, net_vol s),
                           (seat_name s, short_vol s, net_vol s)]) dayData)"
    unfolding pool by (rule pool_entries)
  show "mset ranked = mset pool" unfolding ranked pool by (rule mset_sort_desc)
  show "sorted_wrt (\<lambda>a b. e_volume b \<le> e_volume a) ranked"
    unfolding ranked by (rule sort_desc_sorted)
  show "filter (\<lambda>e. e_volume e = v) ranked = filter (\<lambda>e. e_volume e = v) pool"
    unfolding ranked pool by (rule sort_desc_stable)
  show "real_long_10 r = spec_realLong dayData (take 10 ranked)" unfolding r' eq by simp
  show "real_long_20 r = spec_realLong dayData (take 20 ranked)" unfolding r' eq by simp
  show "real_long_all r = spec_realLong dayData ranked" unfolding r' eq by simp
  show "real_short_10 r = spec_realShort dayData (take 10 ranked)" unfolding r' eq by simp
  show "real_short_20 r = spec_realShort dayData (take 20 ranked)" unfolding r' eq by simp
  show "real_short_all r = spec_realShort dayData ranked" unfolding r' eq by simp
  show "real_diff_10 r = real_long_10 r - real_short_10 r" unfolding r' eq by simp
  show "real_diff_20 r = real_long_20 r - real_short_20 r" unfolding r' eq by simp
  show "real_diff_all r = real_long_all r - real_short_all r" unfolding r' eq by simp
next
  fix dayData :: "seat_analysis list" and selected
  assume "distinct (map seat_name dayData) \<and> set selected \<subseteq> set (combinedVolumes dayData)"
  then have a: "distinct (map seat_name dayData)"
    and b: "set selected \<subseteq> set (combinedVolumes dayData)" by simp_all
  from spec_rows_agree[OF a b]
  show "spec_realLong dayData selected = rows_realLong dayData selected" by simp
next
  fix dayData :: "seat_analysis list" and selected
  assume "distinct (map seat_name dayData) \<and> set selected \<subseteq> set (combinedVolumes dayData)"
  then have a: "distinct (map seat_name dayData)"
    and b: "set selected \<subseteq> set (combinedVolumes dayData)" by simp_all
  from spec_rows_agree[OF a b]
  show "spec_realShort dayData selected = rows_realShort dayData selected" by simp
qed

theorem real_long_short_formula_witness:
  "map r_trade_date (calculateRealLongShort example_many) = [''2024-01-02'', ''2024-01-03''] \<and>
   last (calculateRealLongShort example_many) \<in> set (calculateRealLongShort example_many) \<and>
   r_trade_date (last (calculateRealLongShort example_many)) = ''2024-01-03'' \<and>
   length (combinedVolumes (day_rows example_many ''2024-01-03'')) = 44 \<and>
   map (\<lambda>e. (e_seat_name e, e_volume e))
     (take 10 (sort_desc e_volume (combinedVolumes (day_rows example_many ''2024-01-03'')))) =
     [(''S22'', 220), (''S22'', 215), (''S21'', 210), (''S20'', 200), (''S19'', 190),
      (''S18'', 180), (''S17'', 170), (''S16'', 160), (''S15'', 150), (''S13'', 140)] \<and>
   real_long_10 (last (calculateRealLongShort example_many)) = 865 \<and>
   real_long_20 (last (calculateRealLongShort example_many)) = 1195 \<and>
   real_long_all (last (calculateRealLongShort example_many)) = 1235 \<and>
   real_short_10 (last (calculateRealLongShort example_many)) = 540 \<and>
   real_short_20 (last (calculateRealLongShort example_many)) = 1080 \<and>
   real_short_all (last (calculateRealLongShort example_many)) = 1100 \<and>
   real_diff_10 (last (calculateRealLongShort example_many)) = 325 \<and>
   real_diff_20 (last (calculateRealLongShort example_many)) = 115 \<and>
   real_diff_all (last (calculateRealLongShort example_many)) = 135 \<and>
   distinct (map seat_name (day_rows example_many ''2024-01-03'')) \<and>
   rows_realLong (day_rows example_many ''2024-01-03'')
     (take 10 (sort_desc e_volume (combinedVolumes (day_rows example_many ''2024-01-03'')))) = 865 \<and>
   rows_realShort (day_rows example_many ''2024-01-03'')
     (take 10 (sort_desc e_volume (combinedVolumes (day_rows example_many ''2024-01-03'')))) = 540"
proof -
  let ?r = "last (calculateRealLongShort example_many)"
  let ?dd = "day_rows example_many ''2024-01-03''"
  let ?pool = "combinedVolumes ?dd"
  let ?ranked = "sort_desc e_volume ?pool"
  have dates: "map r_trade_date (calculateRealLongShort example_many) =
                 [''2024-01-02'', ''2024-01-03'']"
    by code_simp
  have mem: "?r \<in> set (calculateRealLongShort example_many)" by code_simp
  have d: "r_trade_date ?r = ''2024-01-03''" by code_simp
  have len: "length ?pool = 44" by code_simp
  have top: "map (\<lambda>e. (e_seat_name e, e_volume e)) (take 10 ?ranked) =
     [(''S22'', 220), (''S22'', 215), (''S21'', 210), (''S20'', 200), (''S19'', 190),
      (''S18'', 180), (''S17'', 170), (''S16'', 160), (''S15'', 150), (''S13'', 140)]"
    by code_simp
  have l10: "spec_realLong ?dd (take 10 ?ranked) = 865" by code_simp
  have l20: "spec_realLong ?dd (take 20 ?ranked) = 1195" by code_simp
  have lall: "spec_realLong ?dd ?ranked = 1235" by code_simp
  have s10: "spec_realShort ?dd (take 10 ?ranked) = 540" by code_simp
  have s20: "spec_realShort ?dd (take 20 ?ranked) = 1080" by code_simp
  have sall: "spec_realShort ?dd ?ranked = 1100" by code_simp
  have dist: "distinct (map seat_name ?dd)" by code_simp
  have sub: "set (take 10 ?ranked) \<subseteq> set ?pool"
    using set_take_subset[of 10 ?ranked] by simp
  have h: "?dd = day_rows example_many (r_trade_date ?r) \<and> ?pool = combinedVolumes ?dd \<and>
           ?ranked = sort_desc e_volume ?pool"
    unfolding d by simp
  from real_long_short_formula[of example_many] mem h
  have "real_long_10 ?r = spec_realLong ?dd (take 10 ?ranked) \<and>
        real_long_20 ?r = spec_realLong ?dd (take 20 ?ranked) \<and>
        real_long_all ?r = spec_realLong ?dd ?ranked \<and>
        real_short_10 ?r = spec_realShort ?dd (take 10 ?ranked) \<and>
        real_short_20 ?r = spec_realShort ?dd (take 20 ?ranked) \<and>
        real_short_all ?r = spec_realShort ?dd ?ranked \<and>
        real_diff_10 ?r = real_long_10 ?r - real_short_10 ?r \<and>
        real_diff_20 ?r = real_long_20 ?r - real_short_20 ?r \<and>
        real_diff_all ?r = real_long_all ?r - real_short_all ?r"
    by blast
  then have vals: "real_long_10 ?r = 865 \<and> real_long_20 ?r = 1195 \<and> real_long_all ?r = 1235 \<and>
        real_short_10 ?r = 540 \<and> real_short_20 ?r = 1080 \<and> real_short_all ?r = 1100 \<and>
        real_diff_10 ?r = 325 \<and> real_diff_20 ?r = 115 \<and> real_diff_all ?r = 135"
    unfolding l10 l20 lall s10 s20 sall by simp
  from real_long_short_formula[of example_many] dist sub
  have "spec_realLong ?dd (take 10 ?ranked) = rows_realLong ?dd (take 10 ?ranked) \<and>
        spec_realShort ?dd (take 10 ?ranked) = rows_realShort ?dd (take 10 ?ranked)"
    by blast
  then have rows: "rows_realLong ?dd (take 10 ?ranked) = 865 \<and>
                   rows_realShort ?dd (take 10 ?ranked) = 540"
    unfolding l10 s10 by simp
  from dates mem d len top vals dist rows show ?thesis by (intro conjI) blast+
qed

subsection \<open>Flow long-short indicator\<close>

lemma sum_net_where_eq:
  "sum_net_where p xs = sum_list (map (\<lambda>s. if p s then net_vol s else 0) xs)"
  unfolding sum_net_where_def foldl_add_sum_list sum_list_map_filter' by simp

lemma sum_list_uminus:
  "- sum_list (map f xs) = sum_list (map (\<lambda>x. - f x) xs)" for f :: "'a \<Rightarrow> rat"
  by (induction xs) simp_all

lemma abs_sum_list_nonpos:
  fixes f :: "'a \<Rightarrow> rat"
  assumes "\<forall>x\<in>set xs. f x \<le> 0"
  shows "\<bar>sum_list (map f xs)\<bar> = sum_list (map (\<lambda>x. \<bar>f x\<bar>) xs)"
proof -
  have "sum_list (map f xs) \<le> 0"
    using assms by (intro sum_list_nonpos) auto
  then have "\<bar>sum_list (map f xs)\<bar> = - sum_list (map f xs)" by simp
  also have "\<dots> = sum_list (map (\<lambda>x. - f x) xs)" by (rule sum_list_uminus)
  also have "\<dots> = sum_list (map (\<lambda>x. \<bar>f x\<bar>) xs)"
    using assms by (intro arg_cong[where f = sum_list] map_cong) auto
  finally show ?thesis .
qed

lemma flow_addLong:
  "sum_net_where (\<lambda>seat. net_vol seat > 0 \<and> net_chg seat > 0) xs =
     sum_list (map (\<lambda>s. addLong (flow_contribution s)) xs)"
  unfolding sum_net_where_eq
  by (intro arg_cong[where f = sum_list] map_cong) (auto simp: flow_contribution_def)

lemma flow_addShort:
  "\<bar>sum_net_where (\<lambda>seat. net_vol seat < 0 \<and> net_chg seat < 0) xs\<bar> =
     sum_list (map (\<lambda>s. addShort (flow_contribution s)) xs)"
proof -
  have "\<bar>sum_list (map (\<lambda>s. if net_vol s < 0 \<and> net_chg s < 0 then net_vol s else 0) xs)\<bar> =
        sum_list (map (\<lambda>s. \<bar>if net_vol s < 0 \<and> net_chg s < 0 then net_vol s else 0\<bar>) xs)"
    by (rule abs_sum_list_nonpos) auto
  also have "\<dots> = sum_list (map (\<lambda>s. addShort (flow_contribution s)) xs)"
    by (intro arg_cong[where f = sum_list] map_cong) (auto simp: flow_contribution_def)
  finally show ?thesis unfolding sum_net_where_eq .
qed

lemma flow_reduceLong:
  "- sum_net_where (\<lambda>seat. net_vol seat > 0 \<and> net_chg seat < 0) xs =
     sum_list (map (\<lambda>s. reduceLong (flow_contribution s)) xs)"
  unfolding sum_net_where_eq sum_list_uminus
  by (intro arg_cong[where f = sum_list] map_cong) (auto simp: flow_contribution_def)

lemma flow_reduceShort:
  "sum_net_where (\<lambda>seat. net_vol seat < 0 \<and> net_chg seat > 0) xs =
     sum_list (map (\<lambda>s. reduceShort (flow_contribution s)) xs)"
  unfolding sum_net_where_eq
  by (intro arg_cong[where f = sum_list] map_cong) (auto simp: flow_contribution_def)

lemma flow_calculateForTopN_spec:
  "flow_calculateForTopN sortedSeats n =
     \<lparr>addLong = bucket addLong (select_top n sortedSeats),
      addShort = bucket addShort (select_top n sortedSeats),
      reduceLong = bucket reduceLong (select_top n sortedSeats),
      reduceShort = bucket reduceShort (select_top n sortedSeats)\<rparr>"
  unfolding flow_calculateForTopN_def Let_def bucket_def
    flow_addLong flow_addShort flow_reduceLong flow_reduceShort
  by simp

lemma flow_day_spec:
  fixes dd :: "seat_analysis list"
  defines "ranked \<equiv> sort_desc (\<lambda>s. \<bar>net_vol s\<bar>) dd"
  shows "flow_day (d, dd) =
     \<lparr>f_trade_date = d,
      add_long_10 = bucket addLong (take 10 ranked),
      add_long_20 = bucket addLong (take 20 ranked),
      add_long_all = bucket addLong ranked,
      add_short_10 = bucket addShort (take 10 ranked),
      add_short_20 = bucket addShort (take 20 ranked),
      add_short_all = bucket addShort ranked,
      reduce_long_10 = bucket reduceLong (take 10 ranked),
      reduce_long_20 = bucket reduceLong (take 20 ranked),
      reduce_long_all = bucket reduceLong ranked,
      reduce_short_10 = bucket reduceShort (take 10 ranked),
      reduce_short_20 = bucket reduceShort (take 20 ranked),
      reduce_short_all = bucket reduceShort ranked\<rparr>"
  unfolding flow_day_def Let_def fst_conv snd_conv ranked_def[symmetric]
    flow_calculateForTopN_spec select_top_Top select_top_All
  by simp

lemma flow_day_date: "f_trade_date (flow_day g) = fst g"
  by (simp add: flow_day_def Let_def)


text \<open>
  Claim C2. \<open>calculateFlowLongShort\<close> returns one row for every date of the input, in
  ascending order of the dates. The ranked seats of a date are the date's rows rearranged
  by \<open>|net_vol|\<close> descending, rows of equal \<open>|net_vol|\<close> keeping their order. For the
  breadths 10 and 20 the first 10 and the first 20 ranked seats are selected, for the
  breadth all every ranked seat, and each of the four buckets is the sum of what the
  selected seats contribute: a seat with positive net position and positive net change
  adds \<open>net_vol\<close> to \<open>addLong\<close>, one with both negative adds \<open>|net_vol|\<close> to
  \<open>addShort\<close>, one with positive position and negative change adds \<open>- net_vol\<close> to
  \<open>reduceLong\<close>, one with negative position and positive change adds \<open>net_vol\<close> to
  \<open>reduceShort\<close>, and a seat whose net position or net change is 0 adds nothing to any
  bucket. Seats S1 (net 50, change 5), S2 (net -30, change -2) and S3 (net 20, change -1)
  give 50, 30, -20 and 0 at breadth 10.
\<close>

theorem flow_long_short_buckets:
  "sorted (map f_trade_date (calculateFlowLongShort seatData)) \<and>
   distinct (map f_trade_date (calculateFlowLongShort seatData)) \<and>
   set (map f_trade_date (calculateFlowLongShort seatData)) = set (map trade_date seatData) \<and>
   (\<forall>r\<in>set (calculateFlowLongShort seatData). \<forall>dayData ranked.
      dayData = day_rows seatData (f_trade_date r) \<and>
      ranked = sort_desc (\<lambda>s. \<bar>net_vol s\<bar>) dayData \<longrightarrow>
      mset ranked = mset dayData \<and>
      sorted_wrt (\<lambda>a b. \<bar>net_vol b\<bar> \<le> \<bar>net_vol a\<bar>) ranked \<and>
      (\<forall>v. filter (\<lambda>s. \<bar>net_vol s\<bar> = v) ranked = filter (\<lambda>s. \<bar>net_vol s\<bar> = v) dayData) \<and>
      add_long_10 r = sum_list (map (\<lambda>s. addLong (flow_contribution s)) (take 10 ranked)) \<and>
      add_long_20 r = sum_list (map (\<lambda>s. addLong (flow_contribution s)) (take 20 ranked)) \<and>
      add_long_all r = sum_list (map (\<lambda>s. addLong (flow_contribution s)) ranked) \<and>
      add_short_10 r = sum_list (map (\<lambda>s. addShort (flow_contribution s)) (take 10 ranked)) \<and>
      add_short_20 r = sum_list (map (\<lambda>s. addShort (flow_contribution s)) (take 20 ranked)) \<and>
      add_short_all r = sum_list (map (\<lambda>s. addShort (flow_contribution s)) ranked) \<and>
      reduce_long_10 r =
        sum_list (map (\<lambda>s. reduceLong (flow_contribution s)) (take 10 ranked)) \<and>
      reduce_long_20 r =
        sum_list (map (\<lambda>s. reduceLong (flow_contribution s)) (take 20 ranked)) \<and>
      reduce_long_all r = sum_list (map (\<lambda>s. reduceLong (flow_contribution s)) ranked) \<and>
      reduce_short_10 r =
        sum_list (map (\<lambda>s. reduceShort (flow_contribution s)) (take 10 ranked)) \<and>
      reduce_short_20 r =
        sum_list (map (\<lambda>s. reduceShort (flow_contribution s)) (take 20 ranked)) \<and>
      reduce_short_all r = sum_list (map (\<lambda>s. reduceShort (flow_contribution s)) ranked)) \<and>
   (\<forall>s. (0 < net_vol s \<and> 0 < net_chg s \<longrightarrow>
          flow_contribution s =
            \<lparr>addLong = net_vol s, addShort = 0, reduceLong = 0, reduceShort = 0\<rparr>) \<and>
        (net_vol s < 0 \<and> net_chg s < 0 \<longrightarrow>
          flow_contribution s =
            \<lparr>addLong = 0, addShort = \<bar>net_vol s\<bar>, reduceLong = 0, reduceShort = 0\<rparr>) \<and>
        (0 < net_vol s \<and> net_chg s < 0 \<longrightarrow>
          flow_contribution s =
            \<lparr>addLong = 0, addShort = 0, reduceLong = - net_vol s, reduceShort = 0\<rparr>) \<and>
        (net_vol s < 0 \<and> 0 < net_chg s \<longrightarrow>
          flow_contribution s =
            \<lparr>addLong = 0, addShort = 0, reduceLong = 0, reduceShort = net_vol s\<rparr>) \<and>
        (net_vol s = 0 \<or> net_chg s = 0 \<longrightarrow>
          flow_contribution s =
            \<lparr>addLong = 0, addShort = 0, reduceLong = 0, reduceShort = 0\<rparr>)) \<and>
   map (\<lambda>s. (net_vol s, net_chg s)) (day_rows example_seats ''2024-01-03'') =
     [(50, 5), (- 30, - 2), (20, - 1)] \<and>
   map (\<lambda>r. (f_trade_date r, add_long_10 r, add_short_10 r, reduce_long_10 r, reduce_short_10 r))
     (calculateFlowLongShort example_seats) =
     [(''2024-01-02'', 0, 0, 0, 0), (''2024-01-03'', 50, 30, - 20, 0)]"
proof (intro conjI ballI allI impI)
  have dates: "sorted (map f_trade_date (calculateFlowLongShort seatData)) \<and>
     distinct (map f_trade_date (calculateFlowLongShort seatData)) \<and>
     set (map f_trade_date (calculateFlowLongShort seatData)) = set (map trade_date seatData)"
    unfolding calculateFlowLongShort_def
    by (rule sorted_by_date[of f_trade_date flow_day seatData, OF flow_day_date])
  show "sorted (map f_trade_date (calculateFlowLongShort seatData))" using dates by blast
  show "distinct (map f_trade_date (calculateFlowLongShort seatData))" using dates by blast
  show "set (map f_trade_date (calculateFlowLongShort seatData)) = set (map trade_date seatData)"
    using dates by blast
next
  fix r and dayData ranked :: "seat_analysis list" and v
  assume mem: "r \<in> set (calculateFlowLongShort seatData)"
  assume "dayData = day_rows seatData (f_trade_date r) \<and>
      ranked = sort_desc (\<lambda>s. \<bar>net_vol s\<bar>) dayData"
  then have dd: "dayData = day_rows seatData (f_trade_date r)"
    and ranked: "ranked = sort_desc (\<lambda>s. \<bar>net_vol s\<bar>) dayData"
    by simp_all
  from mem have "r \<in> set (sort_key f_trade_date (map flow_day (dateGroups seatData)))"
    unfolding calculateFlowLongShort_def .
  from member_by_date[OF this] obtain d where
    r: "r = flow_day (d, day_rows seatData d)"
    by blast
  have rd: "f_trade_date r = d" unfolding r by (simp add: flow_day_date)
  have r': "r = flow_day (d, dayData)" unfolding dd rd by (rule r)
  note eq = flow_day_spec[of d dayData, folded ranked, unfolded bucket_def]
  show "mset ranked = mset dayData" unfolding ranked by (rule mset_sort_desc)
  show "sorted_wrt (\<lambda>a b. \<bar>net_vol b\<bar> \<le> \<bar>net_vol a\<bar>) ranked"
    unfolding ranked by (rule sort_desc_sorted)
  show "filter (\<lambda>s. \<bar>net_vol s\<bar> = v) ranked = filter (\<lambda>s. \<bar>net_vol s\<bar> = v) dayData"
    unfolding ranked by (rule sort_desc_stable)
  show "add_long_10 r = sum_list (map (\<lambda>s. addLong (flow_contribution s)) (take 10 ranked))"
    unfolding r' eq by simp
  show "add_long_20 r = sum_list (map (\<lambda>s. addLong (flow_contribution s)) (take 20 ranked))"
    unfolding r' eq by simp
  show "add_long_all r = sum_list (map (\<lambda>s. addLong (flow_contribution s)) ranked)"
    unfolding r' eq by simp
  show "add_short_10 r = sum_list (map (\<lambda>s. addShort (flow_contribution s)) (take 10 ranked))"
    unfolding r' eq by simp
  show "add_short_20 r = sum_list (map (\<lambda>s. addShort (flow_contribution s)) (take 20 ranked))"
    unfolding r' eq by simp
  show "add_short_all r = sum_list (map (\<lambda>s. addShort (flow_contribution s)) ranked)"
    unfolding r' eq by simp
  show "reduce_long_10 r =
        sum_list (map (\<lambda>s. reduceLong (flow_contribution s)) (take 10 ranked))"
    unfolding r' eq by simp
  show "reduce_long_20 r =
        sum_list (map (\<lambda>s. reduceLong (flow_contribution s)) (take 20 ranked))"
    unfolding r' eq by simp
  show "reduce_long_all r = sum_list (map (\<lambda>s. reduceLong (flow_contribution s)) ranked)"
    unfolding r' eq by simp
  show "reduce_short_10 r =
        sum_list (map (\<lambda>s. reduceShort (flow_contribution s)) (take 10 ranked))"
    unfolding r' eq by simp
  show "reduce_short_20 r =
        sum_list (map (\<lambda>s. reduceShort (flow_contribution s)) (take 20 ranked))"
    unfolding r' eq by simp
  show "reduce_short_all r = sum_list (map (\<lambda>s. reduceShort (flow_contribution s)) ranked)"
    unfolding r' eq by simp
next
  fix s :: seat_analysis assume "0 < net_vol s \<and> 0 < net_chg s"
  then show "flow_contribution s =
            \<lparr>addLong = net_vol s, addShort = 0, reduceLong = 0, reduceShort = 0\<rparr>"
    by (simp add: flow_contribution_def)
next
  fix s :: seat_analysis assume "net_vol s < 0 \<and> net_chg s < 0"
  then show "flow_contribution s =
            \<lparr>addLong = 0, addShort = \<bar>net_vol s\<bar>, reduceLong = 0, reduceShort = 0\<rparr>"
    by (simp add: flow_contribution_def)
next
  fix s :: seat_analysis assume "0 < net_vol s \<and> net_chg s < 0"
  then show "flow_contribution s =
            \<lparr>addLong = 0, addShort = 0, reduceLong = - net_vol s, reduceShort = 0\<rparr>"
    by (simp add: flow_contribution_def)
next
  fix s :: seat_analysis assume "net_vol s < 0 \<and> 0 < net_chg s"
  then show "flow_contribution s =
            \<lparr>addLong = 0, addShort = 0, reduceLong = 0, reduceShort = net_vol s\<rparr>"
    by (simp add: flow_contribution_def)
next
  fix s :: seat_analysis assume "net_vol s = 0 \<or> net_chg s = 0"
  then show "flow_contribution s =
            \<lparr>addLong = 0, addShort = 0, reduceLong = 0, reduceShort = 0\<rparr>"
    by (auto simp: flow_contribution_def)
next
  show "map (\<lambda>s. (net_vol s, net_chg s)) (day_rows example_seats ''2024-01-03'') =
     [(50, 5), (- 30, - 2), (20, - 1)]"
    by code_simp
next
  show "map (\<lambda>r. (f_trade_date r, add_long_10 r, add_short_10 r, reduce_long_10 r, reduce_short_10 r))
     (calculateFlowLongShort example_seats) =
     [(''2024-01-02'', 0, 0, 0, 0), (''2024-01-03'', 50, 30, - 20, 0)]"
    by code_simp
qed

theorem flow_long_short_buckets_witness:
  "map f_trade_date (calculateFlowLongShort example_many) = [''2024-01-02'', ''2024-01-03''] \<and>
   last (calculateFlowLongShort example_many) \<in> set (calculateFlowLongShort example_many) \<and>
   f_trade_date (last (calculateFlowLongShort example_many)) = ''2024-01-03'' \<and>
   length (day_rows example_many ''2024-01-03'') = 22 \<and>
   map (\<lambda>s. (seat_name s, net_vol s, net_chg s))
     (take 10 (sort_desc (\<lambda>s. \<bar>net_vol s\<bar>) (day_rows example_many ''2024-01-03''))) =
     [(''S21'', 210, - 10), (''S20'', - 200, - 9), (''S19'', 190, 9), (''S18'', - 180, 8),
      (''S17'', 170, - 8), (''S16'', - 160, - 7), (''S15'', 150, 0), (''S13'', 140, 7),
      (''S14'', - 140, 6), (''S11'', 120, - 6)] \<and>
   add_long_10 (last (calculateFlowLongShort example_many)) = 330 \<and>
   add_long_20 (last (calculateFlowLongShort example_many)) = 470 \<and>
   add_long_all (last (calculateFlowLongShort example_many)) = 485 \<and>
   add_short_10 (last (calculateFlowLongShort example_many)) = 360 \<and>
   add_short_20 (last (calculateFlowLongShort example_many)) = 600 \<and>
   add_short_all (last (calculateFlowLongShort example_many)) = 600 \<and>
   reduce_long_10 (last (calculateFlowLongShort example_many)) = - 500 \<and>
   reduce_long_20 (last (calculateFlowLongShort example_many)) = - 600 \<and>
   reduce_long_all (last (calculateFlowLongShort example_many)) = - 600 \<and>
   reduce_short_10 (last (calculateFlowLongShort example_many)) = - 320 \<and>
   reduce_short_20 (last (calculateFlowLongShort example_many)) = - 480 \<and>
   reduce_short_all (last (calculateFlowLongShort example_many)) = - 480 \<and>
   flow_contribution (seat_of ''2024-01-03'' ''S19'' 190 0 9) =
     \<lparr>addLong = 190, addShort = 0, reduceLong = 0, reduceShort = 0\<rparr> \<and>
   flow_contribution (seat_of ''2024-01-03'' ''S20'' 0 200 (- 9)) =
     \<lparr>addLong = 0, addShort = 200, reduceLong = 0, reduceShort = 0\<rparr> \<and>
   flow_contribution (seat_of ''2024-01-03'' ''S21'' 210 0 (- 10)) =
     \<lparr>addLong = 0, addShort = 0, reduceLong = - 210, reduceShort = 0\<rparr> \<and>
   flow_contribution (seat_of ''2024-01-03'' ''S18'' 0 180 8) =
     \<lparr>addLong = 0, addShort = 0, reduceLong = 0, reduceShort = - 180\<rparr> \<and>
   flow_contribution (seat_of ''2024-01-03'' ''S15'' 150 0 0) =
     \<lparr>addLong = 0, addShort = 0, reduceLong = 0, reduceShort = 0\<rparr>"
proof -
  let ?r = "last (calculateFlowLongShort example_many)"
  let ?dd = "day_rows example_many ''2024-01-03''"
  let ?ranked = "sort_desc (\<lambda>s. \<bar>net_vol s\<bar>) ?dd"
  have dates: "map f_trade_date (calculateFlowLongShort example_many) =
                 [''2024-01-02'', ''2024-01-03'']"
    by code_simp
  have mem: "?r \<in> set (calculateFlowLongShort example_many)" by code_simp
  have d: "f_trade_date ?r = ''2024-01-03''" by code_simp
  have len: "length ?dd = 22" by code_simp
  have top: "map (\<lambda>s. (seat_name s, net_vol s, net_chg s)) (take 10 ?ranked) =
     [(''S21'', 210, - 10), (''S20'', - 200, - 9), (''S19'', 190, 9), (''S18'', - 180, 8),
      (''S17'', 170, - 8), (''S16'', - 160, - 7), (''S15'', 150, 0), (''S13'', 140, 7),
      (''S14'', - 140, 6), (''S11'', 120, - 6)]"
    by code_simp
  have al10: "sum_list (map (\<lambda>s. addLong (flow_contribution s)) (take 10 ?ranked)) = 330"
    by code_simp
  have al20: "sum_list (map (\<lambda>s. addLong (flow_contribution s)) (take 20 ?ranked)) = 470"
    by code_simp
  have alall: "sum_list (map (\<lambda>s. addLong (flow_contribution s)) ?ranked) = 485"
    by code_simp
  have as10: "sum_list (map (\<lambda>s. addShort (flow_contribution s)) (take 10 ?ranked)) = 360"
    by code_simp
  have as20: "sum_list (map (\<lambda>s. addShort (flow_contribution s)) (take 20 ?ranked)) = 600"
    by code_simp
  have asall: "sum_list (map (\<lambda>s. addShort (flow_contribution s)) ?ranked) = 600"
    by code_simp
  have rl10: "sum_list (map (\<lambda>s. reduceLong (flow_contribution s)) (take 10 ?ranked)) = - 500"
    by code_simp
  have rl20: "sum_list (map (\<lambda>s. reduceLong (flow_contribution s)) (take 20 ?ranked)) = - 600"
    by code_simp
  have rlall: "sum_list (map (\<lambda>s. reduceLong (flow_contribution s)) ?ranked) = - 600"
    by code_simp
  have rs10: "sum_list (map (\<lambda>s. reduceShort (flow_contribution s)) (take 10 ?ranked)) = - 320"
    by code_simp
  have rs20: "sum_list (map (\<lambda>s. reduceShort (flow_contribution s)) (take 20 ?ranked)) = - 480"
    by code_simp
  have rsall: "sum_list (map (\<lambda>s. reduceShort (flow_contribution s)) ?ranked) = - 480"
    by code_simp
  have h: "?dd = day_rows example_many (f_trade_date ?r) \<and>
           ?ranked = sort_desc (\<lambda>s. \<bar>net_vol s\<bar>) ?dd"
    unfolding d by simp
  from flow_long_short_buckets[of example_many] mem h
  have "add_long_10 ?r = sum_list (map (\<lambda>s. addLong (flow_contribution s)) (take 10 ?ranked)) \<and>
        add_long_20 ?r = sum_list (map (\<lambda>s. addLong (flow_contribution s)) (take 20 ?ranked)) \<and>
        add_long_all ?r = sum_list (map (\<lambda>s. addLong (flow_contribution s)) ?ranked) \<and>
        add_short_10 ?r = sum_list (map (\<lambda>s. addShort (flow_contribution s)) (take 10 ?ranked)) \<and>
        add_short_20 ?r = sum_list (map (\<lambda>s. addShort (flow_contribution s)) (take 20 ?ranked)) \<and>
        add_short_all ?r = sum_list (map (\<lambda>s. addShort (flow_contribution s)) ?ranked) \<and>
        reduce_long_10 ?r =
          sum_list (map (\<lambda>s. reduceLong (flow_contribution s)) (take 10 ?ranked)) \<and>
        reduce_long_20 ?r =
          sum_list (map (\<lambda>s. reduceLong (flow_contribution s)) (take 20 ?ranked)) \<and>
        reduce_long_all ?r = sum_list (map (\<lambda>s. reduceLong (flow_contribution s)) ?ranked) \<and>
        reduce_short_10 ?r =
          sum_list (map (\<lambda>s. reduceShort (flow_contribution s)) (take 10 ?ranked)) \<and>
        reduce_short_20 ?r =
          sum_list (map (\<lambda>s. reduceShort (flow_contribution s)) (take 20 ?ranked)) \<and>
        reduce_short_all ?r = sum_list (map (\<lambda>s. reduceShort (flow_contribution s)) ?ranked)"
    by blast
  then have vals: "add_long_10 ?r = 330 \<and> add_long_20 ?r = 470 \<and> add_long_all ?r = 485 \<and>
        add_short_10 ?r = 360 \<and> add_short_20 ?r = 600 \<and> add_short_all ?r = 600 \<and>
        reduce_long_10 ?r = - 500 \<and> reduce_long_20 ?r = - 600 \<and> reduce_long_all ?r = - 600 \<and>
        reduce_short_10 ?r = - 320 \<and> reduce_short_20 ?r = - 480 \<and> reduce_short_all ?r = - 480"
    unfolding al10 al20 alall as10 as20 asall rl10 rl20 rlall rs10 rs20 rsall .
  have pp: "0 < net_vol (seat_of ''2024-01-03'' ''S19'' 190 0 9) \<and>
            0 < net_chg (seat_of ''2024-01-03'' ''S19'' 190 0 9)"
    by (simp add: seat_of_def)
  have nn: "net_vol (seat_of ''2024-01-03'' ''S20'' 0 200 (- 9)) < 0 \<and>
            net_chg (seat_of ''2024-01-03'' ''S20'' 0 200 (- 9)) < 0"
    by (simp add: seat_of_def)
  have pn: "0 < net_vol (seat_of ''2024-01-03'' ''S21'' 210 0 (- 10)) \<and>
            net_chg (seat_of ''2024-01-03'' ''S21'' 210 0 (- 10)) < 0"
    by (simp add: seat_of_def)
  have np: "net_vol (seat_of ''2024-01-03'' ''S18'' 0 180 8) < 0 \<and>
            0 < net_chg (seat_of ''2024-01-03'' ''S18'' 0 180 8)"
    by (simp add: seat_of_def)
  have zz: "net_vol (seat_of ''2024-01-03'' ''S15'' 150 0 0) = 0 \<or>
            net_chg (seat_of ''2024-01-03'' ''S15'' 150 0 0) = 0"
    by (simp add: seat_of_def)
  from flow_long_short_buckets[of example_many] pp
  have c1: "flow_contribution (seat_of ''2024-01-03'' ''S19'' 190 0 9) =
     \<lparr>addLong = net_vol (seat_of ''2024-01-03'' ''S19'' 190 0 9), addShort = 0,
      reduceLong = 0, reduceShort = 0\<rparr>"
    by blast
  from flow_long_short_buckets[of example_many] nn
  have c2: "flow_contribution (seat_of ''2024-01-03'' ''S20'' 0 200 (- 9)) =
     \<lparr>addLong = 0, addShort = \<bar>net_vol (seat_of ''2024-01-03'' ''S20'' 0 200 (- 9))\<bar>,
      reduceLong = 0, reduceShort = 0\<rparr>"
    by blast
  from flow_long_short_buckets[of example_many] pn
  have c3: "flow_contribution (seat_of ''2024-01-03'' ''S21'' 210 0 (- 10)) =
     \<lparr>addLong = 0, addShort = 0,
      reduceLong = - net_vol (seat_of ''2024-01-03'' ''S21'' 210 0 (- 10)), reduceShort = 0\<rparr>"
    by blast
  from flow_long_short_buckets[of example_many] np
  have c4: "flow_contribution (seat_of ''2024-01-03'' ''S18'' 0 180 8) =
     \<lparr>addLong = 0, addShort = 0, reduceLong = 0,
      reduceShort = net_vol (seat_of ''2024-01-03'' ''S18'' 0 180 8)\<rparr>"
    by blast
  from flow_long_short_buckets[of example_many] zz
  have c5: "flow_contribution (seat_of ''2024-01-03'' ''S15'' 150 0 0) =
     \<lparr>addLong = 0, addShort = 0, reduceLong = 0, reduceShort = 0\<rparr>"
    by blast
  have nv: "net_vol (seat_of ''2024-01-03'' ''S19'' 190 0 9) = 190"
    "\<bar>net_vol (seat_of ''2024-01-03'' ''S20'' 0 200 (- 9))\<bar> = 200"
    "- net_vol (seat_of ''2024-01-03'' ''S21'' 210 0 (- 10)) = - 210"
    "net_vol (seat_of ''2024-01-03'' ''S18'' 0 180 8) = - 180"
    by (simp_all add: seat_of_def)
  note cs = c1[unfolded nv] c2[unfolded nv] c3[unfolded nv] c4[unfolded nv] c5
  from dates mem d len top vals cs show ?thesis by (intro conjI) blast+
qed

subsection \<open>Profit and loss calculator\<close>

lemma js_round_zero: "js_round 0 = 0"
  by (simp add: js_round_def floor_eq_iff)

lemma js_round_int: "js_round x \<in> \<int>"
  by (simp add: js_round_def)

lemma profit_loop_sum:
  "profit_loop ps u e i acc = acc + sum_list (map (dailyProfit ps u) [i ..< Suc e])"
proof (induction ps u e i acc rule: profit_loop.induct)
  case (1 ps u e i acc)
  show ?case
  proof (cases "i \<le> e")
    case True
    then have "[i ..< Suc e] = i # [Suc i ..< Suc e]" by (simp add: upt_conv_Cons)
    with True 1 show ?thesis by (simp add: add.assoc)
  next
    case False
    then show ?thesis by simp
  qed
qed

lemma calculateProfitLoss_sum:
  "calculateProfitLoss ps u w =
     js_round (sum_list (map (dailyProfit ps u) [Suc (length ps - w) ..< length ps]))"
proof (cases "length ps < 2")
  case True
  then have "[Suc (length ps - w) ..< length ps] = []" by auto
  with True show ?thesis by (simp add: calculateProfitLoss_def js_round_zero)
next
  case False
  have st: "nat (max 0 (int (length ps - 1) - int w + 1)) + 1 = Suc (length ps - w)"
    using False by auto
  have e: "Suc (length ps - 1) = length ps" using False by simp
  have "calculateProfitLoss ps u w =
          js_round (profit_loop ps u (length ps - 1)
                      (nat (max 0 (int (length ps - 1) - int w + 1)) + 1) 0)"
    using False by (simp add: calculateProfitLoss_def Let_def del: profit_loop.simps)
  then show ?thesis unfolding profit_loop_sum st e by simp
qed


lemma matched_price_none:
  "\<forall>p\<in>set priceData. pp_date p \<noteq> d \<Longrightarrow> matched_price priceData d = 0"
proof -
  assume "\<forall>p\<in>set priceData. pp_date p \<noteq> d"
  then have "find (\<lambda>p. pp_date p = d) priceData = None" by (simp add: find_None_iff)
  then show ?thesis by (simp add: matched_price_def)
qed

lemma positionPriceData_skip:
  "positionPriceData history priceData =
     map (\<lambda>item. \<lparr>pos_date = trade_date item, netVol = net_vol item,
                    settlePrice = matched_price priceData (trade_date item)\<rparr>)
       (filter (\<lambda>item. 0 < matched_price priceData (trade_date item)) history)"
  unfolding positionPriceData_def filter_map comp_def by simp

text \<open>
  What the code computes. \<open>calculateProfitLoss\<close> returns the nearest integer
  (\<open>Math.round\<close>) to the sum of the daily profits
  \<open>(net_vol_t * settle_t - net_vol_{t-1} * settle_{t-1}) * contract_unit\<close> taken over the
  steps between consecutive positions inside the last \<open>window\<close> positions of the history:
  the last \<open>window - 1\<close> daily profits when the history has at least \<open>window\<close>
  positions, all of them when it is shorter, none (the value 0) when it has fewer than two.
  The result is always an integer. \<open>convertToSeatTableData\<close> computes the three profit
  figures of a seat from the seat's history without the rows whose date has no positive
  matched settlement price: such a row is dropped, not given the price 0.
\<close>

lemma calculateProfitLoss_window:
  "calculateProfitLoss positions contractUnit period =
     js_round (sum_list (map (dailyProfit positions contractUnit)
                 [Suc (length positions - period) ..< length positions])) \<and>
   calculateProfitLoss positions contractUnit period \<in> \<int> \<and>
   positionPriceData history priceData =
     map (\<lambda>item. \<lparr>pos_date = trade_date item, netVol = net_vol item,
                    settlePrice = matched_price priceData (trade_date item)\<rparr>)
       (filter (\<lambda>item. 0 < matched_price priceData (trade_date item)) history) \<and>
   (\<forall>d. (\<forall>p\<in>set priceData. pp_date p \<noteq> d) \<longrightarrow> matched_price priceData d = 0) \<and>
   (\<forall>row\<in>set (convertToSeatTableData seatData priceData contractUnit tradeDate).
      profit_15 row =
        calculateProfitLoss
          (positionPriceData (seatHistory seatData (t_seat_name row)) priceData) contractUnit 15 \<and>
      profit_60 row =
        calculateProfitLoss
          (positionPriceData (seatHistory seatData (t_seat_name row)) priceData) contractUnit 60 \<and>
      profit_120 row =
        calculateProfitLoss
          (positionPriceData (seatHistory seatData (t_seat_name row)) priceData) contractUnit 120)"
proof (intro conjI allI impI ballI)
  show "calculateProfitLoss positions contractUnit period =
     js_round (sum_list (map (dailyProfit positions contractUnit)
                 [Suc (length positions - period) ..< length positions]))"
    by (rule calculateProfitLoss_sum)
  then show "calculateProfitLoss positions contractUnit period \<in> \<int>"
    by (simp only: js_round_int)
  show "positionPriceData history priceData =
     map (\<lambda>item. \<lparr>pos_date = trade_date item, netVol = net_vol item,
                    settlePrice = matched_price priceData (trade_date item)\<rparr>)
       (filter (\<lambda>item. 0 < matched_price priceData (trade_date item)) history)"
    by (rule positionPriceData_skip)
next
  fix d assume "\<forall>p\<in>set priceData. pp_date p \<noteq> d"
  then show "matched_price priceData d = 0" by (rule matched_price_none)
next
  fix row assume "row \<in> set (convertToSeatTableData seatData priceData contractUnit tradeDate)"
  then obtain seat where row: "row = seat_profit_row seatData priceData contractUnit seat"
    unfolding convertToSeatTableData_def by auto
  show "profit_15 row =
        calculateProfitLoss
          (positionPriceData (seatHistory seatData (t_seat_name row)) priceData) contractUnit 15"
    unfolding row by (simp add: seat_profit_row_def Let_def)
  show "profit_60 row =
        calculateProfitLoss
          (positionPriceData (seatHistory seatData (t_seat_name row)) priceData) contractUnit 60"
    unfolding row by (simp add: seat_profit_row_def Let_def)
  show "profit_120 row =
        calculateProfitLoss
          (positionPriceData (seatHistory seatData (t_seat_name row)) priceData) contractUnit 120"
    unfolding row by (simp add: seat_profit_row_def Let_def)
qed

text \<open>
  Claim C7. The profit of a window is the sum of the daily profits of the last \<open>window\<close>
  trading days, rounded. On sixteen trading days with one lot held and the settlement
  price rising by 1 a day, the daily profits of the last 15 trading days add up to 15,
  whatever the rounding; \<open>calculateProfitLoss\<close> with the window 15 returns 14, the sum of
  the last 14 of them: its loop starts one day late.
\<close>

theorem profit_loss_window_failing_input:
  "length example_positions = 16 \<and>
   spec_profit example_positions 1 15 = 15 \<and>
   calculateProfitLoss example_positions 1 15 = 14 \<and>
   calculateProfitLoss example_positions 1 15 \<noteq> js_round (spec_profit example_positions 1 15) \<and>
   calculateProfitLoss example_positions 1 15 \<noteq> round2 (spec_profit example_positions 1 15)"
proof -
  have len: "length example_positions = 16" by code_simp
  have sp: "spec_profit example_positions 1 15 = 15" by code_simp
  have cp: "calculateProfitLoss example_positions 1 15 = 14" by code_simp
  have r1: "js_round 15 = 15" by code_simp
  have r2: "round2 15 = 15" by code_simp
  show ?thesis unfolding sp cp r1 r2 using len by simp
qed

subsection \<open>Distribution generator\<close>

lemma slice_pairs_with_ratio:
  "slice_pairs (filter (\<lambda>item. s_ratio item \<ge> 1) (with_ratio items)) =
     keep_visible (slice_pairs items)"
proof -
  let ?total = "sum_list (map s_value items)"
  let ?r = "\<lambda>item. if ?total > 0 then (s_value item / ?total) * 100 else 0"
  have total: "foldl (\<lambda>sum item. sum + s_value item) 0 items = ?total"
    by (simp add: foldl_add_sum_list)
  have snds: "map snd (slice_pairs items) = map s_value items"
    by (simp add: slice_pairs_def comp_def)
  have "slice_pairs (filter (\<lambda>item. s_ratio item \<ge> 1) (with_ratio items)) =
          slice_pairs (filter (\<lambda>item. 1 \<le> ?r item) items)"
    unfolding with_ratio_def Let_def total slice_pairs_def filter_map map_map comp_def
    by simp
  also have "\<dots> = keep_visible (slice_pairs items)"
    unfolding keep_visible_def snds unfolding slice_pairs_def filter_map comp_def
    by (intro arg_cong[where f = "map (\<lambda>item. (s_name item, s_value item))"] filter_cong)
       auto
  finally show ?thesis .
qed


lemma foldl_abs_sum_list:
  "foldl (\<lambda>sum seat. sum + \<bar>net_vol seat\<bar>) 0 xs = sum_list (map (\<lambda>s. \<bar>net_vol s\<bar>) xs)"
  by (simp add: foldl_add_sum_list)

lemma holding_distribution_eq:
  "slice_pairs (holding_distribution (generatePieChartData seatData tradeDate)) =
     keep_visible (position_entries (day_rows seatData tradeDate))"
proof -
  let ?ranked = "sort_desc (\<lambda>s. \<bar>net_vol s\<bar>) (day_rows seatData tradeDate)"
  let ?top = "map (\<lambda>seat. \<lparr>s_name = seat_name seat, s_value = \<bar>net_vol seat\<bar>, s_ratio = 0\<rparr>)
                (take 10 ?ranked)"
  let ?other = "sum_list (map (\<lambda>s. \<bar>net_vol s\<bar>) (drop 10 ?ranked))"
  let ?items = "if length (drop 10 ?ranked) > 0 \<and> ?other > 0
                then ?top @ [\<lparr>s_name = other_name, s_value = ?other, s_ratio = 0\<rparr>]
                else ?top"
  have "holding_distribution (generatePieChartData seatData tradeDate) =
          filter (\<lambda>item. s_ratio item \<ge> 1) (with_ratio ?items)"
    unfolding generatePieChartData_def Let_def foldl_abs_sum_list day_rows_def by simp
  then have "slice_pairs (holding_distribution (generatePieChartData seatData tradeDate)) =
          keep_visible (slice_pairs ?items)"
    by (simp only: slice_pairs_with_ratio)
  moreover have "slice_pairs ?items = position_entries (day_rows seatData tradeDate)"
    unfolding position_entries_def Let_def slice_pairs_def by (simp add: comp_def)
  ultimately show ?thesis by simp
qed

lemma holding_change_eq:
  "slice_pairs (holding_change (generatePieChartData seatData tradeDate)) =
     keep_visible (change_entries (day_rows seatData tradeDate))"
proof -
  let ?items = "map (\<lambda>seat. \<lparr>s_name = seat_name seat, s_value = \<bar>net_chg seat\<bar>, s_ratio = 0\<rparr>)
                 (take 10 (filter (\<lambda>seat. net_chg seat \<noteq> 0)
                    (sort_desc (\<lambda>s. \<bar>net_chg s\<bar>) (day_rows seatData tradeDate))))"
  have "holding_change (generatePieChartData seatData tradeDate) =
          filter (\<lambda>item. s_ratio item \<ge> 1) (with_ratio ?items)"
    unfolding generatePieChartData_def Let_def day_rows_def by simp
  then have "slice_pairs (holding_change (generatePieChartData seatData tradeDate)) =
          keep_visible (slice_pairs ?items)"
    by (simp only: slice_pairs_with_ratio)
  moreover have "slice_pairs ?items = change_entries (day_rows seatData tradeDate)"
    unfolding change_entries_def slice_pairs_def by (simp add: comp_def)
  ultimately show ?thesis by simp
qed

lemma change_entries_names:
  "set (map fst (keep_visible (change_entries dd))) \<subseteq> set (map seat_name dd)"
proof -
  have "set (map fst (change_entries dd)) \<subseteq>
          seat_name ` set (take 10 (filter (\<lambda>s. net_chg s \<noteq> 0) (sort_desc (\<lambda>s. \<bar>net_chg s\<bar>) dd)))"
    unfolding change_entries_def by auto
  also have "\<dots> \<subseteq> seat_name ` set (filter (\<lambda>s. net_chg s \<noteq> 0) (sort_desc (\<lambda>s. \<bar>net_chg s\<bar>) dd))"
    by (intro image_mono set_take_subset)
  also have "\<dots> \<subseteq> seat_name ` set dd" by auto
  finally have "set (map fst (change_entries dd)) \<subseteq> set (map seat_name dd)" by simp
  moreover have "set (keep_visible (change_entries dd)) \<subseteq> set (change_entries dd)"
    unfolding keep_visible_def by auto
  ultimately show ?thesis by auto
qed

text \<open>
  Claim C8, as amended. For a date, \<open>generatePieChartData\<close> ranks the date's seats by
  \<open>|net_vol|\<close> for the position distribution and by \<open>|net_chg|\<close>, over the seats whose
  net change is not 0, for the change distribution, and takes the first ten entries of
  each ranking. The remaining entries of the position ranking are consolidated into one
  bucket named "other", whose value is the sum of their \<open>|net_vol|\<close>, added when there are
  remaining entries and that sum is positive. From both lists the entries whose share of
  the list's total is below 1 percent are dropped. The change distribution so reported
  has at most ten entries, all of them seats of the date.
\<close>

theorem pie_chart_distributions:
  "slice_pairs (holding_distribution (generatePieChartData seatData tradeDate)) =
     keep_visible (position_entries (day_rows seatData tradeDate)) \<and>
   slice_pairs (holding_change (generatePieChartData seatData tradeDate)) =
     keep_visible (change_entries (day_rows seatData tradeDate)) \<and>
   length (holding_change (generatePieChartData seatData tradeDate)) \<le> 10 \<and>
   set (map s_name (holding_change (generatePieChartData seatData tradeDate))) \<subseteq>
     set (map seat_name (day_rows seatData tradeDate))"
proof (intro conjI)
  show "slice_pairs (holding_distribution (generatePieChartData seatData tradeDate)) =
     keep_visible (position_entries (day_rows seatData tradeDate))"
    by (rule holding_distribution_eq)
  show ch: "slice_pairs (holding_change (generatePieChartData seatData tradeDate)) =
     keep_visible (change_entries (day_rows seatData tradeDate))"
    by (rule holding_change_eq)
  have "length (holding_change (generatePieChartData seatData tradeDate)) =
          length (slice_pairs (holding_change (generatePieChartData seatData tradeDate)))"
    by (simp add: slice_pairs_def)
  also have "\<dots> \<le> length (change_entries (day_rows seatData tradeDate))"
    unfolding ch keep_visible_def by (rule length_filter_le)
  also have "\<dots> \<le> 10" by (simp add: change_entries_def)
  finally show "length (holding_change (generatePieChartData seatData tradeDate)) \<le> 10" .
  have "map s_name (holding_change (generatePieChartData seatData tradeDate)) =
          map fst (slice_pairs (holding_change (generatePieChartData seatData tradeDate)))"
    by (simp add: slice_pairs_def comp_def)
  then show "set (map s_name (holding_change (generatePieChartData seatData tradeDate))) \<subseteq>
     set (map seat_name (day_rows seatData tradeDate))"
    unfolding ch using change_entries_names by simp
qed

theorem pie_chart_distributions_witness:
  "slice_pairs (holding_distribution (generatePieChartData example_eleven ''2024-01-03'')) =
     [(''S01'', 10), (''S02'', 10), (''S03'', 10), (''S04'', 10), (''S05'', 10),
      (''S06'', 10), (''S07'', 10), (''S08'', 10), (''S09'', 10), (''S10'', 10),
      (other_name, 10)] \<and>
   slice_pairs (holding_change (generatePieChartData example_eleven ''2024-01-03'')) =
     [(''S01'', 10), (''S02'', 10), (''S03'', 10), (''S04'', 10), (''S05'', 10),
      (''S06'', 10), (''S07'', 10), (''S08'', 10), (''S09'', 10), (''S10'', 10)]"
proof -
  have p: "keep_visible (position_entries (day_rows example_eleven ''2024-01-03'')) =
     [(''S01'', 10), (''S02'', 10), (''S03'', 10), (''S04'', 10), (''S05'', 10),
      (''S06'', 10), (''S07'', 10), (''S08'', 10), (''S09'', 10), (''S10'', 10),
      (other_name, 10)]"
    by code_simp
  have c: "keep_visible (change_entries (day_rows example_eleven ''2024-01-03'')) =
     [(''S01'', 10), (''S02'', 10), (''S03'', 10), (''S04'', 10), (''S05'', 10),
      (''S06'', 10), (''S07'', 10), (''S08'', 10), (''S09'', 10), (''S10'', 10)]"
    by code_simp
  from pie_chart_distributions[of example_eleven "''2024-01-03''"]
  have "slice_pairs (holding_distribution (generatePieChartData example_eleven ''2024-01-03'')) =
     keep_visible (position_entries (day_rows example_eleven ''2024-01-03'')) \<and>
   slice_pairs (holding_change (generatePieChartData example_eleven ''2024-01-03'')) =
     keep_visible (change_entries (day_rows example_eleven ''2024-01-03''))"
    by blast
  then show ?thesis unfolding p c .
qed

text \<open>
  Claim C8 as stated fails. With eleven seats of net change 10 on a day, ranking by
  \<open>|net_chg|\<close>, keeping ten entries and consolidating the eleventh would give a bucket
  "other" of value 10; the change distribution that \<open>generatePieChartData\<close> returns has the
  ten seats and no such bucket.
\<close>

theorem pie_chart_distributions_counterexample:
  "length (day_rows example_eleven ''2024-01-03'') = 11 \<and>
   (other_name, 10) \<in> set (spec_distribution net_chg (day_rows example_eleven ''2024-01-03'')) \<and>
   other_name \<notin> set (map s_name
      (holding_change (generatePieChartData example_eleven ''2024-01-03''))) \<and>
   slice_pairs (holding_change (generatePieChartData example_eleven ''2024-01-03'')) \<noteq>
     spec_distribution net_chg (day_rows example_eleven ''2024-01-03'')"
proof -
  have a: "length (day_rows example_eleven ''2024-01-03'') = 11" by code_simp
  have b: "(other_name, 10) \<in>
             set (spec_distribution net_chg (day_rows example_eleven ''2024-01-03''))"
    by code_simp
  have c: "other_name \<notin> set (map s_name
      (holding_change (generatePieChartData example_eleven ''2024-01-03'')))"
    by code_simp
  have "fst ` set (slice_pairs (holding_change (generatePieChartData example_eleven ''2024-01-03'')))
          = set (map s_name (holding_change (generatePieChartData example_eleven ''2024-01-03'')))"
    by (simp add: slice_pairs_def image_image)
  with c have "(other_name, 10) \<notin>
      set (slice_pairs (holding_change (generatePieChartData example_eleven ''2024-01-03'')))"
    by (metis fst_conv image_eqI)
  with b have d: "slice_pairs (holding_change (generatePieChartData example_eleven ''2024-01-03'')) \<noteq>
     spec_distribution net_chg (day_rows example_eleven ''2024-01-03'')"
    by metis
  from a b c d show ?thesis by blast
qed

subsection \<open>Screening and scoring engine\<close>

lemma checkPriceCondition_resolved:
  "contracts \<noteq> [] \<Longrightarrow> \<exists>b. checkPriceCondition contracts days ty = Resolved b"
  by (cases contracts) (auto simp: checkPriceCondition_def Let_def)

lemma add_match_False [simp]: "add_match False ty w st = st"
  by (simp add: add_match_def)

lemma price_step_spec:
  assumes "contracts \<noteq> []"
  shows "price_step params contracts st =
     Resolved (add_match
       (case price_cond params of
          None \<Rightarrow> False
        | Some c \<Rightarrow> pc_enabled c \<and>
            checkPriceCondition contracts (pc_days c) (pc_type c) = Resolved True)
       PriceCondition 10 st)"
proof (cases "price_cond params")
  case None
  then show ?thesis by (simp add: price_step_def)
next
  case (Some c)
  from checkPriceCondition_resolved[OF assms, of "pc_days c" "pc_type c"]
  obtain b where "checkPriceCondition contracts (pc_days c) (pc_type c) = Resolved b" by blast
  with Some show ?thesis by (simp add: price_step_def)
qed

lemma real_compare_step_spec:
  "real_compare_step ds params c st =
     add_match
       (case real_compare params of
          None \<Rightarrow> False
        | Some cc \<Rightarrow> cc_enabled cc \<and>
            checkRealLongShortCompare ds c (cc_longPeriod cc) (cc_shortPeriod cc)
              (cc_operator cc))
       RealCompare 15 st"
  by (simp add: real_compare_step_def split: option.splits)

lemma net_compare_step_spec:
  "net_compare_step ds params c st =
     add_match
       (case net_compare params of
          None \<Rightarrow> False
        | Some cc \<Rightarrow> cc_enabled cc \<and>
            checkNetLongShortCompare ds c (cc_longPeriod cc) (cc_shortPeriod cc)
              (cc_operator cc))
       NetCompare 15 st"
  by (simp add: net_compare_step_def split: option.splits)

lemma extreme_loop_step:
  "extreme_loop ds c ((key, ty, cond) # rest) st =
     extreme_loop ds c rest (add_match (extreme_holds ds c key cond) ty 12 st)"
  by (cases cond) (simp_all add: extreme_holds_def)

lemma foldl_table_step:
  "foldl table_step (mc, s) tbl =
     (mc @ map snd (filter fst tbl),
      s + sum_list (map cond_weight (map snd (filter fst tbl))))"
  by (induction tbl arbitrary: mc s) (simp_all add: table_step_def add_match_def add.assoc)

lemma evaluate_commodity_fold:
  assumes "contracts \<noteq> []"
  shows "evaluate_commodity ds params contracts c =
           Resolved (foldl table_step ([], 0) (condition_table ds params contracts c))"
  unfolding evaluate_commodity_def price_step_spec[OF assms] real_compare_step_spec
    net_compare_step_spec extremeConditions_def extreme_loop_step extreme_loop.simps(1)
    condition_table_def
  by (simp add: table_step_def)

lemma evaluate_commodity_spec:
  assumes "contracts \<noteq> []"
  shows "evaluate_commodity ds params contracts c =
           Resolved (satisfied_conditions ds params contracts c,
                     sum_list (map cond_weight (satisfied_conditions ds params contracts c)))"
  unfolding evaluate_commodity_fold[OF assms] foldl_table_step satisfied_conditions_def
  by simp


lemma contracts_of_nonempty:
  "c \<in> set (map w_commodity_id wc) \<Longrightarrow> contracts_of wc c \<noteq> []"
proof -
  assume "c \<in> set (map w_commodity_id wc)"
  then have "filter (\<lambda>item. w_commodity_id item = c) wc \<noteq> []"
    by (auto simp: filter_empty_conv)
  then have "length (contracts_of wc c) \<noteq> 0"
    unfolding contracts_of_def length_sort_desc by simp
  then show ?thesis by auto
qed

lemma filter_loop_spec:
  assumes "set ids \<subseteq> set (map w_commodity_id wc)"
  shows "filter_loop ds params wc ids results =
           Resolved (results @
             map (result_of ds params wc)
               (filter (\<lambda>c. satisfied_conditions ds params (contracts_of wc c) c \<noteq> []) ids))"
  using assms
proof (induction ids arbitrary: results)
  case Nil
  then show ?case by simp
next
  case (Cons c ids)
  have c: "c \<in> set (map w_commodity_id wc)" and rest: "set ids \<subseteq> set (map w_commodity_id wc)"
    using Cons.prems by auto
  have ne: "contracts_of wc c \<noteq> []" using c by (rule contracts_of_nonempty)
  then have ne': "filter (\<lambda>item. w_commodity_id item = c) wc \<noteq> []"
    unfolding contracts_of_def by (auto simp: sort_desc_def)
  have ev: "evaluate_commodity ds params
              (sort_desc w_trade_date (filter (\<lambda>item. w_commodity_id item = c) wc)) c =
            Resolved (satisfied_conditions ds params (contracts_of wc c) c,
                      sum_list (map cond_weight
                        (satisfied_conditions ds params (contracts_of wc c) c)))"
    using evaluate_commodity_spec[OF ne] unfolding contracts_of_def .
  show ?case
  proof (cases "satisfied_conditions ds params (contracts_of wc c) c = []")
    case True
    then show ?thesis
      using ne' Cons.IH[OF rest, of results] ev
      by (simp add: Let_def)
  next
    case False
    then show ?thesis
      using ne' ev
        Cons.IH[OF rest, of "results @ [result_of ds params wc c]"]
      by (simp add: Let_def result_of_def contracts_of_def)
  qed
qed

lemma commodityIds_set:
  "set (commodityIds wc) = set (map w_commodity_id wc) \<and> distinct (commodityIds wc)"
  by (simp add: commodityIds_def)

lemma executeFilter_spec:
  assumes "getAllWeightedContracts ds = Resolved wc"
  shows "executeFilter ds params =
           Resolved (sort_desc score
             (map (result_of ds params wc)
               (filter (\<lambda>c. satisfied_conditions ds params (contracts_of wc c) c \<noteq> [])
                  (commodityIds wc))))"
proof -
  have "set (commodityIds wc) \<subseteq> set (map w_commodity_id wc)"
    using commodityIds_set by blast
  from filter_loop_spec[OF this, of ds params "[]"] assms
  show ?thesis by (simp add: executeFilter_def)
qed

lemma distinct_map_sort_desc:
  "distinct (map g (sort_desc f xs)) = distinct (map g xs)"
proof -
  have "mset (map g (sort_desc f xs)) = mset (map g xs)" by simp
  then show ?thesis by (rule mset_eq_imp_distinct_iff)
qed

lemma set_map_sort_desc: "set (map g (sort_desc f xs)) = set (map g xs)"
  by simp

lemma result_of_id: "fr_commodity_id (result_of ds params wc c) = c"
  by (simp add: result_of_def)


text \<open>
  Claim C9. When the weighted contracts can be read, \<open>executeFilter\<close> returns a list of
  results sorted by score descending, with one result for every commodity that satisfies
  at least one enabled condition and none for the others. The matched-conditions list of
  a result holds the types of exactly the satisfied enabled conditions of its commodity,
  and its score is the sum of their weights: 10 for the price condition, 15 for the real
  and for the net comparison, 12 for every extremum condition. A commodity that satisfies
  the price condition and the real comparison only has both listed and the score 25.
\<close>

theorem filter_score_and_matches:
  assumes "getAllWeightedContracts ds = Resolved wc"
  shows "(\<exists>results. executeFilter ds params = Resolved results \<and>
      sorted_wrt (\<lambda>a b. score b \<le> score a) results \<and>
      distinct (map fr_commodity_id results) \<and>
      set (map fr_commodity_id results) =
        {c \<in> set (map w_commodity_id wc).
           satisfied_conditions ds params (contracts_of wc c) c \<noteq> []} \<and>
      (\<forall>r\<in>set results.
         match_conditions r =
           satisfied_conditions ds params (contracts_of wc (fr_commodity_id r))
             (fr_commodity_id r) \<and>
         match_conditions r \<noteq> [] \<and>
         score r = sum_list (map cond_weight (match_conditions r)) \<and>
         (match_conditions r = [PriceCondition, RealCompare] \<longrightarrow> score r = 25))) \<and>
    map cond_weight [PriceCondition, RealCompare, NetCompare, RealExtreme, RealDiffExtreme,
                     NetExtreme, NetDiffExtreme] = [10, 15, 15, 12, 12, 12, 12]"
proof (intro conjI)
  let ?has = "\<lambda>c. satisfied_conditions ds params (contracts_of wc c) c \<noteq> []"
  let ?pre = "map (result_of ds params wc) (filter ?has (commodityIds wc))"
  let ?res = "sort_desc score ?pre"
  have ex: "executeFilter ds params = Resolved ?res"
    using assms by (rule executeFilter_spec)
  have ids: "map fr_commodity_id ?pre = filter ?has (commodityIds wc)"
    by (simp add: comp_def result_of_id)
  have dist_eq: "distinct (map fr_commodity_id ?res) = distinct (map fr_commodity_id ?pre)"
    by (rule distinct_map_sort_desc)
  have set_eq: "set (map fr_commodity_id ?res) = set (map fr_commodity_id ?pre)"
    by (rule set_map_sort_desc)
  have dist: "distinct (map fr_commodity_id ?res)"
    unfolding dist_eq ids using commodityIds_set[of wc] by simp
  have st: "set (map fr_commodity_id ?res) =
        {c \<in> set (map w_commodity_id wc). ?has c}"
    unfolding set_eq ids using commodityIds_set[of wc] by auto
  have each: "\<forall>r\<in>set ?res.
         match_conditions r =
           satisfied_conditions ds params (contracts_of wc (fr_commodity_id r))
             (fr_commodity_id r) \<and>
         match_conditions r \<noteq> [] \<and>
         score r = sum_list (map cond_weight (match_conditions r)) \<and>
         (match_conditions r = [PriceCondition, RealCompare] \<longrightarrow> score r = 25)"
  proof
    fix r assume "r \<in> set ?res"
    then have "r \<in> set ?pre" by (simp only: set_sort_desc)
    then obtain c where c: "?has c" and r: "r = result_of ds params wc c" by auto
    have sc: "score r = sum_list (map cond_weight (match_conditions r))"
      unfolding r by (simp add: result_of_def)
    have "match_conditions r = [PriceCondition, RealCompare] \<longrightarrow> score r = 25"
      unfolding sc by simp
    with c sc show "match_conditions r =
           satisfied_conditions ds params (contracts_of wc (fr_commodity_id r))
             (fr_commodity_id r) \<and>
         match_conditions r \<noteq> [] \<and>
         score r = sum_list (map cond_weight (match_conditions r)) \<and>
         (match_conditions r = [PriceCondition, RealCompare] \<longrightarrow> score r = 25)"
      unfolding r by (simp add: result_of_def)
  qed
  have srt: "sorted_wrt (\<lambda>a b. score b \<le> score a) ?res" by (rule sort_desc_sorted)
  from ex srt dist st each
  show "\<exists>results. executeFilter ds params = Resolved results \<and>
      sorted_wrt (\<lambda>a b. score b \<le> score a) results \<and>
      distinct (map fr_commodity_id results) \<and>
      set (map fr_commodity_id results) =
        {c \<in> set (map w_commodity_id wc).
           satisfied_conditions ds params (contracts_of wc c) c \<noteq> []} \<and>
      (\<forall>r\<in>set results.
         match_conditions r =
           satisfied_conditions ds params (contracts_of wc (fr_commodity_id r))
             (fr_commodity_id r) \<and>
         match_conditions r \<noteq> [] \<and>
         score r = sum_list (map cond_weight (match_conditions r)) \<and>
         (match_conditions r = [PriceCondition, RealCompare] \<longrightarrow> score r = 25))"
    by blast
  show "map cond_weight [PriceCondition, RealCompare, NetCompare, RealExtreme, RealDiffExtreme,
                     NetExtreme, NetDiffExtreme] = [10, 15, 15, 12, 12, 12, 12]"
    by simp
qed

theorem filter_score_and_matches_witness:
  "getAllWeightedContracts example_service = Resolved example_contracts \<and>
   executeFilter example_service example_params = Resolved [example_result] \<and>
   match_conditions example_result =
     satisfied_conditions example_service example_params
       (contracts_of example_contracts ''cu'') ''cu'' \<and>
   match_conditions example_result = [PriceCondition, RealCompare] \<and>
   score example_result = sum_list (map cond_weight (match_conditions example_result)) \<and>
   score example_result = 25 \<and>
   satisfied_conditions example_service example_params
       (contracts_of example_contracts ''zn'') ''zn'' = []"
proof -
  have g: "getAllWeightedContracts example_service = Resolved example_contracts"
    by (simp add: example_service_def)
  have e: "executeFilter example_service example_params = Resolved [example_result]"
    by code_simp
  have id: "fr_commodity_id example_result = ''cu''" by (simp add: example_result_def)
  have m: "match_conditions example_result = [PriceCondition, RealCompare]"
    by (simp add: example_result_def)
  have s: "score example_result = 25" by (simp add: example_result_def)
  have zn: "satisfied_conditions example_service example_params
       (contracts_of example_contracts ''zn'') ''zn'' = []"
    by code_simp
  from filter_score_and_matches[OF g, of example_params]
  have "\<forall>r\<in>set [example_result].
         match_conditions r =
           satisfied_conditions example_service example_params
             (contracts_of example_contracts (fr_commodity_id r)) (fr_commodity_id r) \<and>
         score r = sum_list (map cond_weight (match_conditions r))"
    unfolding e by auto
  then have "match_conditions example_result =
           satisfied_conditions example_service example_params
             (contracts_of example_contracts ''cu'') ''cu'' \<and>
         score example_result = sum_list (map cond_weight (match_conditions example_result))"
    unfolding id[symmetric] by simp
  with g e m s zn show ?thesis by blast
qed


lemma checkPriceCondition_short:
  "length contracts < days \<Longrightarrow> checkPriceCondition contracts days ty = Resolved False"
  by (simp add: checkPriceCondition_def)

lemma checkExtremeCondition_short:
  "extreme_data ds c key = Resolved data \<Longrightarrow> length data < days \<Longrightarrow>
   checkExtremeCondition ds c key p days ty = False"
  by (simp add: checkExtremeCondition_def)

lemma checkExtremeCondition_rejected:
  "extreme_data ds c key = Rejected \<Longrightarrow> checkExtremeCondition ds c key p days ty = False"
  by (simp add: checkExtremeCondition_def)

lemma price_not_satisfied:
  assumes "price_cond params = Some c0" and "length contracts < pc_days c0"
  shows "PriceCondition \<notin> set (satisfied_conditions ds params contracts c)"
  using assms checkPriceCondition_short[of contracts "pc_days c0" "pc_type c0"]
  by (auto simp: satisfied_conditions_def condition_table_def)

text \<open>
  Claim C10. A price-extremum condition whose look-back of \<open>days\<close> is longer than the
  commodity's history of weighted contracts, and an indicator-extremum condition whose
  look-back is longer than the indicator series read for the commodity, evaluate to
  \<open>false\<close>. Nothing is raised: the evaluation of the commodity still resolves, with the
  matched list made of the satisfied ones among all enabled conditions and without the
  price condition when its history is too short, and \<open>executeFilter\<close> resolves whenever
  the weighted contracts can be read.
\<close>

theorem insufficient_history_unsatisfied:
  "(length contracts < days \<longrightarrow> checkPriceCondition contracts days pty = Resolved False) \<and>
   (\<forall>data. extreme_data ds commodityId key = Resolved data \<and> length data < days \<longrightarrow>
      checkExtremeCondition ds commodityId key p days ety = False) \<and>
   (contracts \<noteq> [] \<longrightarrow>
      evaluate_commodity ds params contracts commodityId =
        Resolved (satisfied_conditions ds params contracts commodityId,
                  sum_list (map cond_weight
                    (satisfied_conditions ds params contracts commodityId)))) \<and>
   (\<forall>c0. price_cond params = Some c0 \<and> length contracts < pc_days c0 \<longrightarrow>
      PriceCondition \<notin> set (satisfied_conditions ds params contracts commodityId)) \<and>
   (\<forall>c0 data. extreme_data ds commodityId key = Resolved data \<and> length data < ec_days c0 \<longrightarrow>
      \<not> extreme_holds ds commodityId key (Some c0)) \<and>
   (\<forall>wc. getAllWeightedContracts ds = Resolved wc \<longrightarrow>
      (\<exists>results. executeFilter ds params = Resolved results))"
proof (intro conjI allI impI)
  assume "length contracts < days"
  then show "checkPriceCondition contracts days pty = Resolved False"
    by (rule checkPriceCondition_short)
next
  fix data assume "extreme_data ds commodityId key = Resolved data \<and> length data < days"
  then show "checkExtremeCondition ds commodityId key p days ety = False"
    using checkExtremeCondition_short by blast
next
  assume "contracts \<noteq> []"
  then show "evaluate_commodity ds params contracts commodityId =
        Resolved (satisfied_conditions ds params contracts commodityId,
                  sum_list (map cond_weight
                    (satisfied_conditions ds params contracts commodityId)))"
    by (rule evaluate_commodity_spec)
next
  fix c0 assume "price_cond params = Some c0 \<and> length contracts < pc_days c0"
  then show "PriceCondition \<notin> set (satisfied_conditions ds params contracts commodityId)"
    using price_not_satisfied by blast
next
  fix c0 :: extreme_condition and data
  assume "extreme_data ds commodityId key = Resolved data \<and> length data < ec_days c0"
  then have "checkExtremeCondition ds commodityId key (ec_period c0) (ec_days c0) (ec_type c0)
               = False"
    using checkExtremeCondition_short by blast
  then show "\<not> extreme_holds ds commodityId key (Some c0)"
    by (simp add: extreme_holds_def)
next
  fix wc assume "getAllWeightedContracts ds = Resolved wc"
  from executeFilter_spec[OF this, of params]
  show "\<exists>results. executeFilter ds params = Resolved results" by blast
qed

theorem insufficient_history_unsatisfied_witness:
  "length (contracts_of example_contracts ''zn'') < 5 \<and>
   checkPriceCondition (contracts_of example_contracts ''zn'') 5 Highest = Resolved False \<and>
   extreme_data example_service ''cu'' RealLongExtremeKey = Resolved [RealRow example_real_row] \<and>
   checkExtremeCondition example_service ''cu'' RealLongExtremeKey P10 5 MaxType = False \<and>
   contracts_of example_contracts ''cu'' \<noteq> [] \<and>
   evaluate_commodity example_service example_params (contracts_of example_contracts ''cu'') ''cu'' =
     Resolved (satisfied_conditions example_service example_params
                 (contracts_of example_contracts ''cu'') ''cu'',
               sum_list (map cond_weight
                 (satisfied_conditions example_service example_params
                    (contracts_of example_contracts ''cu'') ''cu''))) \<and>
   satisfied_conditions example_service example_params
     (contracts_of example_contracts ''cu'') ''cu'' = [PriceCondition, RealCompare]"
proof -
  have l: "length (contracts_of example_contracts ''zn'') < 5" by code_simp
  have d: "extreme_data example_service ''cu'' RealLongExtremeKey =
             Resolved [RealRow example_real_row]"
    by code_simp
  have dl: "length [RealRow example_real_row] < 5" by simp
  have ne: "contracts_of example_contracts ''cu'' \<noteq> []" by code_simp
  have sat: "satisfied_conditions example_service example_params
     (contracts_of example_contracts ''cu'') ''cu'' = [PriceCondition, RealCompare]"
    by code_simp
  from insufficient_history_unsatisfied[of "contracts_of example_contracts ''zn''" 5 Highest
      example_service "''cu''" RealLongExtremeKey P10 MaxType example_params] l
  have a: "checkPriceCondition (contracts_of example_contracts ''zn'') 5 Highest = Resolved False"
    by blast
  from insufficient_history_unsatisfied[of "contracts_of example_contracts ''zn''" 5 Highest
      example_service "''cu''" RealLongExtremeKey P10 MaxType example_params] d dl
  have b: "checkExtremeCondition example_service ''cu'' RealLongExtremeKey P10 5 MaxType = False"
    by blast
  from insufficient_history_unsatisfied[of "contracts_of example_contracts ''cu''" 5 Highest
      example_service "''cu''" RealLongExtremeKey P10 MaxType example_params] ne
  have c: "evaluate_commodity example_service example_params
             (contracts_of example_contracts ''cu'') ''cu'' =
     Resolved (satisfied_conditions example_service example_params
                 (contracts_of example_contracts ''cu'') ''cu'',
               sum_list (map cond_weight
                 (satisfied_conditions example_service example_params
                    (contracts_of example_contracts ''cu'') ''cu'')))"
    by blast
  from l a d b ne c sat show ?thesis by blast
qed

end
